theory Spec2Isabelle
  imports Main "HOL-Library.Word"
begin

unbundle bit_operations_syntax

section \<open>The printer socket installer\<close>

text \<open>
  The repository holds two versions of one administrative program.
  \<^item> \<^verbatim>\<open>src/main.go\<close>: the first version. It writes two constant unit files
    (\<^verbatim>\<open>epson-printer.socket\<close>, \<^verbatim>\<open>epson-printer@.service\<close>) and runs three systemctl
    commands. Its constants and its \<^verbatim>\<open>main\<close> are embedded with the prefix \<open>epson_\<close>.
  \<^item> \<^verbatim>\<open>src/unnamed/part_000\<close>: the second version. It discovers the printers under
    \<^verbatim>\<open>/dev/usb\<close>, asks the user for one, and writes \<^verbatim>\<open>escpos-printer.socket\<close> and
    \<^verbatim>\<open>escpos-printer@.service\<close>. Its functions keep their names.

  Both are packages \<^verbatim>\<open>main\<close> declaring the same identifiers, so one of them has to be
  renamed here.

  Everything the program does is an effect on the operating system. The embedding makes
  the operating system a record of responses (\<open>env\<close>) and the program a function from
  that record to the chronological list of the effects performed (\<open>event list\<close>) and
  the exit code of the process.
\<close>

subsection \<open>Strings, errors, file modes\<close>

text \<open>
  A Go \<^verbatim>\<open>string\<close> is a sequence of bytes, and so is \<^typ>\<open>string\<close>. The source is UTF-8, so
  a character beyond ASCII in a Go literal is written here as its bytes.
  A Go \<^verbatim>\<open>error\<close> is represented by its message (\<^verbatim>\<open>err.Error()\<close>), which is all the
  program ever does with one (\<^verbatim>\<open>%v\<close>, \<^verbatim>\<open>%w\<close>) besides comparing it with \<^verbatim>\<open>nil\<close>.
\<close>

type_synonym error = string

text \<open>\<^verbatim>\<open>os.FileMode\<close> is a \<^verbatim>\<open>uint32\<close>; \<^verbatim>\<open>os.ModeCharDevice\<close> is bit 21 of it.\<close>

type_synonym FileMode = "32 word"

definition ModeCharDevice :: FileMode where
  "ModeCharDevice = push_bit 21 1"

text \<open>The check mark U+2713 that starts the progress messages, in UTF-8.\<close>

definition check_mark :: string where
  "check_mark = [CHR 0xE2, CHR 0x9C, CHR 0x93]"

text \<open>
  The verb \<^verbatim>\<open>%d\<close> of package \<^verbatim>\<open>fmt\<close> on an \<^verbatim>\<open>int\<close>: decimal digits, most significant
  first, with a minus sign for a negative number.
\<close>

definition digit_char :: "nat \<Rightarrow> char" where
  "digit_char d = ''0123456789'' ! d"

function decimal :: "nat \<Rightarrow> string" where
  "decimal n = (if n < 10 then [digit_char n] else decimal (n div 10) @ [digit_char (n mod 10)])"
  by pat_completeness auto
termination
  by (relation "measure id") auto

declare decimal.simps [simp del]

definition fmt_d :: "int \<Rightarrow> string" where
  "fmt_d i = (if i < 0 then CHR ''-'' # decimal (nat (- i)) else decimal (nat i))"

text \<open>\<^verbatim>\<open>strings.Join(elems, sep)\<close>.\<close>

fun Join :: "string list \<Rightarrow> string \<Rightarrow> string" where
  "Join [] sep = []"
| "Join [x] sep = x"
| "Join (x # y # ys) sep = x @ sep @ Join (y # ys) sep"

subsection \<open>The operating system and the effects\<close>

text \<open>
  What \<^verbatim>\<open>fmt.Scanln(&choice)\<close> does on one call: it stores an integer in \<^verbatim>\<open>choice\<close> and
  returns no error, or it returns an error. After an error the source does not read
  \<^verbatim>\<open>choice\<close> before the next call of \<^verbatim>\<open>Scanln\<close>, so the value left in the variable by a
  failed scan is not part of the model.
\<close>

datatype scan_result = Scanned int | ScanFailed error

text \<open>
  The responses of the system. \<open>fmt_Scanln env i\<close> is the response to the \<open>i\<close>-th call
  of \<^verbatim>\<open>fmt.Scanln\<close> (counted from 0): standard input is an endless sequence of responses,
  where an exhausted input answers \<^verbatim>\<open>EOF\<close> for ever.
\<close>

record env =
  os_Geteuid :: int
  filepath_Glob :: "string \<Rightarrow> error + string list"
  os_Stat :: "string \<Rightarrow> error + FileMode"
  fmt_Scanln :: "nat \<Rightarrow> scan_result"
  os_WriteFile :: "string \<Rightarrow> string \<Rightarrow> nat \<Rightarrow> error option"
  exec_CombinedOutput :: "string list \<Rightarrow> string \<times> error option"

text \<open>
  The effects, in the order the program performs them. \<open>Stdout s\<close> is the bytes \<open>s\<close>
  written to standard output (\<^verbatim>\<open>fmt.Print\<close>, \<^verbatim>\<open>fmt.Println\<close>, \<^verbatim>\<open>fmt.Printf\<close>).
  \<open>LogFatal s\<close> is \<^verbatim>\<open>log.Fatal\<close> or \<^verbatim>\<open>log.Fatalf\<close> with the formatted message \<open>s\<close>:
  the standard logger writes it to standard error and the process exits with code 1.
  \<open>CallCombinedOutput args\<close> is \<^verbatim>\<open>exec.Command(args[0], args[1:]...).CombinedOutput()\<close>.
\<close>

datatype event =
    Stdout string
  | LogFatal string
  | CallGeteuid
  | CallGlob string
  | CallStat string
  | CallScanln
  | CallWriteFile string string nat
  | CallCombinedOutput "string list"

subsection \<open>The unit file contents of \<^verbatim>\<open>src/unnamed/part_000\<close>\<close>

definition socketFileContent :: string where
  "socketFileContent =
     ''[Unit]\<newline>'' @
     ''Description=ESC/POS Printer Socket\<newline>'' @
     ''\<newline>'' @
     ''[Socket]\<newline>'' @
     ''ListenStream=0.0.0.0:9100\<newline>'' @
     ''Accept=yes\<newline>'' @
     ''\<newline>'' @
     ''[Install]\<newline>'' @
     ''WantedBy=sockets.target\<newline>''"

text \<open>\<^verbatim>\<open>fmt.Sprintf\<close> with the single verb \<^verbatim>\<open>%s\<close>: the argument is inserted as it is.\<close>

definition serviceFileContent :: "string \<Rightarrow> string" where
  "serviceFileContent printerPath =
     ''[Unit]\<newline>'' @
     ''Description=ESC/POS Printer Service\<newline>'' @
     ''\<newline>'' @
     ''[Service]\<newline>'' @
     ''ExecStart=-/usr/bin/tee /dev/null > '' @ printerPath @ ''\<newline>'' @
     ''StandardInput=socket\<newline>''"

subsection \<open>\<^verbatim>\<open>findPrinters\<close>\<close>

text \<open>
  The loop over the matches, with the effects so far (\<open>t\<close>) and the slice \<^verbatim>\<open>printers\<close> as
  its state. A match whose \<^verbatim>\<open>os.Stat\<close> fails is skipped (\<^verbatim>\<open>continue\<close>).
\<close>

fun findPrinters_loop :: "env \<Rightarrow> string list \<Rightarrow> event list \<Rightarrow> string list \<Rightarrow> event list \<times> string list" where
  "findPrinters_loop env [] t printers = (t, printers)"
| "findPrinters_loop env (match # rest) t printers =
     (case os_Stat env match of
        Inl err \<Rightarrow> findPrinters_loop env rest (t @ [CallStat match]) printers
      | Inr mode \<Rightarrow>
          if mode AND ModeCharDevice \<noteq> 0
          then findPrinters_loop env rest (t @ [CallStat match]) (printers @ [match])
          else findPrinters_loop env rest (t @ [CallStat match]) printers)"

definition findPrinters :: "env \<Rightarrow> event list \<Rightarrow> event list \<times> (error + string list)" where
  "findPrinters env t =
     (case filepath_Glob env ''/dev/usb/lp*'' of
        Inl err \<Rightarrow> (t @ [CallGlob ''/dev/usb/lp*''], Inl (''error al buscar impresoras: '' @ err))
      | Inr matches \<Rightarrow>
          (case findPrinters_loop env matches (t @ [CallGlob ''/dev/usb/lp*'']) [] of
             (t', printers) \<Rightarrow> (t', Inr printers)))"

subsection \<open>\<^verbatim>\<open>selectPrinter\<close>\<close>

text \<open>The numbered list: \<^verbatim>\<open>for i, p := range printers { fmt.Printf("%d. %s\n", i+1, p) }\<close>.\<close>

fun selectPrinter_list :: "nat \<Rightarrow> string list \<Rightarrow> event list" where
  "selectPrinter_list i [] = []"
| "selectPrinter_list i (p # ps) =
     Stdout (fmt_d (int i + 1) @ ''. '' @ p @ ''\<newline>'') # selectPrinter_list (Suc i) ps"

definition selectPrinter_prompt :: string where
  "selectPrinter_prompt =
     ''Por favor, selecciona el n'' @ [CHR 0xC3, CHR 0xBA] @ ''mero de la impresora que deseas usar: ''"

definition selectPrinter_invalid :: string where
  "selectPrinter_invalid =
     ''Entrada inv'' @ [CHR 0xC3, CHR 0xA1] @ ''lida. Por favor, ingresa un n'' @
     [CHR 0xC3, CHR 0xBA] @ ''mero de la lista.\<newline>''"

text \<open>
  The \<^verbatim>\<open>for { ... }\<close> loop. It has no bound: it is left only by \<^verbatim>\<open>break\<close>, after a scan
  without error of a number between 1 and \<^verbatim>\<open>len(printers)\<close>. \<open>i\<close> counts the calls of
  \<^verbatim>\<open>Scanln\<close> made so far. The result \<open>None\<close> means that the loop never ends.

  \<^verbatim>\<open>choice\<close> is a Go \<^verbatim>\<open>int\<close>. A number that does not fit the type makes \<^verbatim>\<open>Scanln\<close> fail, and
  the loop only compares \<^verbatim>\<open>choice\<close> with 1 and with the length, so the integers stand for it
  and no arithmetic can overflow.
\<close>

partial_function (option) selectPrinter_loop ::
  "env \<Rightarrow> string list \<Rightarrow> nat \<Rightarrow> event list \<Rightarrow> (event list \<times> int) option" where
  "selectPrinter_loop env printers i t =
     (case fmt_Scanln env i of
        ScanFailed err \<Rightarrow>
          selectPrinter_loop env printers (Suc i)
            (t @ [Stdout selectPrinter_prompt, CallScanln, Stdout selectPrinter_invalid])
      | Scanned choice \<Rightarrow>
          if choice < 1 \<or> choice > int (length printers)
          then selectPrinter_loop env printers (Suc i)
                 (t @ [Stdout selectPrinter_prompt, CallScanln, Stdout selectPrinter_invalid])
          else Some (t @ [Stdout selectPrinter_prompt, CallScanln], choice))"

text \<open>
  The index \<^verbatim>\<open>choice-1\<close> is inside the slice whenever the loop ends, by its exit condition
  (lemma \<open>selectPrinter_Some\<close> below), so the panic of an index out of range has no branch.
\<close>

definition selectPrinter :: "env \<Rightarrow> string list \<Rightarrow> event list \<Rightarrow> (event list \<times> (error + string)) option" where
  "selectPrinter env printers t =
     (if length printers = 0
      then Some (t, Inl ''no se encontraron impresoras USB en /dev/usb/lpX'')
      else
        (case selectPrinter_loop env printers 0
                (t @ [Stdout ''\<newline>Se encontraron las siguientes impresoras USB:\<newline>'']
                   @ selectPrinter_list 0 printers) of
           None \<Rightarrow> None
         | Some (t', choice) \<Rightarrow> Some (t', Inr (printers ! nat (choice - 1)))))"

subsection \<open>\<^verbatim>\<open>main\<close> of \<^verbatim>\<open>src/unnamed/part_000\<close>\<close>

text \<open>
  The loop over the commands. \<^verbatim>\<open>cmd.Args\<close> is \<^verbatim>\<open>cmdArgs[0]\<close> followed by
  \<^verbatim>\<open>cmdArgs[1:]\<close>; on an empty \<^verbatim>\<open>cmdArgs\<close> the index panics (exit code 2). The second
  component is \<open>None\<close> when the loop ends normally and the exit code when the process
  ends inside the loop.
\<close>

fun main_commands :: "env \<Rightarrow> string list list \<Rightarrow> event list \<Rightarrow> event list \<times> int option" where
  "main_commands env [] t = (t, None)"
| "main_commands env ([] # rest) t = (t, Some 2)"
| "main_commands env ((name # arg) # rest) t =
     (case exec_CombinedOutput env (name # arg) of
        (output, Some err) \<Rightarrow>
          (t @ [Stdout (''Ejecutando: '' @ Join (name # arg) '' '' @ ''...\<newline>''),
                CallCombinedOutput (name # arg),
                LogFatal (''Error al ejecutar el comando '' @ [CHR 0x27] @ Join (name # arg) '' '' @
                          [CHR 0x27] @ '': '' @ err @ ''\<newline>Salida: '' @ output)],
           Some 1)
      | (output, None) \<Rightarrow>
          main_commands env rest
            (t @ [Stdout (''Ejecutando: '' @ Join (name # arg) '' '' @ ''...\<newline>''),
                  CallCombinedOutput (name # arg),
                  Stdout (check_mark @ '' Comando exitoso.\<newline>'')]))"

definition socketFilePath :: string where
  "socketFilePath = ''/etc/systemd/system/escpos-printer.socket''"

definition serviceFilePath :: string where
  "serviceFilePath = ''/etc/systemd/system/escpos-printer@.service''"

definition commands :: "string list list" where
  "commands =
     [[''systemctl'', ''daemon-reload''],
      [''systemctl'', ''enable'', ''--now'', ''escpos-printer.socket''],
      [''systemctl'', ''restart'', ''escpos-printer.socket'']]"

text \<open>Steps 4 and 5 of \<^verbatim>\<open>main\<close>: the two writes (mode \<^verbatim>\<open>0644\<close>, 420) and the commands.\<close>

definition main_install :: "env \<Rightarrow> string \<Rightarrow> event list \<Rightarrow> event list \<times> int" where
  "main_install env selectedPrinter t =
     (case os_WriteFile env socketFilePath socketFileContent 420 of
        Some err \<Rightarrow>
          (t @ [CallWriteFile socketFilePath socketFileContent 420,
                LogFatal (''Error al escribir el archivo de socket: '' @ err)], 1)
      | None \<Rightarrow>
          (case os_WriteFile env serviceFilePath (serviceFileContent selectedPrinter) 420 of
             Some err \<Rightarrow>
               (t @ [CallWriteFile socketFilePath socketFileContent 420,
                     Stdout (check_mark @ '' Archivo de socket creado exitosamente: '' @ socketFilePath @ ''\<newline>''),
                     CallWriteFile serviceFilePath (serviceFileContent selectedPrinter) 420,
                     LogFatal (''Error al escribir el archivo de servicio: '' @ err)], 1)
           | None \<Rightarrow>
               (case main_commands env commands
                       (t @ [CallWriteFile socketFilePath socketFileContent 420,
                             Stdout (check_mark @ '' Archivo de socket creado exitosamente: '' @ socketFilePath @ ''\<newline>''),
                             CallWriteFile serviceFilePath (serviceFileContent selectedPrinter) 420,
                             Stdout (check_mark @ '' Archivo de servicio creado exitosamente: '' @ serviceFilePath @ ''\<newline>'')]) of
                  (t', Some code) \<Rightarrow> (t', code)
                | (t', None) \<Rightarrow>
                    (t' @ [Stdout (''\<newline>'' @ [CHR 0xF0, CHR 0x9F, CHR 0x8E, CHR 0x89] @ '' '' @ [CHR 0xC2, CHR 0xA1] @
                                   ''Configuraci'' @ [CHR 0xC3, CHR 0xB3] @
                                   ''n completa! El socket de la impresora ESC/POS est'' @ [CHR 0xC3, CHR 0xA1] @
                                   '' activo y habilitado.\<newline>''),
                           Stdout (''La PC est'' @ [CHR 0xC3, CHR 0xA1] @
                                   '' lista para aceptar trabajos de impresi'' @ [CHR 0xC3, CHR 0xB3] @
                                   ''n en el puerto TCP 9100.\<newline>'')], 0))))"

text \<open>
  The program: the events and the exit code, or \<open>None\<close> when it never ends (the
  selection loop).
\<close>

definition main :: "env \<Rightarrow> (event list \<times> int) option" where
  "main env =
     (if os_Geteuid env \<noteq> 0
      then Some ([Stdout (''Iniciando la configuraci'' @ [CHR 0xC3, CHR 0xB3] @
                          ''n del servicio de impresora ESC/POS...\<newline>''),
                  CallGeteuid,
                  LogFatal ''Este programa debe ejecutarse como root o con sudo.''], 1)
      else
        (case findPrinters env
                [Stdout (''Iniciando la configuraci'' @ [CHR 0xC3, CHR 0xB3] @
                         ''n del servicio de impresora ESC/POS...\<newline>''),
                 CallGeteuid,
                 Stdout (check_mark @ '' Permisos de root confirmados.\<newline>'')] of
           (t, Inl err) \<Rightarrow> Some (t @ [LogFatal (''Error: '' @ err)], 1)
         | (t, Inr printers) \<Rightarrow>
             (case selectPrinter env printers
                     (t @ [Stdout (fmt_d (int (length printers)) @ ''\<newline>'')]
                        @ map (\<lambda>printer. Stdout (printer @ ''\<newline>'')) printers) of
                None \<Rightarrow> None
              | Some (t', Inl err) \<Rightarrow> Some (t' @ [LogFatal (''Error: '' @ err)], 1)
              | Some (t', Inr selectedPrinter) \<Rightarrow>
                  Some (main_install env selectedPrinter
                          (t' @ [Stdout (check_mark @ '' Impresora seleccionada: '' @
                                         selectedPrinter @ ''\<newline>'')])))))"

subsection \<open>The first version, \<^verbatim>\<open>src/main.go\<close>\<close>

text \<open>Both unit file contents are constants (\<^verbatim>\<open>const\<close>) in this version.\<close>

definition epson_socketFileContent :: string where
  "epson_socketFileContent =
     ''[Unit]\<newline>'' @
     ''Description=Epson Printer Socket\<newline>'' @
     ''\<newline>'' @
     ''[Socket]\<newline>'' @
     ''ListenStream=0.0.0.0:9100\<newline>'' @
     ''Accept=yes\<newline>'' @
     ''\<newline>'' @
     ''[Install]\<newline>'' @
     ''WantedBy=sockets.target\<newline>''"

definition epson_serviceFileContent :: string where
  "epson_serviceFileContent =
     ''[Unit]\<newline>'' @
     ''Description=Epson Printer Service\<newline>'' @
     ''\<newline>'' @
     ''[Service]\<newline>'' @
     ''ExecStart=-/usr/bin/tee /dev/null > /dev/usb/lp0\<newline>'' @
     ''StandardInput=socket\<newline>''"

fun epson_main_commands :: "env \<Rightarrow> string list list \<Rightarrow> event list \<Rightarrow> event list \<times> int option" where
  "epson_main_commands env [] t = (t, None)"
| "epson_main_commands env ([] # rest) t = (t, Some 2)"
| "epson_main_commands env ((name # arg) # rest) t =
     (case exec_CombinedOutput env (name # arg) of
        (output, Some err) \<Rightarrow>
          (t @ [Stdout (''Executing: '' @ Join (name # arg) '' '' @ ''...\<newline>''),
                CallCombinedOutput (name # arg),
                LogFatal (''Failed to execute command '' @ [CHR 0x27] @ Join (name # arg) '' '' @
                          [CHR 0x27] @ '': '' @ err @ ''\<newline>Output: '' @ output)],
           Some 1)
      | (output, None) \<Rightarrow>
          epson_main_commands env rest
            (t @ [Stdout (''Executing: '' @ Join (name # arg) '' '' @ ''...\<newline>''),
                  CallCombinedOutput (name # arg),
                  Stdout (check_mark @ '' Command successful.\<newline>'')]))"

definition epson_socketFilePath :: string where
  "epson_socketFilePath = ''/etc/systemd/system/epson-printer.socket''"

definition epson_serviceFilePath :: string where
  "epson_serviceFilePath = ''/etc/systemd/system/epson-printer@.service''"

definition epson_commands :: "string list list" where
  "epson_commands =
     [[''systemctl'', ''daemon-reload''],
      [''systemctl'', ''enable'', ''--now'', ''epson-printer.socket''],
      [''systemctl'', ''restart'', ''epson-printer.socket'']]"

definition epson_main :: "env \<Rightarrow> event list \<times> int" where
  "epson_main env =
     (if os_Geteuid env \<noteq> 0
      then ([Stdout ''Starting Epson Printer Service Setup...\<newline>'',
             CallGeteuid,
             LogFatal ''This program must be run as root or with sudo.''], 1)
      else
        (case os_WriteFile env epson_socketFilePath epson_socketFileContent 420 of
           Some err \<Rightarrow>
             ([Stdout ''Starting Epson Printer Service Setup...\<newline>'',
               CallGeteuid,
               Stdout (check_mark @ '' Root privileges confirmed.\<newline>''),
               CallWriteFile epson_socketFilePath epson_socketFileContent 420,
               LogFatal (''Failed to write socket file: '' @ err)], 1)
         | None \<Rightarrow>
             (case os_WriteFile env epson_serviceFilePath epson_serviceFileContent 420 of
                Some err \<Rightarrow>
                  ([Stdout ''Starting Epson Printer Service Setup...\<newline>'',
                    CallGeteuid,
                    Stdout (check_mark @ '' Root privileges confirmed.\<newline>''),
                    CallWriteFile epson_socketFilePath epson_socketFileContent 420,
                    Stdout (check_mark @ '' Successfully created '' @ epson_socketFilePath @ ''\<newline>''),
                    CallWriteFile epson_serviceFilePath epson_serviceFileContent 420,
                    LogFatal (''Failed to write service file: '' @ err)], 1)
              | None \<Rightarrow>
                  (case epson_main_commands env epson_commands
                          [Stdout ''Starting Epson Printer Service Setup...\<newline>'',
                           CallGeteuid,
                           Stdout (check_mark @ '' Root privileges confirmed.\<newline>''),
                           CallWriteFile epson_socketFilePath epson_socketFileContent 420,
                           Stdout (check_mark @ '' Successfully created '' @ epson_socketFilePath @ ''\<newline>''),
                           CallWriteFile epson_serviceFilePath epson_serviceFileContent 420,
                           Stdout (check_mark @ '' Successfully created '' @ epson_serviceFilePath @ ''\<newline>'')] of
                     (t, Some code) \<Rightarrow> (t, code)
                   | (t, None) \<Rightarrow>
                       (t @ [Stdout (''\<newline>'' @ [CHR 0xF0, CHR 0x9F, CHR 0x8E, CHR 0x89] @
                                     '' Setup complete! The epson printer socket is active and enabled.\<newline>''),
                             Stdout ''The PC is now ready to accept print jobs on TCP port 9100.\<newline>''], 0)))))"

subsection \<open>Observations on a run\<close>

text \<open>
  The files written (path, content, mode), the commands executed and the number of
  calls of \<^verbatim>\<open>Scanln\<close>, each read off the events in their order.
\<close>

fun written :: "event list \<Rightarrow> (string \<times> string \<times> nat) list" where
  "written [] = []"
| "written (CallWriteFile path content perm # t) = (path, content, perm) # written t"
| "written (e # t) = written t"

fun executed :: "event list \<Rightarrow> string list list" where
  "executed [] = []"
| "executed (CallCombinedOutput args # t) = args # executed t"
| "executed (e # t) = executed t"

fun scans :: "event list \<Rightarrow> nat" where
  "scans [] = 0"
| "scans (CallScanln # t) = Suc (scans t)"
| "scans (e # t) = scans t"

text \<open>The lines of a text: the pieces between line feeds, a last unterminated piece included.\<close>

fun text_lines :: "string \<Rightarrow> string list" where
  "text_lines [] = []"
| "text_lines (c # cs) =
     (if c = CHR ''\<newline>'' then [] # text_lines cs
      else (case text_lines cs of [] \<Rightarrow> [[c]] | l # ls \<Rightarrow> (c # l) # ls))"

text \<open>Whether a match of the glob is kept by \<^verbatim>\<open>findPrinters\<close>, in the words of its comment:
  it can be examined and it is a character device.\<close>

definition is_char_device :: "env \<Rightarrow> string \<Rightarrow> bool" where
  "is_char_device env path =
     (case os_Stat env path of Inl err \<Rightarrow> False | Inr mode \<Rightarrow> bit mode 21)"

text \<open>A response of \<^verbatim>\<open>Scanln\<close> that ends the selection among \<open>n\<close> printers.\<close>

fun valid_choice :: "nat \<Rightarrow> scan_result \<Rightarrow> bool" where
  "valid_choice n (Scanned choice) = (1 \<le> choice \<and> choice \<le> int n)"
| "valid_choice n (ScanFailed err) = False"


subsection \<open>Notions used to state the properties\<close>

text \<open>
  One unsuccessful round of the selection loop: the prompt, the call of \<^verbatim>\<open>Scanln\<close>, the
  complaint.
\<close>

definition selectPrinter_retry :: "event list" where
  "selectPrinter_retry = [Stdout selectPrinter_prompt, CallScanln, Stdout selectPrinter_invalid]"

text \<open>A command succeeds when \<^verbatim>\<open>CombinedOutput\<close> returns a \<^verbatim>\<open>nil\<close> error.\<close>

definition succeeds :: "env \<Rightarrow> string list \<Rightarrow> bool" where
  "succeeds env args = (snd (exec_CombinedOutput env args) = None)"

text \<open>Both writes of \<^verbatim>\<open>src/unnamed/part_000\<close> succeed, for the given printer.\<close>

definition writes_ok :: "env \<Rightarrow> string \<Rightarrow> bool" where
  "writes_ok env selectedPrinter =
     (os_WriteFile env socketFilePath socketFileContent 420 = None \<and>
      os_WriteFile env serviceFilePath (serviceFileContent selectedPrinter) 420 = None)"

text \<open>
  The printer a run selects: the second result of \<^verbatim>\<open>selectPrinter\<close> on the list that
  \<^verbatim>\<open>findPrinters\<close> returns, when there is one.
\<close>

definition selected_printer :: "env \<Rightarrow> string option" where
  "selected_printer env =
     (case findPrinters env [] of
        (t, Inl err) \<Rightarrow> None
      | (t, Inr printers) \<Rightarrow>
          (case selectPrinter env printers [] of
             None \<Rightarrow> None
           | Some (t', Inl err) \<Rightarrow> None
           | Some (t', Inr selectedPrinter) \<Rightarrow> Some selectedPrinter))"

text \<open>Both writes of \<^verbatim>\<open>src/main.go\<close> succeed.\<close>

definition epson_writes_ok :: "env \<Rightarrow> bool" where
  "epson_writes_ok env =
     (os_WriteFile env epson_socketFilePath epson_socketFileContent 420 = None \<and>
      os_WriteFile env epson_serviceFilePath epson_serviceFileContent 420 = None)"

text \<open>
  The events of \<^verbatim>\<open>src/main.go\<close> up to the second write, when the process is root and
  both writes succeed.
\<close>

definition epson_written_trace :: "event list" where
  "epson_written_trace =
     [Stdout ''Starting Epson Printer Service Setup...\<newline>'',
      CallGeteuid,
      Stdout (check_mark @ '' Root privileges confirmed.\<newline>''),
      CallWriteFile epson_socketFilePath epson_socketFileContent 420,
      Stdout (check_mark @ '' Successfully created '' @ epson_socketFilePath @ ''\<newline>''),
      CallWriteFile epson_serviceFilePath epson_serviceFileContent 420,
      Stdout (check_mark @ '' Successfully created '' @ epson_serviceFilePath @ ''\<newline>'')]"

text \<open>
  Reading a decimal numeral: the value of a digit character and of a string of digits.
  These are the inverse of \<^verbatim>\<open>%d\<close> and serve to state that \<open>fmt_d\<close> prints the number it
  is given.
\<close>

definition digit_value :: "char \<Rightarrow> nat" where
  "digit_value c = of_char c - 48"

text \<open>The number that a string of decimal digits denotes, most significant digit first.\<close>

definition decimal_value :: "string \<Rightarrow> nat" where
  "decimal_value s = foldl (\<lambda>v c. 10 * v + digit_value c) 0 s"

subsection \<open>Concrete systems\<close>

text \<open>
  Systems on which the program is run in the examples below. \<open>env_ok\<close> is a machine
  where everything works: the process is root, \<^verbatim>\<open>/dev/usb\<close> holds two printers
  (character devices, mode \<^verbatim>\<open>Dcrw--w----\<close>), a directory and a name that cannot be
  examined, the user types 2, and every write and command succeeds. The others differ
  from it in one response each.
\<close>

text \<open>The machine where everything works.\<close>

definition env_ok :: env where
  "env_ok =
     \<lparr> os_Geteuid = 0,
       filepath_Glob = (\<lambda>pattern.
          if pattern = ''/dev/usb/lp*''
          then Inr [''/dev/usb/lp0'', ''/dev/usb/lp1'', ''/dev/usb/lpdir'', ''/dev/usb/lpgone'']
          else Inl ''syntax error in pattern''),
       os_Stat = (\<lambda>path.
          if path = ''/dev/usb/lp0'' \<or> path = ''/dev/usb/lp1'' then Inr 0x4200190
          else if path = ''/dev/usb/lpdir'' then Inr 0x800001ED
          else Inl ''no such file or directory''),
       fmt_Scanln = (\<lambda>i. if i = 0 then Scanned 2 else ScanFailed ''EOF''),
       os_WriteFile = (\<lambda>path content perm. None),
       exec_CombinedOutput = (\<lambda>args. ([], None)) \<rparr>"

text \<open>The same machine, the process not being root.\<close>

definition env_user :: env where
  "env_user = env_ok \<lparr> os_Geteuid := 1000 \<rparr>"

text \<open>The user first types 7, out of range, then 1.\<close>

definition env_retry :: env where
  "env_retry = env_ok \<lparr> fmt_Scanln := (\<lambda>i. if i = 0 then Scanned 7 else Scanned 1) \<rparr>"

text \<open>Standard input is exhausted: every scan fails.\<close>

definition env_eof :: env where
  "env_eof = env_ok \<lparr> fmt_Scanln := (\<lambda>i. ScanFailed ''EOF'') \<rparr>"

text \<open>No path matches the pattern.\<close>

definition env_none :: env where
  "env_none = env_ok \<lparr> filepath_Glob := (\<lambda>pattern. Inr []) \<rparr>"

text \<open>Only the socket unit files can be written.\<close>

definition env_readonly :: env where
  "env_readonly = env_ok \<lparr> os_WriteFile := (\<lambda>path content perm.
       if path = socketFilePath \<or> path = epson_socketFilePath then None
       else Some ''read-only file system'') \<rparr>"

text \<open>\<^verbatim>\<open>systemctl enable\<close> fails, the other commands succeed.\<close>

definition env_failing :: env where
  "env_failing = env_ok \<lparr> exec_CombinedOutput := (\<lambda>args.
       if take 2 args = [''systemctl'', ''enable'']
       then (''Failed to enable unit.\<newline>'', Some ''exit status 1'')
       else ([], None)) \<rparr>"

text \<open>\<^verbatim>\<open>systemctl daemon-reload\<close>, the first command, fails.\<close>

definition env_noreload :: env where
  "env_noreload = env_ok \<lparr> exec_CombinedOutput := (\<lambda>args.
       if args = [''systemctl'', ''daemon-reload'']
       then (''Failed to connect to bus\<newline>'', Some ''exit status 1'')
       else ([], None)) \<rparr>"

text \<open>The user types 10.\<close>

definition env_ten :: env where
  "env_ten = env_ok \<lparr> fmt_Scanln := (\<lambda>i. Scanned 10) \<rparr>"

text \<open>A list of twelve printers, for line numbers of two digits.\<close>

definition twelve_printers :: "string list" where
  "twelve_printers =
     [''/dev/usb/lp0'', ''/dev/usb/lp1'', ''/dev/usb/lp2'', ''/dev/usb/lp3'',
      ''/dev/usb/lp4'', ''/dev/usb/lp5'', ''/dev/usb/lp6'', ''/dev/usb/lp7'',
      ''/dev/usb/lp8'', ''/dev/usb/lp9'', ''/dev/usb/lp10'', ''/dev/usb/lp11'']"

section \<open>Auxiliary facts\<close>

subsection \<open>Observations and concatenation\<close>

lemma written_append: "written (a @ b) = written a @ written b"
  by (induction a rule: written.induct) simp_all

lemma executed_append: "executed (a @ b) = executed a @ executed b"
  by (induction a rule: executed.induct) simp_all

lemma scans_append: "scans (a @ b) = scans a + scans b"
  by (induction a rule: scans.induct) simp_all

subsection \<open>\<^verbatim>\<open>findPrinters\<close>\<close>

lemma char_device_bit: "(mode AND ModeCharDevice \<noteq> 0) = bit (mode :: FileMode) 21"
  unfolding ModeCharDevice_def push_bit_of_1
  by (simp only: and_exp_eq_0_iff_not_bit not_not)

lemma findPrinters_loop_eq:
  "findPrinters_loop env matches t printers =
     (t @ map CallStat matches, printers @ filter (is_char_device env) matches)"
  by (induction matches arbitrary: t printers)
     (simp_all add: is_char_device_def char_device_bit split: sum.splits)

lemma findPrinters_eq:
  "findPrinters env t =
     (case filepath_Glob env ''/dev/usb/lp*'' of
        Inl err \<Rightarrow> (t @ [CallGlob ''/dev/usb/lp*''], Inl (''error al buscar impresoras: '' @ err))
      | Inr matches \<Rightarrow>
          (t @ CallGlob ''/dev/usb/lp*'' # map CallStat matches,
           Inr (filter (is_char_device env) matches)))"
  by (simp add: findPrinters_def findPrinters_loop_eq split: sum.splits)

subsection \<open>The selection loop\<close>

lemma selectPrinter_loop_invalid:
  "\<not> valid_choice (length printers) (fmt_Scanln env i) \<Longrightarrow>
   selectPrinter_loop env printers i t = selectPrinter_loop env printers (Suc i) (t @ selectPrinter_retry)"
  by (subst selectPrinter_loop.simps) (auto simp: selectPrinter_retry_def split: scan_result.splits)

lemma selectPrinter_loop_valid:
  "fmt_Scanln env i = Scanned choice \<Longrightarrow> 1 \<le> choice \<Longrightarrow> choice \<le> int (length printers) \<Longrightarrow>
   selectPrinter_loop env printers i t = Some (t @ [Stdout selectPrinter_prompt, CallScanln], choice)"
  by (subst selectPrinter_loop.simps) simp

lemma selectPrinter_loop_first_valid:
  "\<forall>j < k. \<not> valid_choice (length printers) (fmt_Scanln env (i + j)) \<Longrightarrow>
   fmt_Scanln env (i + k) = Scanned choice \<Longrightarrow> 1 \<le> choice \<Longrightarrow> choice \<le> int (length printers) \<Longrightarrow>
   selectPrinter_loop env printers i t =
     Some (t @ concat (replicate k selectPrinter_retry) @ [Stdout selectPrinter_prompt, CallScanln], choice)"
proof (induction k arbitrary: i t)
  case 0
  then show ?case by (simp add: selectPrinter_loop_valid)
next
  case (Suc k)
  have inv: "\<not> valid_choice (length printers) (fmt_Scanln env i)"
    using Suc.prems(1) by (metis add.right_neutral zero_less_Suc)
  have "\<forall>j<k. \<not> valid_choice (length printers) (fmt_Scanln env (Suc i + j))"
    using Suc.prems(1) by (metis Suc_less_eq add_Suc_right add_Suc)
  moreover have "fmt_Scanln env (Suc i + k) = Scanned choice"
    using Suc.prems(2) by simp
  ultimately have "selectPrinter_loop env printers (Suc i) (t @ selectPrinter_retry) =
     Some ((t @ selectPrinter_retry) @ concat (replicate k selectPrinter_retry) @ [Stdout selectPrinter_prompt, CallScanln], choice)"
    using Suc.IH Suc.prems(3,4) by blast
  then show ?case
    by (simp add: selectPrinter_loop_invalid [OF inv])
qed

lemma selectPrinter_loop_returns:
  assumes "selectPrinter_loop env printers i t = Some r"
  shows "\<exists>k. valid_choice (length printers) (fmt_Scanln env (i + k))"
proof (rule selectPrinter_loop.raw_induct
         [where P = "\<lambda>env printers i t r. \<exists>k. valid_choice (length printers) (fmt_Scanln env (i + k))",
          OF _ assms])
  fix loop :: "env \<Rightarrow> string list \<Rightarrow> nat \<Rightarrow> event list \<Rightarrow> (event list \<times> int) option"
  fix env printers i t r
  assume IH: "\<And>env printers i t r. loop env printers i t = Some r \<Longrightarrow>
                \<exists>k. valid_choice (length printers) (fmt_Scanln env (i + k))"
  assume body: "(case fmt_Scanln env i of
        Scanned choice \<Rightarrow>
          if choice < 1 \<or> choice > int (length printers)
          then loop env printers (Suc i)
                 (t @ [Stdout selectPrinter_prompt, CallScanln, Stdout selectPrinter_invalid])
          else Some (t @ [Stdout selectPrinter_prompt, CallScanln], choice)
      | ScanFailed err \<Rightarrow>
          loop env printers (Suc i)
            (t @ [Stdout selectPrinter_prompt, CallScanln, Stdout selectPrinter_invalid])) = Some r"
  show "\<exists>k. valid_choice (length printers) (fmt_Scanln env (i + k))"
  proof (cases "valid_choice (length printers) (fmt_Scanln env i)")
    case True
    then show ?thesis by (metis add.right_neutral)
  next
    case False
    then have "loop env printers (Suc i)
                 (t @ [Stdout selectPrinter_prompt, CallScanln, Stdout selectPrinter_invalid]) = Some r"
      using body by (auto split: scan_result.splits if_splits)
    then obtain k where "valid_choice (length printers) (fmt_Scanln env (Suc i + k))"
      using IH by blast
    then show ?thesis by (metis add_Suc_shift)
  qed
qed

lemma selectPrinter_loop_never:
  "\<forall>k. \<not> valid_choice (length printers) (fmt_Scanln env k) \<Longrightarrow>
   selectPrinter_loop env printers 0 t = None"
  using selectPrinter_loop_returns [of env printers 0 t] by (cases "selectPrinter_loop env printers 0 t") auto

lemma selectPrinter_loop_Some:
  assumes "selectPrinter_loop env printers i t = Some (t', choice)"
  shows "\<exists>k. (\<forall>j<k. \<not> valid_choice (length printers) (fmt_Scanln env (i + j))) \<and>
             fmt_Scanln env (i + k) = Scanned choice \<and> 1 \<le> choice \<and> choice \<le> int (length printers) \<and>
             t' = t @ concat (replicate k selectPrinter_retry) @ [Stdout selectPrinter_prompt, CallScanln]"
proof -
  let ?ok = "\<lambda>k. valid_choice (length printers) (fmt_Scanln env (i + k))"
  from selectPrinter_loop_returns [OF assms] have ex: "\<exists>k. ?ok k" .
  define k where "k = (LEAST k. ?ok k)"
  have ok: "?ok k" unfolding k_def using ex by (rule LeastI_ex)
  have least: "\<forall>j<k. \<not> ?ok j" unfolding k_def using not_less_Least by blast
  from ok obtain c where c: "fmt_Scanln env (i + k) = Scanned c" "1 \<le> c" "c \<le> int (length printers)"
    by (cases "fmt_Scanln env (i + k)") auto
  from selectPrinter_loop_first_valid [OF least c, of t] assms
  have "t' = t @ concat (replicate k selectPrinter_retry) @ [Stdout selectPrinter_prompt, CallScanln]" "choice = c"
    by simp_all
  with least c show ?thesis by blast
qed

lemma selectPrinter_retry_observed [simp]:
  "written selectPrinter_retry = []" "executed selectPrinter_retry = []" "scans selectPrinter_retry = 1"
  by (simp_all add: selectPrinter_retry_def)

lemma replicate_retry_observed [simp]:
  "written (concat (replicate k selectPrinter_retry)) = []"
  "executed (concat (replicate k selectPrinter_retry)) = []"
  "scans (concat (replicate k selectPrinter_retry)) = k"
  by (induction k) (simp_all add: written_append executed_append scans_append)

lemma selectPrinter_list_eq:
  "selectPrinter_list i printers =
     map (\<lambda>(j, p). Stdout (fmt_d (int j + 1) @ ''. '' @ p @ ''\<newline>'')) (enumerate i printers)"
  by (induction printers arbitrary: i) simp_all

lemma selectPrinter_list_observed [simp]:
  "written (selectPrinter_list i printers) = []"
  "executed (selectPrinter_list i printers) = []"
  "scans (selectPrinter_list i printers) = 0"
  by (induction printers arbitrary: i) simp_all

lemma map_CallStat_observed [simp]:
  "written (map CallStat ms) = []"
  "executed (map CallStat ms) = []"
  "scans (map CallStat ms) = 0"
  by (induction ms) simp_all

lemma map_Stdout_observed [simp]:
  "written (map (\<lambda>x. Stdout (f x)) xs) = []"
  "executed (map (\<lambda>x. Stdout (f x)) xs) = []"
  "scans (map (\<lambda>x. Stdout (f x)) xs) = 0"
  by (induction xs) simp_all

subsection \<open>The command loop\<close>

lemma main_commands_extends:
  "\<exists>t'. fst (main_commands env cmds t) = t @ t' \<and> written t' = []"
proof (induction env cmds t rule: main_commands.induct)
  case (3 env name arg rest t)
  show ?case
  proof (cases "exec_CombinedOutput env (name # arg)")
    case (Pair out err)
    show ?thesis
    proof (cases err)
      case None
      let ?step = "[Stdout (''Ejecutando: '' @ Join (name # arg) '' '' @ ''...\<newline>''),
                    CallCombinedOutput (name # arg),
                    Stdout (check_mark @ '' Comando exitoso.\<newline>'')]"
      from 3 Pair None
      obtain t' where t': "fst (main_commands env rest (t @ ?step)) = (t @ ?step) @ t'" "written t' = []"
        by auto
      have "fst (main_commands env ((name # arg) # rest) t) = t @ (?step @ t')"
        using Pair None t'(1) by simp
      moreover have "written (?step @ t') = []"
        using t'(2) by simp
      ultimately show ?thesis by blast
    next
      case (Some e)
      with Pair show ?thesis by simp
    qed
  qed
qed simp_all

lemma main_commands_executed:
  "\<forall>c \<in> set cmds. c \<noteq> [] \<Longrightarrow>
   executed (fst (main_commands env cmds t)) =
     executed t @ takeWhile (succeeds env) cmds @ take 1 (dropWhile (succeeds env) cmds)"
proof (induction env cmds t rule: main_commands.induct)
  case (3 env name arg rest t)
  show ?case
  proof (cases "exec_CombinedOutput env (name # arg)")
    case (Pair out err)
    show ?thesis
    proof (cases err)
      case None
      with Pair 3 show ?thesis
        by (simp add: executed_append succeeds_def)
    next
      case (Some e)
      with Pair show ?thesis by (simp add: executed_append succeeds_def)
    qed
  qed
qed simp_all

lemma main_commands_code:
  "\<forall>c \<in> set cmds. c \<noteq> [] \<Longrightarrow>
   snd (main_commands env cmds t) = (if list_all (succeeds env) cmds then None else Some 1)"
proof (induction env cmds t rule: main_commands.induct)
  case (3 env name arg rest t)
  show ?case
  proof (cases "exec_CombinedOutput env (name # arg)")
    case (Pair out err)
    show ?thesis
    proof (cases err)
      case None
      with Pair 3 show ?thesis
        by (simp add: succeeds_def)
    next
      case (Some e)
      with Pair show ?thesis by (simp add: succeeds_def)
    qed
  qed
qed simp_all

lemma main_commands_fatal:
  "\<forall>c \<in> set cmds. c \<noteq> [] \<Longrightarrow> \<not> list_all (succeeds env) cmds \<Longrightarrow>
   last (fst (main_commands env cmds t)) =
     LogFatal (''Error al ejecutar el comando '' @ [CHR 0x27] @
               Join (hd (dropWhile (succeeds env) cmds)) '' '' @ [CHR 0x27] @ '': '' @
               the (snd (exec_CombinedOutput env (hd (dropWhile (succeeds env) cmds)))) @
               ''\<newline>Salida: '' @
               fst (exec_CombinedOutput env (hd (dropWhile (succeeds env) cmds))))"
proof (induction env cmds t rule: main_commands.induct)
  case (3 env name arg rest t)
  show ?case
  proof (cases "exec_CombinedOutput env (name # arg)")
    case (Pair out err)
    show ?thesis
    proof (cases err)
      case None
      with Pair 3 show ?thesis
        by (simp add: succeeds_def)
    next
      case (Some e)
      with Pair show ?thesis by (simp add: succeeds_def)
    qed
  qed
qed simp_all

subsection \<open>The writes and the commands of \<^verbatim>\<open>main\<close>\<close>

lemma commands_nonempty: "\<forall>c \<in> set commands. c \<noteq> []"
  by (simp add: commands_def)

lemma main_install_written:
  "written (fst (main_install env sel t)) =
     written t @
     (case os_WriteFile env socketFilePath socketFileContent 420 of
        Some err \<Rightarrow> [(socketFilePath, socketFileContent, 420)]
      | None \<Rightarrow> [(socketFilePath, socketFileContent, 420),
                 (serviceFilePath, serviceFileContent sel, 420)])"
proof (cases "writes_ok env sel")
  case True
  let ?t = "t @ [CallWriteFile socketFilePath socketFileContent 420,
                 Stdout (check_mark @ '' Archivo de socket creado exitosamente: '' @ socketFilePath @ ''\<newline>''),
                 CallWriteFile serviceFilePath (serviceFileContent sel) 420,
                 Stdout (check_mark @ '' Archivo de servicio creado exitosamente: '' @ serviceFilePath @ ''\<newline>'')]"
  obtain t' where t': "fst (main_commands env commands ?t) = ?t @ t'" "written t' = []"
    using main_commands_extends by blast
  obtain r c where rc: "main_commands env commands ?t = (r, c)"
    by (cases "main_commands env commands ?t")
  with t' have "written r = written ?t"
    by (simp add: written_append)
  with True rc show ?thesis
    by (cases c) (simp_all add: main_install_def writes_ok_def written_append)
next
  case False
  then show ?thesis
    by (auto simp: main_install_def writes_ok_def written_append split: option.splits)
qed

lemma main_install_executed:
  "executed (fst (main_install env sel t)) =
     executed t @
     (if writes_ok env sel
      then takeWhile (succeeds env) commands @ take 1 (dropWhile (succeeds env) commands)
      else [])"
proof (cases "writes_ok env sel")
  case True
  let ?t = "t @ [CallWriteFile socketFilePath socketFileContent 420,
                 Stdout (check_mark @ '' Archivo de socket creado exitosamente: '' @ socketFilePath @ ''\<newline>''),
                 CallWriteFile serviceFilePath (serviceFileContent sel) 420,
                 Stdout (check_mark @ '' Archivo de servicio creado exitosamente: '' @ serviceFilePath @ ''\<newline>'')]"
  have ex: "executed (fst (main_commands env commands ?t)) =
          executed ?t @ takeWhile (succeeds env) commands @ take 1 (dropWhile (succeeds env) commands)"
    using commands_nonempty by (rule main_commands_executed)
  obtain r c where rc: "main_commands env commands ?t = (r, c)"
    by (cases "main_commands env commands ?t")
  with ex have "executed r =
      executed t @ takeWhile (succeeds env) commands @ take 1 (dropWhile (succeeds env) commands)"
    by (simp add: executed_append)
  with True rc show ?thesis
    by (cases c) (simp_all add: main_install_def writes_ok_def executed_append)
next
  case False
  then show ?thesis
    by (auto simp: main_install_def writes_ok_def executed_append split: option.splits)
qed

lemma main_install_code:
  "snd (main_install env sel t) =
     (if writes_ok env sel \<and> list_all (succeeds env) commands then 0 else 1)"
proof (cases "writes_ok env sel")
  case True
  let ?t = "t @ [CallWriteFile socketFilePath socketFileContent 420,
                 Stdout (check_mark @ '' Archivo de socket creado exitosamente: '' @ socketFilePath @ ''\<newline>''),
                 CallWriteFile serviceFilePath (serviceFileContent sel) 420,
                 Stdout (check_mark @ '' Archivo de servicio creado exitosamente: '' @ serviceFilePath @ ''\<newline>'')]"
  have cd: "snd (main_commands env commands ?t) =
          (if list_all (succeeds env) commands then None else Some 1)"
    using commands_nonempty by (rule main_commands_code)
  obtain r c where rc: "main_commands env commands ?t = (r, c)"
    by (cases "main_commands env commands ?t")
  with True cd show ?thesis
    by (cases c) (simp_all add: main_install_def writes_ok_def split: if_splits)
next
  case False
  then show ?thesis
    by (auto simp: main_install_def writes_ok_def split: option.splits)
qed

lemma main_install_order:
  "\<exists>t1 t2. fst (main_install env sel t) = t @ t1 @ t2 \<and> executed t1 = [] \<and> written t2 = []"
proof (cases "writes_ok env sel")
  case True
  let ?w = "[CallWriteFile socketFilePath socketFileContent 420,
             Stdout (check_mark @ '' Archivo de socket creado exitosamente: '' @ socketFilePath @ ''\<newline>''),
             CallWriteFile serviceFilePath (serviceFileContent sel) 420,
             Stdout (check_mark @ '' Archivo de servicio creado exitosamente: '' @ serviceFilePath @ ''\<newline>'')]"
  obtain t' where t': "fst (main_commands env commands (t @ ?w)) = (t @ ?w) @ t'" "written t' = []"
    using main_commands_extends by blast
  obtain r c where rc: "main_commands env commands (t @ ?w) = (r, c)"
    by (cases "main_commands env commands (t @ ?w)")
  show ?thesis
  proof (cases c)
    case None
    let ?e = "[Stdout (''\<newline>'' @ [CHR 0xF0, CHR 0x9F, CHR 0x8E, CHR 0x89] @ '' '' @ [CHR 0xC2, CHR 0xA1] @
                       ''Configuraci'' @ [CHR 0xC3, CHR 0xB3] @
                       ''n completa! El socket de la impresora ESC/POS est'' @ [CHR 0xC3, CHR 0xA1] @
                       '' activo y habilitado.\<newline>''),
               Stdout (''La PC est'' @ [CHR 0xC3, CHR 0xA1] @
                       '' lista para aceptar trabajos de impresi'' @ [CHR 0xC3, CHR 0xB3] @
                       ''n en el puerto TCP 9100.\<newline>'')]"
    have "fst (main_install env sel t) = t @ ?w @ (t' @ ?e)"
      using True rc None t'(1) by (simp add: main_install_def writes_ok_def)
    moreover have "executed ?w = []" by simp
    moreover have "written (t' @ ?e) = []" using t'(2) by (simp add: written_append)
    ultimately show ?thesis by blast
  next
    case (Some code)
    have "fst (main_install env sel t) = t @ ?w @ t'"
      using True rc Some t'(1) by (simp add: main_install_def writes_ok_def)
    moreover have "executed ?w = []" by simp
    ultimately show ?thesis using t'(2) by blast
  qed
next
  case False
  then have "\<exists>t1. fst (main_install env sel t) = t @ t1 @ [] \<and> executed t1 = []"
    by (auto simp: main_install_def writes_ok_def split: option.splits)
  then show ?thesis by (metis written.simps(1))
qed

lemma main_install_fatal:
  assumes "writes_ok env sel" and "\<not> list_all (succeeds env) commands"
  shows "last (fst (main_install env sel t)) =
     LogFatal (''Error al ejecutar el comando '' @ [CHR 0x27] @
               Join (hd (dropWhile (succeeds env) commands)) '' '' @ [CHR 0x27] @ '': '' @
               the (snd (exec_CombinedOutput env (hd (dropWhile (succeeds env) commands)))) @
               ''\<newline>Salida: '' @
               fst (exec_CombinedOutput env (hd (dropWhile (succeeds env) commands))))"
proof -
  let ?t = "t @ [CallWriteFile socketFilePath socketFileContent 420,
                 Stdout (check_mark @ '' Archivo de socket creado exitosamente: '' @ socketFilePath @ ''\<newline>''),
                 CallWriteFile serviceFilePath (serviceFileContent sel) 420,
                 Stdout (check_mark @ '' Archivo de servicio creado exitosamente: '' @ serviceFilePath @ ''\<newline>'')]"
  obtain r c where rc: "main_commands env commands ?t = (r, c)"
    by (cases "main_commands env commands ?t")
  have "snd (main_commands env commands ?t) = Some 1"
    using main_commands_code [OF commands_nonempty, of env ?t] assms(2) by simp
  with rc have c: "c = Some 1" by simp
  have "fst (main_install env sel t) = r"
    using assms(1) rc c by (simp add: main_install_def writes_ok_def)
  moreover have "r = fst (main_commands env commands ?t)"
    using rc by simp
  ultimately show ?thesis
    using main_commands_fatal [OF commands_nonempty assms(2), of ?t] by simp
qed

lemma main_install_write_fatal:
  assumes "\<not> writes_ok env sel"
  shows "\<exists>err. last (fst (main_install env sel t)) = LogFatal err"
  using assms by (auto simp: main_install_def writes_ok_def split: option.splits)

subsection \<open>\<^verbatim>\<open>selectPrinter\<close>\<close>

lemma selectPrinter_empty:
  "selectPrinter env [] t = Some (t, Inl ''no se encontraron impresoras USB en /dev/usb/lpX'')"
  by (simp add: selectPrinter_def)

lemma selectPrinter_first_valid:
  assumes "printers \<noteq> []"
    and "\<forall>j<k. \<not> valid_choice (length printers) (fmt_Scanln env j)"
    and "fmt_Scanln env k = Scanned choice" and "1 \<le> choice" and "choice \<le> int (length printers)"
  shows "selectPrinter env printers t =
     Some (t @ Stdout ''\<newline>Se encontraron las siguientes impresoras USB:\<newline>'' #
               selectPrinter_list 0 printers @ concat (replicate k selectPrinter_retry) @
               [Stdout selectPrinter_prompt, CallScanln],
           Inr (printers ! nat (choice - 1)))"
proof -
  have "selectPrinter_loop env printers 0
          (t @ [Stdout ''\<newline>Se encontraron las siguientes impresoras USB:\<newline>'']
             @ selectPrinter_list 0 printers) =
        Some ((t @ [Stdout ''\<newline>Se encontraron las siguientes impresoras USB:\<newline>'']
                 @ selectPrinter_list 0 printers) @ concat (replicate k selectPrinter_retry) @
              [Stdout selectPrinter_prompt, CallScanln], choice)"
    by (rule selectPrinter_loop_first_valid) (use assms in simp_all)
  with assms(1) show ?thesis
    by (simp add: selectPrinter_def)
qed

lemma selectPrinter_Some:
  assumes "selectPrinter env printers t = Some (t', r)" and "printers \<noteq> []"
  shows "\<exists>k choice. (\<forall>j<k. \<not> valid_choice (length printers) (fmt_Scanln env j)) \<and>
           fmt_Scanln env k = Scanned choice \<and> 1 \<le> choice \<and> choice \<le> int (length printers) \<and>
           t' = t @ Stdout ''\<newline>Se encontraron las siguientes impresoras USB:\<newline>'' #
                    selectPrinter_list 0 printers @ concat (replicate k selectPrinter_retry) @
                    [Stdout selectPrinter_prompt, CallScanln] \<and>
           r = Inr (printers ! nat (choice - 1))"
proof -
  let ?t = "t @ [Stdout ''\<newline>Se encontraron las siguientes impresoras USB:\<newline>'']
              @ selectPrinter_list 0 printers"
  from assms obtain choice where
    loop: "selectPrinter_loop env printers 0 ?t = Some (t', choice)"
    and r: "r = Inr (printers ! nat (choice - 1))"
    by (auto simp: selectPrinter_def split: option.splits)
  from selectPrinter_loop_Some [OF loop] r show ?thesis
    by auto
qed

lemma selectPrinter_never:
  assumes "printers \<noteq> []" and "\<forall>k. \<not> valid_choice (length printers) (fmt_Scanln env k)"
  shows "selectPrinter env printers t = None"
  using assms by (simp add: selectPrinter_def selectPrinter_loop_never)

lemma selectPrinter_result:
  assumes "selectPrinter env printers t = Some (t', r)"
  shows "\<exists>t''. selectPrinter env printers [] = Some (t'', r)"
proof (cases "printers = []")
  case True
  with assms show ?thesis by (simp add: selectPrinter_def)
next
  case False
  from selectPrinter_Some [OF assms False] obtain k choice where
    "\<forall>j<k. \<not> valid_choice (length printers) (fmt_Scanln env j)"
    "fmt_Scanln env k = Scanned choice" "1 \<le> choice" "choice \<le> int (length printers)"
    "r = Inr (printers ! nat (choice - 1))"
    by blast
  with selectPrinter_first_valid [OF False, of k env choice "[]"] show ?thesis
    by simp
qed

subsection \<open>The shape of a run of \<^verbatim>\<open>main\<close>\<close>

lemma main_denied:
  "os_Geteuid env \<noteq> 0 \<Longrightarrow>
   main env = Some ([Stdout (''Iniciando la configuraci'' @ [CHR 0xC3, CHR 0xB3] @
                             ''n del servicio de impresora ESC/POS...\<newline>''),
                     CallGeteuid,
                     LogFatal ''Este programa debe ejecutarse como root o con sudo.''], 1)"
  by (simp add: main_def)

lemma main_Some:
  assumes "main env = Some (t, code)"
  shows "\<exists>s t0. written (Stdout s # CallGeteuid # t0) = [] \<and> executed (Stdout s # CallGeteuid # t0) = [] \<and>
           ((\<exists>msg. t = Stdout s # CallGeteuid # t0 @ [LogFatal msg] \<and> code = 1) \<or>
            (os_Geteuid env = 0 \<and>
             (\<exists>sel. selected_printer env = Some sel \<and>
                    (t, code) = main_install env sel (Stdout s # CallGeteuid # t0))))"
proof (cases "os_Geteuid env = 0")
  case False
  with assms have "t = Stdout (''Iniciando la configuraci'' @ [CHR 0xC3, CHR 0xB3] @
                             ''n del servicio de impresora ESC/POS...\<newline>'') # CallGeteuid # [] @
                     [LogFatal ''Este programa debe ejecutarse como root o con sudo.'']" "code = 1"
    by (simp_all add: main_def)
  moreover have "written (Stdout (''Iniciando la configuraci'' @ [CHR 0xC3, CHR 0xB3] @
                             ''n del servicio de impresora ESC/POS...\<newline>'') # CallGeteuid # []) = []"
    "executed (Stdout (''Iniciando la configuraci'' @ [CHR 0xC3, CHR 0xB3] @
                             ''n del servicio de impresora ESC/POS...\<newline>'') # CallGeteuid # []) = []"
    by simp_all
  ultimately show ?thesis by blast
next
  case root: True
  let ?b = "Stdout (''Iniciando la configuraci'' @ [CHR 0xC3, CHR 0xB3] @
                    ''n del servicio de impresora ESC/POS...\<newline>'')"
  let ?c = "Stdout (check_mark @ '' Permisos de root confirmados.\<newline>'')"
  show ?thesis
  proof (cases "filepath_Glob env ''/dev/usb/lp*''")
    case (Inl err)
    with assms root have "t = ?b # CallGeteuid # [?c, CallGlob ''/dev/usb/lp*''] @
        [LogFatal (''Error: '' @ ''error al buscar impresoras: '' @ err)]" "code = 1"
      by (simp_all add: main_def findPrinters_eq)
    moreover have "written (?b # CallGeteuid # [?c, CallGlob ''/dev/usb/lp*'']) = []"
      "executed (?b # CallGeteuid # [?c, CallGlob ''/dev/usb/lp*'']) = []"
      by simp_all
    ultimately show ?thesis by blast
  next
    case (Inr matches)
    let ?ps = "filter (is_char_device env) matches"
    let ?t1 = "[?c, CallGlob ''/dev/usb/lp*''] @ map CallStat matches @
               [Stdout (fmt_d (int (length ?ps)) @ ''\<newline>'')] @
               map (\<lambda>printer. Stdout (printer @ ''\<newline>'')) ?ps"
    have fp: "findPrinters env u = (u @ CallGlob ''/dev/usb/lp*'' # map CallStat matches, Inr ?ps)" for u
      using Inr by (simp add: findPrinters_eq)
    from assms root obtain t' r where
      sp: "selectPrinter env ?ps (?b # CallGeteuid # ?t1) = Some (t', r)"
      by (auto simp: main_def fp split: option.splits)
    have obs1: "written (?b # CallGeteuid # ?t1) = []" "executed (?b # CallGeteuid # ?t1) = []"
      by (simp_all add: written_append executed_append)
    show ?thesis
    proof (cases "?ps = []")
      case True
      with sp have "t' = ?b # CallGeteuid # ?t1" "r = Inl ''no se encontraron impresoras USB en /dev/usb/lpX''"
        by (simp_all add: selectPrinter_def)
      with assms root sp have "t = ?b # CallGeteuid # ?t1 @
          [LogFatal (''Error: '' @ ''no se encontraron impresoras USB en /dev/usb/lpX'')]" "code = 1"
        by (simp_all add: main_def fp)
      with obs1 show ?thesis by blast
    next
      case False
      from selectPrinter_Some [OF sp False] obtain k choice where
        t': "t' = (?b # CallGeteuid # ?t1) @
                  Stdout ''\<newline>Se encontraron las siguientes impresoras USB:\<newline>'' #
                  selectPrinter_list 0 ?ps @ concat (replicate k selectPrinter_retry) @
                  [Stdout selectPrinter_prompt, CallScanln]"
        and r: "r = Inr (?ps ! nat (choice - 1))"
        by blast
      let ?sel = "?ps ! nat (choice - 1)"
      let ?t2 = "?t1 @ Stdout ''\<newline>Se encontraron las siguientes impresoras USB:\<newline>'' #
                  selectPrinter_list 0 ?ps @ concat (replicate k selectPrinter_retry) @
                  [Stdout selectPrinter_prompt, CallScanln] @
                  [Stdout (check_mark @ '' Impresora seleccionada: '' @ ?sel @ ''\<newline>'')]"
      have "(t, code) = main_install env ?sel (?b # CallGeteuid # ?t2)"
        using assms root sp t' r by (simp add: main_def fp)
      moreover have "selected_printer env = Some ?sel"
        using selectPrinter_result [OF sp] r by (auto simp: selected_printer_def fp)
      moreover have "written (?b # CallGeteuid # ?t2) = []" "executed (?b # CallGeteuid # ?t2) = []"
        by (simp_all add: written_append executed_append)
      ultimately show ?thesis using root by blast
    qed
  qed
qed

subsection \<open>The first version\<close>

lemma epson_main_commands_extends:
  "\<exists>t'. fst (epson_main_commands env cmds t) = t @ t' \<and> written t' = []"
proof (induction env cmds t rule: epson_main_commands.induct)
  case (3 env name arg rest t)
  show ?case
  proof (cases "exec_CombinedOutput env (name # arg)")
    case (Pair out err)
    show ?thesis
    proof (cases err)
      case None
      let ?step = "[Stdout (''Executing: '' @ Join (name # arg) '' '' @ ''...\<newline>''),
                    CallCombinedOutput (name # arg),
                    Stdout (check_mark @ '' Command successful.\<newline>'')]"
      from 3 Pair None
      obtain t' where t': "fst (epson_main_commands env rest (t @ ?step)) = (t @ ?step) @ t'" "written t' = []"
        by auto
      have "fst (epson_main_commands env ((name # arg) # rest) t) = t @ (?step @ t')"
        using Pair None t'(1) by simp
      moreover have "written (?step @ t') = []"
        using t'(2) by simp
      ultimately show ?thesis by blast
    next
      case (Some e)
      with Pair show ?thesis by simp
    qed
  qed
qed simp_all

lemma epson_main_commands_executed:
  "\<forall>c \<in> set cmds. c \<noteq> [] \<Longrightarrow>
   executed (fst (epson_main_commands env cmds t)) =
     executed t @ takeWhile (succeeds env) cmds @ take 1 (dropWhile (succeeds env) cmds)"
proof (induction env cmds t rule: epson_main_commands.induct)
  case (3 env name arg rest t)
  show ?case
  proof (cases "exec_CombinedOutput env (name # arg)")
    case (Pair out err)
    show ?thesis
    proof (cases err)
      case None
      with Pair 3 show ?thesis
        by (simp add: executed_append succeeds_def)
    next
      case (Some e)
      with Pair show ?thesis by (simp add: executed_append succeeds_def)
    qed
  qed
qed simp_all

lemma epson_main_commands_code:
  "\<forall>c \<in> set cmds. c \<noteq> [] \<Longrightarrow>
   snd (epson_main_commands env cmds t) = (if list_all (succeeds env) cmds then None else Some 1)"
proof (induction env cmds t rule: epson_main_commands.induct)
  case (3 env name arg rest t)
  show ?case
  proof (cases "exec_CombinedOutput env (name # arg)")
    case (Pair out err)
    show ?thesis
    proof (cases err)
      case None
      with Pair 3 show ?thesis
        by (simp add: succeeds_def)
    next
      case (Some e)
      with Pair show ?thesis by (simp add: succeeds_def)
    qed
  qed
qed simp_all

lemma epson_main_commands_fatal:
  "\<forall>c \<in> set cmds. c \<noteq> [] \<Longrightarrow> \<not> list_all (succeeds env) cmds \<Longrightarrow>
   last (fst (epson_main_commands env cmds t)) =
     LogFatal (''Failed to execute command '' @ [CHR 0x27] @
               Join (hd (dropWhile (succeeds env) cmds)) '' '' @ [CHR 0x27] @ '': '' @
               the (snd (exec_CombinedOutput env (hd (dropWhile (succeeds env) cmds)))) @
               ''\<newline>Output: '' @
               fst (exec_CombinedOutput env (hd (dropWhile (succeeds env) cmds))))"
proof (induction env cmds t rule: epson_main_commands.induct)
  case (3 env name arg rest t)
  show ?case
  proof (cases "exec_CombinedOutput env (name # arg)")
    case (Pair out err)
    show ?thesis
    proof (cases err)
      case None
      with Pair 3 show ?thesis
        by (simp add: succeeds_def)
    next
      case (Some e)
      with Pair show ?thesis by (simp add: succeeds_def)
    qed
  qed
qed simp_all

lemma epson_written_trace_observed:
  "written epson_written_trace =
     [(epson_socketFilePath, epson_socketFileContent, 420),
      (epson_serviceFilePath, epson_serviceFileContent, 420)]"
  "executed epson_written_trace = []"
  by (simp_all add: epson_written_trace_def)

lemma epson_commands_nonempty: "\<forall>c \<in> set epson_commands. c \<noteq> []"
  by (simp add: epson_commands_def)

lemma epson_main_ok:
  assumes "os_Geteuid env = 0" and "epson_writes_ok env"
    and "epson_main_commands env epson_commands epson_written_trace = (r, c)"
  shows "epson_main env =
     (case c of
        Some code \<Rightarrow> (r, code)
      | None \<Rightarrow>
          (r @ [Stdout (''\<newline>'' @ [CHR 0xF0, CHR 0x9F, CHR 0x8E, CHR 0x89] @
                        '' Setup complete! The epson printer socket is active and enabled.\<newline>''),
                Stdout ''The PC is now ready to accept print jobs on TCP port 9100.\<newline>''], 0))"
proof -
  have "epson_main env =
     (case epson_main_commands env epson_commands epson_written_trace of
        (t, Some code) \<Rightarrow> (t, code)
      | (t, None) \<Rightarrow>
          (t @ [Stdout (''\<newline>'' @ [CHR 0xF0, CHR 0x9F, CHR 0x8E, CHR 0x89] @
                        '' Setup complete! The epson printer socket is active and enabled.\<newline>''),
                Stdout ''The PC is now ready to accept print jobs on TCP port 9100.\<newline>''], 0))"
    using assms(1,2) unfolding epson_main_def epson_writes_ok_def epson_written_trace_def
    by (simp only: simp_thms if_False option.case)
  then show ?thesis
    by (cases c) (simp_all add: assms(3))
qed

lemma epson_main_written:
  "written (fst (epson_main env)) =
     (if os_Geteuid env \<noteq> 0 then []
      else case os_WriteFile env epson_socketFilePath epson_socketFileContent 420 of
        Some err \<Rightarrow> [(epson_socketFilePath, epson_socketFileContent, 420)]
      | None \<Rightarrow> [(epson_socketFilePath, epson_socketFileContent, 420),
                 (epson_serviceFilePath, epson_serviceFileContent, 420)])"
proof (cases "os_Geteuid env = 0 \<and> epson_writes_ok env")
  case True
  obtain t' where t': "fst (epson_main_commands env epson_commands epson_written_trace) = epson_written_trace @ t'"
      "written t' = []"
    using epson_main_commands_extends by blast
  obtain r c where rc: "epson_main_commands env epson_commands epson_written_trace = (r, c)"
    by (cases "epson_main_commands env epson_commands epson_written_trace")
  with t' have "written r = written epson_written_trace"
    by (simp add: written_append)
  with True rc show ?thesis
    by (cases c) (simp_all add: epson_main_ok [OF _ _ rc] epson_written_trace_observed written_append epson_writes_ok_def)
next
  case False
  then show ?thesis
    by (auto simp: epson_main_def epson_writes_ok_def split: option.splits)
qed

lemma epson_main_executed:
  "executed (fst (epson_main env)) =
     (if os_Geteuid env = 0 \<and> epson_writes_ok env
      then takeWhile (succeeds env) epson_commands @ take 1 (dropWhile (succeeds env) epson_commands)
      else [])"
proof (cases "os_Geteuid env = 0 \<and> epson_writes_ok env")
  case True
  have ex: "executed (fst (epson_main_commands env epson_commands epson_written_trace)) =
          executed epson_written_trace @
          takeWhile (succeeds env) epson_commands @ take 1 (dropWhile (succeeds env) epson_commands)"
    using epson_commands_nonempty by (rule epson_main_commands_executed)
  obtain r c where rc: "epson_main_commands env epson_commands epson_written_trace = (r, c)"
    by (cases "epson_main_commands env epson_commands epson_written_trace")
  with ex have "executed r =
      takeWhile (succeeds env) epson_commands @ take 1 (dropWhile (succeeds env) epson_commands)"
    by (simp add: epson_written_trace_observed)
  with True rc show ?thesis
    by (cases c) (simp_all add: epson_main_ok [OF _ _ rc] executed_append)
next
  case False
  then show ?thesis
    by (auto simp: epson_main_def epson_writes_ok_def split: option.splits)
qed

lemma epson_main_code:
  "snd (epson_main env) =
     (if os_Geteuid env = 0 \<and> epson_writes_ok env \<and> list_all (succeeds env) epson_commands
      then 0 else 1)"
proof (cases "os_Geteuid env = 0 \<and> epson_writes_ok env")
  case True
  have cd: "snd (epson_main_commands env epson_commands epson_written_trace) =
          (if list_all (succeeds env) epson_commands then None else Some 1)"
    using epson_commands_nonempty by (rule epson_main_commands_code)
  obtain r c where rc: "epson_main_commands env epson_commands epson_written_trace = (r, c)"
    by (cases "epson_main_commands env epson_commands epson_written_trace")
  with True cd show ?thesis
    by (cases c) (simp_all add: epson_main_ok [OF _ _ rc] split: if_splits)
next
  case False
  then show ?thesis
    by (auto simp: epson_main_def epson_writes_ok_def split: option.splits)
qed

lemma epson_main_order:
  "\<exists>t1 t2. fst (epson_main env) = t1 @ t2 \<and> executed t1 = [] \<and> written t2 = []"
proof (cases "os_Geteuid env = 0 \<and> epson_writes_ok env")
  case True
  obtain t' where t': "fst (epson_main_commands env epson_commands epson_written_trace) = epson_written_trace @ t'"
      "written t' = []"
    using epson_main_commands_extends by blast
  obtain r c where rc: "epson_main_commands env epson_commands epson_written_trace = (r, c)"
    by (cases "epson_main_commands env epson_commands epson_written_trace")
  show ?thesis
  proof (cases c)
    case None
    let ?e = "[Stdout (''\<newline>'' @ [CHR 0xF0, CHR 0x9F, CHR 0x8E, CHR 0x89] @
                        '' Setup complete! The epson printer socket is active and enabled.\<newline>''),
                Stdout ''The PC is now ready to accept print jobs on TCP port 9100.\<newline>'']"
    have "fst (epson_main env) = epson_written_trace @ (t' @ ?e)"
      using True rc None t'(1) by (simp add: epson_main_ok [OF _ _ rc])
    moreover have "written (t' @ ?e) = []" using t'(2) by (simp add: written_append)
    ultimately show ?thesis using epson_written_trace_observed(2) by blast
  next
    case (Some code)
    have "fst (epson_main env) = epson_written_trace @ t'"
      using True rc Some t'(1) by (simp add: epson_main_ok [OF _ _ rc])
    then show ?thesis using t'(2) epson_written_trace_observed(2) by blast
  qed
next
  case False
  then have "\<exists>t1. fst (epson_main env) = t1 @ [] \<and> executed t1 = []"
    by (auto simp: epson_main_def epson_writes_ok_def split: option.splits)
  then show ?thesis by (metis written.simps(1))
qed

lemma epson_main_fatal:
  assumes "os_Geteuid env = 0" and "epson_writes_ok env" and "\<not> list_all (succeeds env) epson_commands"
  shows "last (fst (epson_main env)) =
     LogFatal (''Failed to execute command '' @ [CHR 0x27] @
               Join (hd (dropWhile (succeeds env) epson_commands)) '' '' @ [CHR 0x27] @ '': '' @
               the (snd (exec_CombinedOutput env (hd (dropWhile (succeeds env) epson_commands)))) @
               ''\<newline>Output: '' @
               fst (exec_CombinedOutput env (hd (dropWhile (succeeds env) epson_commands))))"
proof -
  obtain r c where rc: "epson_main_commands env epson_commands epson_written_trace = (r, c)"
    by (cases "epson_main_commands env epson_commands epson_written_trace")
  have "snd (epson_main_commands env epson_commands epson_written_trace) = Some 1"
    using epson_main_commands_code [OF epson_commands_nonempty, of env epson_written_trace] assms(3) by simp
  with rc have c: "c = Some 1" by simp
  have "fst (epson_main env) = r"
    using assms(1,2) rc c by (simp add: epson_main_ok [OF _ _ rc])
  moreover have "r = fst (epson_main_commands env epson_commands epson_written_trace)"
    using rc by simp
  ultimately show ?thesis
    using epson_main_commands_fatal [OF epson_commands_nonempty assms(3), of epson_written_trace] by simp
qed

lemma epson_main_write_fatal:
  assumes "os_Geteuid env = 0" and "\<not> epson_writes_ok env"
  shows "\<exists>err. last (fst (epson_main env)) = LogFatal err"
  using assms by (auto simp: epson_main_def epson_writes_ok_def split: option.splits)

subsection \<open>Lines of the unit files\<close>

lemma text_lines_terminated: "text_lines (xs @ [CHR ''\<newline>'']) \<noteq> []"
  by (induction xs) (simp_all split: list.splits)

lemma text_lines_append:
  "text_lines (xs @ CHR ''\<newline>'' # ys) = text_lines (xs @ [CHR ''\<newline>'']) @ text_lines ys"
proof (induction xs)
  case Nil
  show ?case by simp
next
  case (Cons c xs)
  obtain l ls where "text_lines (xs @ [CHR ''\<newline>'']) = l # ls"
    using text_lines_terminated [of xs] by (cases "text_lines (xs @ [CHR ''\<newline>''])") auto
  with Cons show ?case by simp
qed

lemma serviceFileContent_lines:
  "\<exists>ls. text_lines (serviceFileContent printerPath) = ls @ [''StandardInput=socket'']"
proof -
  let ?A = "''[Unit]\<newline>Description=ESC/POS Printer Service\<newline>\<newline>[Service]\<newline>'' @
            ''ExecStart=-/usr/bin/tee /dev/null > '' @ printerPath"
  have h: "serviceFileContent printerPath = ?A @ CHR ''\<newline>'' # ''StandardInput=socket\<newline>''"
    by (simp add: serviceFileContent_def)
  have l: "text_lines ''StandardInput=socket\<newline>'' = [''StandardInput=socket'']"
    by simp
  have "text_lines (serviceFileContent printerPath) =
        text_lines (?A @ [CHR ''\<newline>'']) @ [''StandardInput=socket'']"
    by (simp only: h l text_lines_append [of ?A "''StandardInput=socket\<newline>''"])
  then show ?thesis by blast
qed

lemma socketFileContent_lines:
  "text_lines socketFileContent =
     [''[Unit]'', ''Description=ESC/POS Printer Socket'', [], ''[Socket]'',
      ''ListenStream=0.0.0.0:9100'', ''Accept=yes'', [], ''[Install]'', ''WantedBy=sockets.target'']"
  by (simp add: socketFileContent_def)

subsection \<open>Runs that reach the installation, and runs that do not\<close>

lemma main_install_run:
  assumes "os_Geteuid env = 0"
    and "filepath_Glob env ''/dev/usb/lp*'' = Inr matches"
    and "filter (is_char_device env) matches = printers"
    and "printers \<noteq> []"
    and "\<forall>j<k. \<not> valid_choice (length printers) (fmt_Scanln env j)"
    and "fmt_Scanln env k = Scanned choice" and "1 \<le> choice" and "choice \<le> int (length printers)"
  shows "\<exists>u. main env = Some (main_install env (printers ! nat (choice - 1)) u) \<and>
             written u = [] \<and> executed u = [] \<and> scans u = Suc k"
proof -
  let ?t = "[Stdout (''Iniciando la configuraci'' @ [CHR 0xC3, CHR 0xB3] @
                     ''n del servicio de impresora ESC/POS...\<newline>''),
             CallGeteuid,
             Stdout (check_mark @ '' Permisos de root confirmados.\<newline>'')] @
            CallGlob ''/dev/usb/lp*'' # map CallStat matches @
            [Stdout (fmt_d (int (length printers)) @ ''\<newline>'')] @
            map (\<lambda>printer. Stdout (printer @ ''\<newline>'')) printers"
  let ?u = "?t @ Stdout ''\<newline>Se encontraron las siguientes impresoras USB:\<newline>'' #
               selectPrinter_list 0 printers @ concat (replicate k selectPrinter_retry) @
               [Stdout selectPrinter_prompt, CallScanln] @
               [Stdout (check_mark @ '' Impresora seleccionada: '' @
                        printers ! nat (choice - 1) @ ''\<newline>'')]"
  have fp: "findPrinters env u = (u @ CallGlob ''/dev/usb/lp*'' # map CallStat matches, Inr printers)" for u
    using assms(2,3) by (simp add: findPrinters_eq)
  have sp: "selectPrinter env printers ?t =
     Some (?t @ Stdout ''\<newline>Se encontraron las siguientes impresoras USB:\<newline>'' #
               selectPrinter_list 0 printers @ concat (replicate k selectPrinter_retry) @
               [Stdout selectPrinter_prompt, CallScanln],
           Inr (printers ! nat (choice - 1)))"
    using assms(4-8) by (rule selectPrinter_first_valid)
  have "main env = Some (main_install env (printers ! nat (choice - 1)) ?u)"
    using assms(1) sp by (simp add: main_def fp)
  moreover have "written ?u = []" "executed ?u = []" "scans ?u = Suc k"
    by (simp_all add: written_append executed_append scans_append)
  ultimately show ?thesis by blast
qed

lemma main_hangs:
  assumes "os_Geteuid env = 0"
    and "filepath_Glob env ''/dev/usb/lp*'' = Inr matches"
    and "filter (is_char_device env) matches \<noteq> []"
    and "\<forall>k. \<not> valid_choice (length (filter (is_char_device env) matches)) (fmt_Scanln env k)"
  shows "main env = None"
  using assms by (simp add: main_def findPrinters_eq selectPrinter_never)

lemma main_no_printer:
  assumes "os_Geteuid env = 0"
    and "filepath_Glob env ''/dev/usb/lp*'' = Inr matches"
    and "filter (is_char_device env) matches = []"
  shows "main env =
     Some ([Stdout (''Iniciando la configuraci'' @ [CHR 0xC3, CHR 0xB3] @
                    ''n del servicio de impresora ESC/POS...\<newline>''),
            CallGeteuid,
            Stdout (check_mark @ '' Permisos de root confirmados.\<newline>''),
            CallGlob ''/dev/usb/lp*''] @ map CallStat matches @
           [Stdout ''0\<newline>'',
            LogFatal ''Error: no se encontraron impresoras USB en /dev/usb/lpX''], 1)"
  using assms by (simp add: main_def findPrinters_eq selectPrinter_def fmt_d_def decimal.simps digit_char_def)

subsection \<open>The run on the machine where everything works\<close>

lemma env_ok_matches:
  "filter (is_char_device env_ok) [''/dev/usb/lp0'', ''/dev/usb/lp1'', ''/dev/usb/lpdir'', ''/dev/usb/lpgone'']
     = [''/dev/usb/lp0'', ''/dev/usb/lp1'']"
  by (simp add: is_char_device_def env_ok_def)

lemma env_ok_run:
  "\<exists>u. main env_ok = Some (main_install env_ok ''/dev/usb/lp1'' u) \<and>
       written u = [] \<and> executed u = [] \<and> scans u = Suc 0"
proof -
  have "\<exists>u. main env_ok = Some (main_install env_ok ([''/dev/usb/lp0'', ''/dev/usb/lp1''] ! nat (2 - 1)) u) \<and>
       written u = [] \<and> executed u = [] \<and> scans u = Suc 0"
    by (rule main_install_run [OF _ _ env_ok_matches]) (simp_all add: env_ok_def)
  then show ?thesis by simp
qed

subsection \<open>How every run starts\<close>

lemma main_starts:
  assumes "main env = Some (t, code)"
  shows "\<exists>s rest. t = Stdout s # CallGeteuid # rest"
proof -
  from main_Some [OF assms] obtain s t0 where
    alt: "(\<exists>msg. t = Stdout s # CallGeteuid # t0 @ [LogFatal msg] \<and> code = 1) \<or>
          (\<exists>sel. (t, code) = main_install env sel (Stdout s # CallGeteuid # t0))"
    by blast
  then show ?thesis
  proof
    assume "\<exists>msg. t = Stdout s # CallGeteuid # t0 @ [LogFatal msg] \<and> code = 1"
    then show ?thesis by blast
  next
    assume "\<exists>sel. (t, code) = main_install env sel (Stdout s # CallGeteuid # t0)"
    then obtain sel where eq: "(t, code) = main_install env sel (Stdout s # CallGeteuid # t0)" ..
    obtain t1 t2 where "fst (main_install env sel (Stdout s # CallGeteuid # t0)) =
        (Stdout s # CallGeteuid # t0) @ t1 @ t2"
      using main_install_order by blast
    with eq have "t = Stdout s # CallGeteuid # (t0 @ t1 @ t2)"
      by (metis append_Cons fst_conv)
    then show ?thesis by blast
  qed
qed

lemma epson_main_starts:
  "\<exists>rest. fst (epson_main env) =
     Stdout ''Starting Epson Printer Service Setup...\<newline>'' # CallGeteuid # rest"
proof (cases "os_Geteuid env = 0 \<and> epson_writes_ok env")
  case True
  obtain t' where t': "fst (epson_main_commands env epson_commands epson_written_trace) = epson_written_trace @ t'"
    using epson_main_commands_extends by blast
  obtain r c where rc: "epson_main_commands env epson_commands epson_written_trace = (r, c)"
    by (cases "epson_main_commands env epson_commands epson_written_trace")
  with t' have "r = epson_written_trace @ t'" by simp
  with True rc show ?thesis
    by (cases c) (simp_all add: epson_main_ok [OF _ _ rc] epson_written_trace_def)
next
  case False
  then show ?thesis
    by (auto simp: epson_main_def epson_writes_ok_def split: option.splits)
qed

subsection \<open>One decimal digit\<close>

lemma decimal_digit: "n < 10 \<Longrightarrow> decimal n = [digit_char n]"
  by (simp add: decimal.simps)

subsection \<open>Writes come before commands\<close>

lemma main_install_facts:
  assumes "(t, code) = main_install env sel u" and "written u = []" and "executed u = []"
  shows "written t =
       (case os_WriteFile env socketFilePath socketFileContent 420 of
          Some err \<Rightarrow> [(socketFilePath, socketFileContent, 420)]
        | None \<Rightarrow> [(socketFilePath, socketFileContent, 420),
                   (serviceFilePath, serviceFileContent sel, 420)])"
    and "executed t =
       (if writes_ok env sel
        then takeWhile (succeeds env) commands @ take 1 (dropWhile (succeeds env) commands)
        else [])"
    and "code = (if writes_ok env sel \<and> list_all (succeeds env) commands then 0 else 1)"
    and "\<exists>t1 t2. t = t1 @ t2 \<and> executed t1 = [] \<and> written t2 = []"
proof -
  have t: "t = fst (main_install env sel u)" and c: "code = snd (main_install env sel u)"
    using assms(1) by (metis fst_conv, metis snd_conv)
  show "written t =
       (case os_WriteFile env socketFilePath socketFileContent 420 of
          Some err \<Rightarrow> [(socketFilePath, socketFileContent, 420)]
        | None \<Rightarrow> [(socketFilePath, socketFileContent, 420),
                   (serviceFilePath, serviceFileContent sel, 420)])"
    unfolding t main_install_written assms(2) by simp
  show "executed t =
       (if writes_ok env sel
        then takeWhile (succeeds env) commands @ take 1 (dropWhile (succeeds env) commands)
        else [])"
    unfolding t main_install_executed assms(3) by simp
  show "code = (if writes_ok env sel \<and> list_all (succeeds env) commands then 0 else 1)"
    unfolding c by (rule main_install_code)
  obtain t1 t2 where o: "fst (main_install env sel u) = u @ t1 @ t2" "executed t1 = []" "written t2 = []"
    using main_install_order by blast
  have "t = (u @ t1) @ t2" "executed (u @ t1) = []"
    using o(1,2) assms(3) by (simp_all add: t executed_append)
  with o(3) show "\<exists>t1 t2. t = t1 @ t2 \<and> executed t1 = [] \<and> written t2 = []"
    by blast
qed

lemma first_failure_nonempty: "cmds \<noteq> [] \<Longrightarrow> takeWhile P cmds @ take 1 (dropWhile P cmds) \<noteq> []"
  by (cases cmds) auto

lemma main_writes_then_commands:
  assumes "main env = Some (t, code)"
  shows "(\<exists>sel. written t = take (length (written t))
              [(socketFilePath, socketFileContent, 420),
               (serviceFilePath, serviceFileContent sel, 420)]) \<and>
      (\<exists>t1 t2. t = t1 @ t2 \<and> executed t1 = [] \<and> written t2 = []) \<and>
      (executed t \<noteq> [] \<longrightarrow>
         length (written t) = 2 \<and>
         (\<forall>(path, content, perm) \<in> set (written t). os_WriteFile env path content perm = None)) \<and>
      ((\<exists>(path, content, perm) \<in> set (written t). os_WriteFile env path content perm \<noteq> None) \<longrightarrow>
         code = 1 \<and> executed t = [] \<and> (\<exists>msg. last t = LogFatal msg)) \<and>
      (code = 0 \<longrightarrow> length (written t) = 2)"
proof -
  from main_Some [OF assms] obtain s t0 where
    w0: "written (Stdout s # CallGeteuid # t0) = []" and
    e0: "executed (Stdout s # CallGeteuid # t0) = []" and
    alt: "(\<exists>msg. t = Stdout s # CallGeteuid # t0 @ [LogFatal msg] \<and> code = 1) \<or>
          (\<exists>sel. (t, code) = main_install env sel (Stdout s # CallGeteuid # t0))"
    by blast
  from alt show ?thesis
  proof
    assume "\<exists>msg. t = Stdout s # CallGeteuid # t0 @ [LogFatal msg] \<and> code = 1"
    then obtain msg where t: "t = (Stdout s # CallGeteuid # t0) @ [LogFatal msg]" and c: "code = 1"
      by auto
    have w: "written t = []" and e: "executed t = []"
      using w0 e0 unfolding t written_append executed_append by simp_all
    have "t = t @ [] \<and> executed t = [] \<and> written [] = []"
      using e by simp
    then have "\<exists>t1 t2. t = t1 @ t2 \<and> executed t1 = [] \<and> written t2 = []"
      by blast
    then show ?thesis
      using w e c by simp
  next
    assume "\<exists>sel. (t, code) = main_install env sel (Stdout s # CallGeteuid # t0)"
    then obtain sel where eq: "(t, code) = main_install env sel (Stdout s # CallGeteuid # t0)" ..
    note f = main_install_facts [OF eq w0 e0]
    have fatal: "\<not> writes_ok env sel \<Longrightarrow> \<exists>msg. last t = LogFatal msg"
      using main_install_write_fatal [of env sel "Stdout s # CallGeteuid # t0"] eq
      by (metis fst_conv)
    have ne: "takeWhile (succeeds env) commands @ take 1 (dropWhile (succeeds env) commands) \<noteq> []"
      by (rule first_failure_nonempty) (simp add: commands_def)
    show ?thesis
    proof (cases "writes_ok env sel")
      case True
      then have w: "written t = [(socketFilePath, socketFileContent, 420),
                                 (serviceFilePath, serviceFileContent sel, 420)]"
        using f(1) by (simp add: writes_ok_def)
      have "written t = take (length (written t))
              [(socketFilePath, socketFileContent, 420),
               (serviceFilePath, serviceFileContent sel, 420)]"
        unfolding w by simp
      moreover have "\<forall>(path, content, perm) \<in> set (written t). os_WriteFile env path content perm = None"
        unfolding w using True by (simp add: writes_ok_def)
      moreover have "length (written t) = 2"
        unfolding w by simp
      ultimately show ?thesis
        using f(4) by auto
    next
      case False
      then have c: "code = 1" and e: "executed t = []"
        using f(2,3) by simp_all
      have "written t = take (length (written t))
              [(socketFilePath, socketFileContent, 420),
               (serviceFilePath, serviceFileContent sel, 420)]"
        unfolding f(1) by (simp split: option.splits)
      then show ?thesis
        using f(4) c e fatal [OF False] by auto
    qed
  qed
qed

lemma epson_main_writes_then_commands:
  assumes "epson_main env = (t, code)"
  shows "written t = take (length (written t))
              [(epson_socketFilePath, epson_socketFileContent, 420),
               (epson_serviceFilePath, epson_serviceFileContent, 420)] \<and>
      (\<exists>t1 t2. t = t1 @ t2 \<and> executed t1 = [] \<and> written t2 = []) \<and>
      (executed t \<noteq> [] \<longrightarrow>
         length (written t) = 2 \<and>
         (\<forall>(path, content, perm) \<in> set (written t). os_WriteFile env path content perm = None)) \<and>
      ((\<exists>(path, content, perm) \<in> set (written t). os_WriteFile env path content perm \<noteq> None) \<longrightarrow>
         code = 1 \<and> executed t = [] \<and> (\<exists>msg. last t = LogFatal msg)) \<and>
      (code = 0 \<longrightarrow> length (written t) = 2)"
proof -
  have t: "t = fst (epson_main env)" and c: "code = snd (epson_main env)"
    using assms by simp_all
  have ord: "\<exists>t1 t2. t = t1 @ t2 \<and> executed t1 = [] \<and> written t2 = []"
    unfolding t by (rule epson_main_order)
  show ?thesis
  proof (cases "os_Geteuid env = 0")
    case False
    then have "written t = []" "executed t = []" "code = 1"
      unfolding t c epson_main_written epson_main_executed epson_main_code by simp_all
    with ord show ?thesis by simp
  next
    case root: True
    show ?thesis
    proof (cases "epson_writes_ok env")
      case True
      then have w: "written t = [(epson_socketFilePath, epson_socketFileContent, 420),
                                 (epson_serviceFilePath, epson_serviceFileContent, 420)]"
        unfolding t epson_main_written using root by (simp add: epson_writes_ok_def)
      have "written t = take (length (written t))
              [(epson_socketFilePath, epson_socketFileContent, 420),
               (epson_serviceFilePath, epson_serviceFileContent, 420)]"
        unfolding w by simp
      moreover have "\<forall>(path, content, perm) \<in> set (written t). os_WriteFile env path content perm = None"
        unfolding w using True by (simp add: epson_writes_ok_def)
      moreover have "length (written t) = 2"
        unfolding w by simp
      ultimately show ?thesis
        using ord by auto
    next
      case False
      then have c1: "code = 1" and e: "executed t = []"
        unfolding t c epson_main_executed epson_main_code by simp_all
      have fatal: "\<exists>msg. last t = LogFatal msg"
        unfolding t using root False by (rule epson_main_write_fatal)
      have "written t = take (length (written t))
              [(epson_socketFilePath, epson_socketFileContent, 420),
               (epson_serviceFilePath, epson_serviceFileContent, 420)]"
        unfolding t epson_main_written using root by (simp split: option.splits)
      then show ?thesis
        using ord c1 e fatal by auto
    qed
  qed
qed

subsection \<open>Runs of \<^verbatim>\<open>main\<close> on the concrete systems\<close>

lemma commands_succeed_iff:
  "list_all P cmds \<Longrightarrow> takeWhile P cmds @ take 1 (dropWhile P cmds) = cmds"
  by (induction cmds) simp_all

lemma env_ok_main:
  "\<exists>t. main env_ok = Some (t, 0) \<and>
       written t = [(socketFilePath, socketFileContent, 420),
                    (serviceFilePath, serviceFileContent ''/dev/usb/lp1'', 420)] \<and>
       executed t = commands"
proof -
  obtain u where u: "main env_ok = Some (main_install env_ok ''/dev/usb/lp1'' u)"
      "written u = []" "executed u = []"
    using env_ok_run by blast
  obtain t code where tc: "(t, code) = main_install env_ok ''/dev/usb/lp1'' u"
    by (metis surj_pair)
  have w: "writes_ok env_ok ''/dev/usb/lp1''"
    by (simp add: writes_ok_def env_ok_def)
  have s: "list_all (succeeds env_ok) commands"
    by (simp add: succeeds_def env_ok_def list_all_iff)
  note f = main_install_facts [OF tc u(2,3)]
  have "written t = [(socketFilePath, socketFileContent, 420),
                    (serviceFilePath, serviceFileContent ''/dev/usb/lp1'', 420)]"
    using f(1) w by (simp add: writes_ok_def)
  moreover have "executed t = commands"
    using f(2) w commands_succeed_iff [OF s] by simp
  moreover have "code = 0"
    using f(3) w s by simp
  ultimately show ?thesis
    using u(1) tc by (metis)
qed

lemma env_retry_run:
  "\<exists>u. main env_retry = Some (main_install env_retry ''/dev/usb/lp0'' u) \<and>
       written u = [] \<and> executed u = [] \<and> scans u = Suc 1"
proof -
  have m: "filter (is_char_device env_retry)
             [''/dev/usb/lp0'', ''/dev/usb/lp1'', ''/dev/usb/lpdir'', ''/dev/usb/lpgone'']
           = [''/dev/usb/lp0'', ''/dev/usb/lp1'']"
    by (simp add: is_char_device_def env_retry_def env_ok_def)
  have "\<exists>u. main env_retry =
          Some (main_install env_retry ([''/dev/usb/lp0'', ''/dev/usb/lp1''] ! nat (1 - 1)) u) \<and>
       written u = [] \<and> executed u = [] \<and> scans u = Suc 1"
    by (rule main_install_run [OF _ _ m]) (simp_all add: env_retry_def env_ok_def)
  then show ?thesis by simp
qed

lemma env_retry_main:
  "\<exists>t. main env_retry = Some (t, 0) \<and>
       written t = [(socketFilePath, socketFileContent, 420),
                    (serviceFilePath, serviceFileContent ''/dev/usb/lp0'', 420)] \<and>
       executed t = commands"
proof -
  obtain u where u: "main env_retry = Some (main_install env_retry ''/dev/usb/lp0'' u)"
      "written u = []" "executed u = []"
    using env_retry_run by blast
  obtain t code where tc: "(t, code) = main_install env_retry ''/dev/usb/lp0'' u"
    by (metis surj_pair)
  have w: "writes_ok env_retry ''/dev/usb/lp0''"
    by (simp add: writes_ok_def env_retry_def env_ok_def)
  have s: "list_all (succeeds env_retry) commands"
    by (simp add: succeeds_def env_retry_def env_ok_def list_all_iff)
  note f = main_install_facts [OF tc u(2,3)]
  have "written t = [(socketFilePath, socketFileContent, 420),
                    (serviceFilePath, serviceFileContent ''/dev/usb/lp0'', 420)]"
    using f(1) w by (simp add: writes_ok_def)
  moreover have "executed t = commands"
    using f(2) w commands_succeed_iff [OF s] by simp
  moreover have "code = 0"
    using f(3) w s by simp
  ultimately show ?thesis
    using u(1) tc by (metis)
qed

lemma env_readonly_run:
  "\<exists>u. main env_readonly = Some (main_install env_readonly ''/dev/usb/lp1'' u) \<and>
       written u = [] \<and> executed u = [] \<and> scans u = Suc 0"
proof -
  have m: "filter (is_char_device env_readonly)
             [''/dev/usb/lp0'', ''/dev/usb/lp1'', ''/dev/usb/lpdir'', ''/dev/usb/lpgone'']
           = [''/dev/usb/lp0'', ''/dev/usb/lp1'']"
    by (simp add: is_char_device_def env_readonly_def env_ok_def)
  have "\<exists>u. main env_readonly =
          Some (main_install env_readonly ([''/dev/usb/lp0'', ''/dev/usb/lp1''] ! nat (2 - 1)) u) \<and>
       written u = [] \<and> executed u = [] \<and> scans u = Suc 0"
    by (rule main_install_run [OF _ _ m]) (simp_all add: env_readonly_def env_ok_def)
  then show ?thesis by simp
qed

lemma env_readonly_main:
  "\<exists>t. main env_readonly = Some (t, 1) \<and>
       written t = [(socketFilePath, socketFileContent, 420),
                    (serviceFilePath, serviceFileContent ''/dev/usb/lp1'', 420)] \<and>
       os_WriteFile env_readonly serviceFilePath (serviceFileContent ''/dev/usb/lp1'') 420 \<noteq> None \<and>
       executed t = []"
proof -
  obtain u where u: "main env_readonly = Some (main_install env_readonly ''/dev/usb/lp1'' u)"
      "written u = []" "executed u = []"
    using env_readonly_run by blast
  obtain t code where tc: "(t, code) = main_install env_readonly ''/dev/usb/lp1'' u"
    by (metis surj_pair)
  have w1: "os_WriteFile env_readonly socketFilePath socketFileContent 420 = None"
    by (simp add: env_readonly_def env_ok_def)
  have w2: "os_WriteFile env_readonly serviceFilePath (serviceFileContent ''/dev/usb/lp1'') 420 \<noteq> None"
    by (simp add: env_readonly_def env_ok_def serviceFilePath_def socketFilePath_def epson_socketFilePath_def)
  have w: "\<not> writes_ok env_readonly ''/dev/usb/lp1''"
    using w2 by (simp add: writes_ok_def)
  note f = main_install_facts [OF tc u(2,3)]
  have "written t = [(socketFilePath, socketFileContent, 420),
                    (serviceFilePath, serviceFileContent ''/dev/usb/lp1'', 420)]"
    using f(1) w1 by simp
  moreover have "executed t = []"
    using f(2) w by simp
  moreover have "code = 1"
    using f(3) w by simp
  ultimately show ?thesis
    using u(1) tc w2 by (metis)
qed

lemma env_failing_run:
  "\<exists>u. main env_failing = Some (main_install env_failing ''/dev/usb/lp1'' u) \<and>
       written u = [] \<and> executed u = [] \<and> scans u = Suc 0"
proof -
  have m: "filter (is_char_device env_failing)
             [''/dev/usb/lp0'', ''/dev/usb/lp1'', ''/dev/usb/lpdir'', ''/dev/usb/lpgone'']
           = [''/dev/usb/lp0'', ''/dev/usb/lp1'']"
    by (simp add: is_char_device_def env_failing_def env_ok_def)
  have "\<exists>u. main env_failing =
          Some (main_install env_failing ([''/dev/usb/lp0'', ''/dev/usb/lp1''] ! nat (2 - 1)) u) \<and>
       written u = [] \<and> executed u = [] \<and> scans u = Suc 0"
    by (rule main_install_run [OF _ _ m]) (simp_all add: env_failing_def env_ok_def)
  then show ?thesis by simp
qed

lemma env_failing_commands:
  "succeeds env_failing [''systemctl'', ''daemon-reload'']"
  "\<not> succeeds env_failing [''systemctl'', ''enable'', ''--now'', ''escpos-printer.socket'']"
  "\<not> succeeds env_failing [''systemctl'', ''enable'', ''--now'', ''epson-printer.socket'']"
  "exec_CombinedOutput env_failing [''systemctl'', ''enable'', ''--now'', ''escpos-printer.socket''] =
     (''Failed to enable unit.\<newline>'', Some ''exit status 1'')"
  "exec_CombinedOutput env_failing [''systemctl'', ''enable'', ''--now'', ''epson-printer.socket''] =
     (''Failed to enable unit.\<newline>'', Some ''exit status 1'')"
  by (simp_all add: succeeds_def env_failing_def env_ok_def)

lemma env_failing_main:
  "\<exists>t. main env_failing = Some (t, 1) \<and>
       length (written t) = 2 \<and>
       (\<forall>(path, content, perm) \<in> set (written t). os_WriteFile env_failing path content perm = None) \<and>
       executed t = [[''systemctl'', ''daemon-reload''],
                     [''systemctl'', ''enable'', ''--now'', ''escpos-printer.socket'']]"
proof -
  obtain u where u: "main env_failing = Some (main_install env_failing ''/dev/usb/lp1'' u)"
      "written u = []" "executed u = []"
    using env_failing_run by blast
  obtain t code where tc: "(t, code) = main_install env_failing ''/dev/usb/lp1'' u"
    by (metis surj_pair)
  have w: "writes_ok env_failing ''/dev/usb/lp1''"
    by (simp add: writes_ok_def env_failing_def env_ok_def)
  note f = main_install_facts [OF tc u(2,3)]
  have "written t = [(socketFilePath, socketFileContent, 420),
                    (serviceFilePath, serviceFileContent ''/dev/usb/lp1'', 420)]"
    using f(1) w by (simp add: writes_ok_def)
  then have "length (written t) = 2"
    "\<forall>(path, content, perm) \<in> set (written t). os_WriteFile env_failing path content perm = None"
    using w by (simp_all add: writes_ok_def)
  moreover have "executed t = [[''systemctl'', ''daemon-reload''],
                     [''systemctl'', ''enable'', ''--now'', ''escpos-printer.socket'']]"
    using f(2) w by (simp add: commands_def env_failing_commands)
  moreover have "code = 1"
    using f(3) w by (simp add: commands_def env_failing_commands)
  ultimately show ?thesis
    using u(1) tc by (metis)
qed

subsection \<open>The first command that fails\<close>

lemma first_failure:
  assumes "cmds = pre @ c # post" and "list_all P pre" and "\<not> P c"
  shows "takeWhile P cmds @ take 1 (dropWhile P cmds) = pre @ [c]"
    and "hd (dropWhile P cmds) = c"
    and "\<not> list_all P cmds"
proof -
  have p: "\<And>x. x \<in> set pre \<Longrightarrow> P x"
    using assms(2) by (simp add: list_all_iff)
  have "takeWhile P cmds = pre" "dropWhile P cmds = c # post"
    unfolding assms(1) using assms(3) p by (simp_all add: takeWhile_append2 dropWhile_append2)
  then show "takeWhile P cmds @ take 1 (dropWhile P cmds) = pre @ [c]" "hd (dropWhile P cmds) = c"
    by simp_all
  show "\<not> list_all P cmds"
    unfolding assms(1) using assms(3) by simp
qed

lemma main_commands_fail_fast:
  assumes "main env = Some (t, code)" and "length (written t) = 2"
    and "\<forall>(path, content, perm) \<in> set (written t). os_WriteFile env path content perm = None"
  shows "(list_all (succeeds env) commands \<longrightarrow> executed t = commands \<and> code = 0) \<and>
         (\<forall>pre c post out err.
            commands = pre @ c # post \<longrightarrow> list_all (succeeds env) pre \<longrightarrow>
            exec_CombinedOutput env c = (out, Some err) \<longrightarrow>
              executed t = pre @ [c] \<and> code = 1 \<and>
              last t = LogFatal (''Error al ejecutar el comando '' @ [CHR 0x27] @ Join c '' '' @
                                 [CHR 0x27] @ '': '' @ err @ ''\<newline>Salida: '' @ out))"
proof -
  from main_Some [OF assms(1)] obtain s t0 where
    w0: "written (Stdout s # CallGeteuid # t0) = []" and
    e0: "executed (Stdout s # CallGeteuid # t0) = []" and
    alt: "(\<exists>msg. t = Stdout s # CallGeteuid # t0 @ [LogFatal msg] \<and> code = 1) \<or>
          (\<exists>sel. (t, code) = main_install env sel (Stdout s # CallGeteuid # t0))"
    by blast
  have "\<not> (\<exists>msg. t = Stdout s # CallGeteuid # t0 @ [LogFatal msg] \<and> code = 1)"
  proof
    assume "\<exists>msg. t = Stdout s # CallGeteuid # t0 @ [LogFatal msg] \<and> code = 1"
    then obtain msg where "t = (Stdout s # CallGeteuid # t0) @ [LogFatal msg]" by auto
    then have "written t = []"
      using w0 by (simp only: written_append) simp
    with assms(2) show False by simp
  qed
  with alt obtain sel where eq: "(t, code) = main_install env sel (Stdout s # CallGeteuid # t0)"
    by blast
  note f = main_install_facts [OF eq w0 e0]
  have w: "writes_ok env sel"
    using f(1) assms(2,3) by (auto simp: writes_ok_def split: option.splits)
  have t: "t = fst (main_install env sel (Stdout s # CallGeteuid # t0))"
    using eq by (metis fst_conv)
  show ?thesis
  proof (intro conjI impI allI)
    assume a: "list_all (succeeds env) commands"
    show "executed t = commands"
      using f(2) w commands_succeed_iff [OF a] by simp
    show "code = 0"
      using f(3) w a by simp
  next
    fix pre c post out err
    assume c: "commands = pre @ c # post" and p: "list_all (succeeds env) pre"
      and x: "exec_CombinedOutput env c = (out, Some err)"
    have nc: "\<not> succeeds env c"
      using x by (simp add: succeeds_def)
    note ff = first_failure [OF c p nc]
    show "executed t = pre @ [c]"
      using f(2) w ff(1) by simp
    show "code = 1"
      using f(3) w ff(3) by simp
    show "last t = LogFatal (''Error al ejecutar el comando '' @ [CHR 0x27] @ Join c '' '' @
                                 [CHR 0x27] @ '': '' @ err @ ''\<newline>Salida: '' @ out)"
      unfolding t main_install_fatal [OF w ff(3)] ff(2) x by simp
  qed
qed

lemma epson_main_commands_fail_fast:
  assumes "epson_main env = (t, code)" and "length (written t) = 2"
    and "\<forall>(path, content, perm) \<in> set (written t). os_WriteFile env path content perm = None"
  shows "(list_all (succeeds env) epson_commands \<longrightarrow> executed t = epson_commands \<and> code = 0) \<and>
         (\<forall>pre c post out err.
            epson_commands = pre @ c # post \<longrightarrow> list_all (succeeds env) pre \<longrightarrow>
            exec_CombinedOutput env c = (out, Some err) \<longrightarrow>
              executed t = pre @ [c] \<and> code = 1 \<and>
              last t = LogFatal (''Failed to execute command '' @ [CHR 0x27] @ Join c '' '' @
                                 [CHR 0x27] @ '': '' @ err @ ''\<newline>Output: '' @ out))"
proof -
  have t: "t = fst (epson_main env)" and cd: "code = snd (epson_main env)"
    using assms(1) by simp_all
  have root: "os_Geteuid env = 0"
    using assms(2) unfolding t epson_main_written by (simp split: if_splits)
  have w: "epson_writes_ok env"
    using assms(2,3) root unfolding t epson_main_written
    by (auto simp: epson_writes_ok_def split: option.splits)
  show ?thesis
  proof (intro conjI impI allI)
    assume a: "list_all (succeeds env) epson_commands"
    show "executed t = epson_commands"
      unfolding t epson_main_executed using root w commands_succeed_iff [OF a] by simp
    show "code = 0"
      unfolding cd epson_main_code using root w a by simp
  next
    fix pre c post out err
    assume c: "epson_commands = pre @ c # post" and p: "list_all (succeeds env) pre"
      and x: "exec_CombinedOutput env c = (out, Some err)"
    have nc: "\<not> succeeds env c"
      using x by (simp add: succeeds_def)
    note ff = first_failure [OF c p nc]
    show "executed t = pre @ [c]"
      unfolding t epson_main_executed using root w ff(1) by simp
    show "code = 1"
      unfolding cd epson_main_code using root w ff(3) by simp
    show "last t = LogFatal (''Failed to execute command '' @ [CHR 0x27] @ Join c '' '' @
                                 [CHR 0x27] @ '': '' @ err @ ''\<newline>Output: '' @ out)"
      unfolding t epson_main_fatal [OF root w ff(3)] ff(2) x by simp
  qed
qed

subsection \<open>Runs of the first version on the concrete systems\<close>

lemma env_ok_epson:
  "os_Geteuid env_ok = 0" "epson_writes_ok env_ok" "list_all (succeeds env_ok) epson_commands"
  by (simp_all add: env_ok_def epson_writes_ok_def succeeds_def list_all_iff)

lemma env_ok_epson_main:
  "\<exists>t. epson_main env_ok = (t, 0) \<and>
       written t = [(epson_socketFilePath, epson_socketFileContent, 420),
                    (epson_serviceFilePath, epson_serviceFileContent, 420)] \<and>
       executed t = epson_commands"
proof -
  have "written (fst (epson_main env_ok)) =
          [(epson_socketFilePath, epson_socketFileContent, 420),
           (epson_serviceFilePath, epson_serviceFileContent, 420)]"
    unfolding epson_main_written using env_ok_epson(1,2) by (simp add: epson_writes_ok_def)
  moreover have "executed (fst (epson_main env_ok)) = epson_commands"
    unfolding epson_main_executed using env_ok_epson(1,2) commands_succeed_iff [OF env_ok_epson(3)]
    by simp
  moreover have "snd (epson_main env_ok) = 0"
    unfolding epson_main_code using env_ok_epson by simp
  ultimately show ?thesis
    by (metis prod.collapse)
qed

lemma env_retry_epson_main:
  "\<exists>t. epson_main env_retry = (t, 0) \<and>
       written t = [(epson_socketFilePath, epson_socketFileContent, 420),
                    (epson_serviceFilePath, epson_serviceFileContent, 420)]"
proof -
  have e: "os_Geteuid env_retry = 0" "epson_writes_ok env_retry"
    "list_all (succeeds env_retry) epson_commands"
    by (simp_all add: env_retry_def env_ok_def epson_writes_ok_def succeeds_def list_all_iff)
  have "written (fst (epson_main env_retry)) =
          [(epson_socketFilePath, epson_socketFileContent, 420),
           (epson_serviceFilePath, epson_serviceFileContent, 420)]"
    unfolding epson_main_written using e(1,2) by (simp add: epson_writes_ok_def)
  moreover have "snd (epson_main env_retry) = 0"
    unfolding epson_main_code using e by simp
  ultimately show ?thesis
    by (metis prod.collapse)
qed

lemma env_readonly_epson_main:
  "\<exists>t. epson_main env_readonly = (t, 1) \<and>
       written t = [(epson_socketFilePath, epson_socketFileContent, 420),
                    (epson_serviceFilePath, epson_serviceFileContent, 420)] \<and>
       os_WriteFile env_readonly epson_serviceFilePath epson_serviceFileContent 420 =
         Some ''read-only file system'' \<and>
       executed t = []"
proof -
  have r: "os_Geteuid env_readonly = 0"
    by (simp add: env_readonly_def env_ok_def)
  have w1: "os_WriteFile env_readonly epson_socketFilePath epson_socketFileContent 420 = None"
    by (simp add: env_readonly_def env_ok_def)
  have w2: "os_WriteFile env_readonly epson_serviceFilePath epson_serviceFileContent 420 =
         Some ''read-only file system''"
    by (simp add: env_readonly_def env_ok_def epson_serviceFilePath_def socketFilePath_def
          epson_socketFilePath_def)
  have w: "\<not> epson_writes_ok env_readonly"
    using w2 by (simp add: epson_writes_ok_def)
  have "written (fst (epson_main env_readonly)) =
          [(epson_socketFilePath, epson_socketFileContent, 420),
           (epson_serviceFilePath, epson_serviceFileContent, 420)]"
    unfolding epson_main_written using r w1 by simp
  moreover have "executed (fst (epson_main env_readonly)) = []"
    unfolding epson_main_executed using w by simp
  moreover have "snd (epson_main env_readonly) = 1"
    unfolding epson_main_code using w by simp
  ultimately show ?thesis
    using w2 by (metis prod.collapse)
qed

lemma env_failing_epson_main:
  "\<exists>t. epson_main env_failing = (t, 1) \<and>
       length (written t) = 2 \<and>
       (\<forall>(path, content, perm) \<in> set (written t). os_WriteFile env_failing path content perm = None) \<and>
       executed t = [[''systemctl'', ''daemon-reload''],
                     [''systemctl'', ''enable'', ''--now'', ''epson-printer.socket'']]"
proof -
  have r: "os_Geteuid env_failing = 0"
    by (simp add: env_failing_def env_ok_def)
  have w: "epson_writes_ok env_failing"
    by (simp add: env_failing_def env_ok_def epson_writes_ok_def)
  have "written (fst (epson_main env_failing)) =
          [(epson_socketFilePath, epson_socketFileContent, 420),
           (epson_serviceFilePath, epson_serviceFileContent, 420)]"
    unfolding epson_main_written using r w by (simp add: epson_writes_ok_def)
  then have "length (written (fst (epson_main env_failing))) = 2"
    "\<forall>(path, content, perm) \<in> set (written (fst (epson_main env_failing))).
        os_WriteFile env_failing path content perm = None"
    using w by (simp_all add: epson_writes_ok_def)
  moreover have "executed (fst (epson_main env_failing)) =
      [[''systemctl'', ''daemon-reload''],
       [''systemctl'', ''enable'', ''--now'', ''epson-printer.socket'']]"
    unfolding epson_main_executed using r w by (simp add: epson_commands_def env_failing_commands)
  moreover have "snd (epson_main env_failing) = 1"
    unfolding epson_main_code using r w by (simp add: epson_commands_def env_failing_commands)
  ultimately show ?thesis
    by (metis prod.collapse)
qed

subsection \<open>The contents written\<close>

lemma serviceFileContent_inject:
  "(serviceFileContent p = serviceFileContent q) = (p = q)"
  by (simp add: serviceFileContent_def)

lemma paths_distinct: "serviceFilePath \<noteq> socketFilePath"
  by (simp add: serviceFilePath_def socketFilePath_def)

lemma main_written_contents:
  assumes "main env = Some (t, code)"
  shows "\<forall>(path, content, perm) \<in> set (written t).
           (path = socketFilePath \<and> content = socketFileContent) \<or>
           (path = serviceFilePath \<and>
            (\<exists>sel. selected_printer env = Some sel \<and> content = serviceFileContent sel))"
proof -
  from main_Some [OF assms] obtain s t0 where
    w0: "written (Stdout s # CallGeteuid # t0) = []" and
    alt: "(\<exists>msg. t = Stdout s # CallGeteuid # t0 @ [LogFatal msg] \<and> code = 1) \<or>
          (\<exists>sel. selected_printer env = Some sel \<and>
                 (t, code) = main_install env sel (Stdout s # CallGeteuid # t0))"
    by blast
  from alt show ?thesis
  proof
    assume "\<exists>msg. t = Stdout s # CallGeteuid # t0 @ [LogFatal msg] \<and> code = 1"
    then obtain msg where "t = (Stdout s # CallGeteuid # t0) @ [LogFatal msg]" by auto
    then have "written t = []"
      using w0 by (simp only: written_append) simp
    then show ?thesis by simp
  next
    assume "\<exists>sel. selected_printer env = Some sel \<and>
                 (t, code) = main_install env sel (Stdout s # CallGeteuid # t0)"
    then obtain sel where sel: "selected_printer env = Some sel"
      and eq: "(t, code) = main_install env sel (Stdout s # CallGeteuid # t0)"
      by blast
    from eq have "t = fst (main_install env sel (Stdout s # CallGeteuid # t0))"
      by (metis fst_conv)
    then have "written t =
       (case os_WriteFile env socketFilePath socketFileContent 420 of
          Some err \<Rightarrow> [(socketFilePath, socketFileContent, 420)]
        | None \<Rightarrow> [(socketFilePath, socketFileContent, 420),
                   (serviceFilePath, serviceFileContent sel, 420)])"
      using w0 by (simp only: main_install_written) simp
    then show ?thesis
      using sel by (auto split: option.splits)
  qed
qed

lemma epson_main_written_contents:
  "\<forall>(path, content, perm) \<in> set (written (fst (epson_main env))).
     (path = epson_socketFilePath \<and> content = epson_socketFileContent) \<or>
     (path = epson_serviceFilePath \<and> content = epson_serviceFileContent)"
  unfolding epson_main_written by (simp split: option.splits)

subsection \<open>\<open>decimal\<close> prints the number\<close>

lemma digit_char_all:
  "\<forall>n<10. digit_value (digit_char n) = n \<and> digit_char n \<in> set ''0123456789'' \<and>
           (n \<noteq> 0 \<longrightarrow> digit_char n \<noteq> CHR ''0'')"
proof -
  have ten: "(10::nat) = Suc (Suc (Suc (Suc (Suc (Suc (Suc (Suc (Suc (Suc 0)))))))))"
    by simp
  show ?thesis
    unfolding ten All_less_Suc by (simp add: digit_char_def digit_value_def)
qed

lemma digit_char_cases:
  assumes "n < 10"
  shows "digit_value (digit_char n) = n" and "digit_char n \<in> set ''0123456789''"
    and "n \<noteq> 0 \<Longrightarrow> digit_char n \<noteq> CHR ''0''"
  using digit_char_all assms by blast+

lemma decimal_nonempty: "decimal n \<noteq> []"
  by (subst decimal.simps) simp

lemma decimal_value_append:
  "decimal_value (s @ [c]) = 10 * decimal_value s + digit_value c"
  by (simp add: decimal_value_def)

lemma decimal_value_decimal: "decimal_value (decimal n) = n"
proof (induction n rule: decimal.induct)
  case (1 n)
  show ?case
  proof (cases "n < 10")
    case True
    then have "decimal n = [digit_char n]" by (rule decimal_digit)
    with True show ?thesis
      by (simp add: decimal_value_def digit_char_cases(1))
  next
    case False
    then have d: "decimal n = decimal (n div 10) @ [digit_char (n mod 10)]"
      by (subst decimal.simps) simp
    have "digit_value (digit_char (n mod 10)) = n mod 10"
      by (rule digit_char_cases(1)) simp
    with 1 False show ?thesis
      by (simp add: d decimal_value_append)
  qed
qed

lemma decimal_digits: "set (decimal n) \<subseteq> set ''0123456789''"
proof (induction n rule: decimal.induct)
  case (1 n)
  show ?case
  proof (cases "n < 10")
    case True
    then have "decimal n = [digit_char n]" by (rule decimal_digit)
    with digit_char_cases(2) [OF True] show ?thesis by simp
  next
    case False
    then have d: "decimal n = decimal (n div 10) @ [digit_char (n mod 10)]"
      by (subst decimal.simps) simp
    have "digit_char (n mod 10) \<in> set ''0123456789''"
      by (rule digit_char_cases(2)) simp
    with 1 False show ?thesis
      unfolding d by simp
  qed
qed

lemma decimal_no_leading_zero: "n \<noteq> 0 \<Longrightarrow> hd (decimal n) \<noteq> CHR ''0''"
proof (induction n rule: decimal.induct)
  case (1 n)
  show ?case
  proof (cases "n < 10")
    case True
    then have "decimal n = [digit_char n]" by (rule decimal_digit)
    with digit_char_cases(3) [OF True "1.prems"] show ?thesis by simp
  next
    case False
    then have d: "decimal n = decimal (n div 10) @ [digit_char (n mod 10)]"
      by (subst decimal.simps) simp
    from False have "n div 10 \<noteq> 0" by simp
    with 1 False have "hd (decimal (n div 10)) \<noteq> CHR ''0''" by simp
    then show ?thesis
      unfolding d using decimal_nonempty [of "n div 10"] by simp
  qed
qed

lemma decimal_two_digits:
  "10 \<le> n \<Longrightarrow> n < 100 \<Longrightarrow> decimal n = [digit_char (n div 10), digit_char (n mod 10)]"
  by (subst decimal.simps) (simp add: decimal_digit)

lemma fmt_d_nat: "fmt_d (int n) = decimal n"
  by (simp add: fmt_d_def)

subsection \<open>The selected printer, and which runs end\<close>

lemma selected_printer_first_valid:
  assumes "filepath_Glob env ''/dev/usb/lp*'' = Inr matches"
    and "filter (is_char_device env) matches = printers"
    and "printers \<noteq> []"
    and "\<forall>j<k. \<not> valid_choice (length printers) (fmt_Scanln env j)"
    and "fmt_Scanln env k = Scanned choice" and "1 \<le> choice" and "choice \<le> int (length printers)"
  shows "selected_printer env = Some (printers ! nat (choice - 1))"
proof -
  have fp: "findPrinters env [] = ([] @ CallGlob ''/dev/usb/lp*'' # map CallStat matches, Inr printers)"
    using assms(1,2) by (simp add: findPrinters_eq)
  have sp: "selectPrinter env printers [] =
     Some ([] @ Stdout ''\<newline>Se encontraron las siguientes impresoras USB:\<newline>'' #
               selectPrinter_list 0 printers @ concat (replicate k selectPrinter_retry) @
               [Stdout selectPrinter_prompt, CallScanln],
           Inr (printers ! nat (choice - 1)))"
    using assms(3-7) by (rule selectPrinter_first_valid)
  show ?thesis
    by (simp add: selected_printer_def fp sp)
qed

lemma selected_printer_Some:
  assumes "selected_printer env = Some sel"
  shows "\<exists>matches k choice.
           filepath_Glob env ''/dev/usb/lp*'' = Inr matches \<and>
           filter (is_char_device env) matches \<noteq> [] \<and>
           (\<forall>j<k. \<not> valid_choice (length (filter (is_char_device env) matches)) (fmt_Scanln env j)) \<and>
           fmt_Scanln env k = Scanned choice \<and> 1 \<le> choice \<and>
           choice \<le> int (length (filter (is_char_device env) matches)) \<and>
           sel = filter (is_char_device env) matches ! nat (choice - 1)"
proof (cases "filepath_Glob env ''/dev/usb/lp*''")
  case (Inl err)
  with assms show ?thesis
    by (simp add: selected_printer_def findPrinters_eq)
next
  case (Inr matches)
  let ?ps = "filter (is_char_device env) matches"
  from assms Inr obtain t' where sp: "selectPrinter env ?ps [] = Some (t', Inr sel)"
    by (auto simp: selected_printer_def findPrinters_eq split: option.splits sum.splits)
  have ne: "?ps \<noteq> []"
  proof
    assume "?ps = []"
    with sp show False by (simp add: selectPrinter_def)
  qed
  from selectPrinter_Some [OF sp ne] Inr ne show ?thesis
    by blast
qed

lemma selected_printer_iff:
  "(selected_printer env = Some sel) =
     (\<exists>matches j k.
        filepath_Glob env ''/dev/usb/lp*'' = Inr matches \<and>
        (\<forall>i<j. \<not> valid_choice (length (filter (is_char_device env) matches)) (fmt_Scanln env i)) \<and>
        fmt_Scanln env j = Scanned k \<and> 1 \<le> k \<and>
        k \<le> int (length (filter (is_char_device env) matches)) \<and>
        sel = filter (is_char_device env) matches ! nat (k - 1))"
proof
  assume "selected_printer env = Some sel"
  from selected_printer_Some [OF this] show
    "\<exists>matches j k.
        filepath_Glob env ''/dev/usb/lp*'' = Inr matches \<and>
        (\<forall>i<j. \<not> valid_choice (length (filter (is_char_device env) matches)) (fmt_Scanln env i)) \<and>
        fmt_Scanln env j = Scanned k \<and> 1 \<le> k \<and>
        k \<le> int (length (filter (is_char_device env) matches)) \<and>
        sel = filter (is_char_device env) matches ! nat (k - 1)"
    by blast
next
  assume "\<exists>matches j k.
        filepath_Glob env ''/dev/usb/lp*'' = Inr matches \<and>
        (\<forall>i<j. \<not> valid_choice (length (filter (is_char_device env) matches)) (fmt_Scanln env i)) \<and>
        fmt_Scanln env j = Scanned k \<and> 1 \<le> k \<and>
        k \<le> int (length (filter (is_char_device env) matches)) \<and>
        sel = filter (is_char_device env) matches ! nat (k - 1)"
  then obtain matches j k where
    g: "filepath_Glob env ''/dev/usb/lp*'' = Inr matches" and
    inv: "\<forall>i<j. \<not> valid_choice (length (filter (is_char_device env) matches)) (fmt_Scanln env i)" and
    c: "fmt_Scanln env j = Scanned k" "1 \<le> k" "k \<le> int (length (filter (is_char_device env) matches))" and
    sel: "sel = filter (is_char_device env) matches ! nat (k - 1)"
    by blast
  from c(2,3) have ne: "filter (is_char_device env) matches \<noteq> []"
    by auto
  from selected_printer_first_valid [OF g refl ne inv c] show "selected_printer env = Some sel"
    unfolding sel .
qed

lemma main_selected:
  assumes "os_Geteuid env = 0" and "selected_printer env = Some sel"
  shows "\<exists>u. main env = Some (main_install env sel u) \<and> written u = [] \<and> executed u = []"
proof -
  from selected_printer_Some [OF assms(2)] obtain matches k choice where
    g: "filepath_Glob env ''/dev/usb/lp*'' = Inr matches" and
    ne: "filter (is_char_device env) matches \<noteq> []" and
    inv: "\<forall>j<k. \<not> valid_choice (length (filter (is_char_device env) matches)) (fmt_Scanln env j)" and
    c: "fmt_Scanln env k = Scanned choice" "1 \<le> choice"
       "choice \<le> int (length (filter (is_char_device env) matches))" and
    sel: "sel = filter (is_char_device env) matches ! nat (choice - 1)"
    by blast
  from main_install_run [OF assms(1) g refl ne inv c] show ?thesis
    unfolding sel by blast
qed

lemma main_unselected:
  assumes "main env = Some (t, code)" and "os_Geteuid env \<noteq> 0 \<or> selected_printer env = None"
  shows "written t = [] \<and> executed t = [] \<and> code = 1 \<and> (\<exists>msg. last t = LogFatal msg)"
proof -
  from main_Some [OF assms(1)] obtain s t0 where
    w0: "written (Stdout s # CallGeteuid # t0) = []" and
    e0: "executed (Stdout s # CallGeteuid # t0) = []" and
    alt: "(\<exists>msg. t = Stdout s # CallGeteuid # t0 @ [LogFatal msg] \<and> code = 1) \<or>
          (os_Geteuid env = 0 \<and> (\<exists>sel. selected_printer env = Some sel \<and>
                 (t, code) = main_install env sel (Stdout s # CallGeteuid # t0)))"
    by blast
  from alt assms(2) obtain msg where t: "t = (Stdout s # CallGeteuid # t0) @ [LogFatal msg]" and c: "code = 1"
    by auto
  have "written t = []" "executed t = []"
    using w0 e0 unfolding t written_append executed_append by simp_all
  moreover have "last t = LogFatal msg"
    unfolding t by simp
  ultimately show ?thesis using c by blast
qed

lemma main_None_iff:
  "(main env = None) =
     (os_Geteuid env = 0 \<and>
      (\<exists>matches. filepath_Glob env ''/dev/usb/lp*'' = Inr matches \<and>
         filter (is_char_device env) matches \<noteq> [] \<and>
         (\<forall>k. \<not> valid_choice (length (filter (is_char_device env) matches)) (fmt_Scanln env k))))"
proof
  assume n: "main env = None"
  have root: "os_Geteuid env = 0"
  proof (rule ccontr)
    assume "os_Geteuid env \<noteq> 0"
    from main_denied [OF this] n show False by simp
  qed
  show "os_Geteuid env = 0 \<and>
      (\<exists>matches. filepath_Glob env ''/dev/usb/lp*'' = Inr matches \<and>
         filter (is_char_device env) matches \<noteq> [] \<and>
         (\<forall>k. \<not> valid_choice (length (filter (is_char_device env) matches)) (fmt_Scanln env k)))"
  proof (cases "filepath_Glob env ''/dev/usb/lp*''")
    case (Inl err)
    with n root show ?thesis
      by (simp add: main_def findPrinters_eq)
  next
    case (Inr matches)
    let ?ps = "filter (is_char_device env) matches"
    have ne: "?ps \<noteq> []"
    proof
      assume "?ps = []"
      from main_no_printer [OF root Inr this] n show False by simp
    qed
    have never: "\<forall>k. \<not> valid_choice (length ?ps) (fmt_Scanln env k)"
    proof (rule ccontr)
      assume "\<not> (\<forall>k. \<not> valid_choice (length ?ps) (fmt_Scanln env k))"
      then have ex: "\<exists>k. valid_choice (length ?ps) (fmt_Scanln env k)" by simp
      define k where "k = (LEAST k. valid_choice (length ?ps) (fmt_Scanln env k))"
      have ok: "valid_choice (length ?ps) (fmt_Scanln env k)"
        unfolding k_def using ex by (rule LeastI_ex)
      have least: "\<forall>j<k. \<not> valid_choice (length ?ps) (fmt_Scanln env j)"
        unfolding k_def using not_less_Least by blast
      from ok obtain c where c: "fmt_Scanln env k = Scanned c" "1 \<le> c" "c \<le> int (length ?ps)"
        by (cases "fmt_Scanln env k") auto
      from main_install_run [OF root Inr refl ne least c] n show False
        by auto
    qed
    from root Inr ne never show ?thesis by blast
  qed
next
  assume "os_Geteuid env = 0 \<and>
      (\<exists>matches. filepath_Glob env ''/dev/usb/lp*'' = Inr matches \<and>
         filter (is_char_device env) matches \<noteq> [] \<and>
         (\<forall>k. \<not> valid_choice (length (filter (is_char_device env) matches)) (fmt_Scanln env k)))"
  then show "main env = None"
    using main_hangs by blast
qed

lemma main_install_socket_fails:
  assumes "(t, code) = main_install env sel u"
    and "os_WriteFile env socketFilePath socketFileContent 420 = Some err"
  shows "last t = LogFatal (''Error al escribir el archivo de socket: '' @ err)"
  using assms by (simp add: main_install_def)

lemma main_install_service_fails:
  assumes "(t, code) = main_install env sel u"
    and "os_WriteFile env socketFilePath socketFileContent 420 = None"
    and "os_WriteFile env serviceFilePath (serviceFileContent sel) 420 = Some err"
  shows "last t = LogFatal (''Error al escribir el archivo de servicio: '' @ err)"
  using assms by (simp add: main_install_def)

subsection \<open>Runs with a selected printer\<close>

lemma main_selected_writes:
  assumes "os_Geteuid env = 0" and "selected_printer env = Some sel"
  shows "\<exists>t code. main env = Some (t, code) \<and>
       written t =
         (case os_WriteFile env socketFilePath socketFileContent 420 of
            Some err \<Rightarrow> [(socketFilePath, socketFileContent, 420)]
          | None \<Rightarrow> [(socketFilePath, socketFileContent, 420),
                     (serviceFilePath, serviceFileContent sel, 420)]) \<and>
       (\<exists>t1 t2. t = t1 @ t2 \<and> executed t1 = [] \<and> written t2 = []) \<and>
       (\<forall>err. os_WriteFile env socketFilePath socketFileContent 420 = Some err \<longrightarrow>
          code = 1 \<and> executed t = [] \<and>
          last t = LogFatal (''Error al escribir el archivo de socket: '' @ err)) \<and>
       (\<forall>err. os_WriteFile env socketFilePath socketFileContent 420 = None \<longrightarrow>
          os_WriteFile env serviceFilePath (serviceFileContent sel) 420 = Some err \<longrightarrow>
          code = 1 \<and> executed t = [] \<and>
          last t = LogFatal (''Error al escribir el archivo de servicio: '' @ err)) \<and>
       (os_WriteFile env socketFilePath socketFileContent 420 = None \<longrightarrow>
        os_WriteFile env serviceFilePath (serviceFileContent sel) 420 = None \<longrightarrow>
          executed t \<noteq> [] \<and> hd (executed t) = [''systemctl'', ''daemon-reload''])"
proof -
  from main_selected [OF assms] obtain u where
    m: "main env = Some (main_install env sel u)" and u: "written u = []" "executed u = []"
    by blast
  obtain t code where tc: "(t, code) = main_install env sel u"
    by (metis surj_pair)
  note f = main_install_facts [OF tc u]
  have m': "main env = Some (t, code)"
    using m tc by simp
  have a: "\<forall>err. os_WriteFile env socketFilePath socketFileContent 420 = Some err \<longrightarrow>
          code = 1 \<and> executed t = [] \<and>
          last t = LogFatal (''Error al escribir el archivo de socket: '' @ err)"
  proof (intro allI impI)
    fix err assume e: "os_WriteFile env socketFilePath socketFileContent 420 = Some err"
    then have "\<not> writes_ok env sel" by (simp add: writes_ok_def)
    with f(2,3) main_install_socket_fails [OF tc e]
    show "code = 1 \<and> executed t = [] \<and>
          last t = LogFatal (''Error al escribir el archivo de socket: '' @ err)"
      by simp
  qed
  have b: "\<forall>err. os_WriteFile env socketFilePath socketFileContent 420 = None \<longrightarrow>
          os_WriteFile env serviceFilePath (serviceFileContent sel) 420 = Some err \<longrightarrow>
          code = 1 \<and> executed t = [] \<and>
          last t = LogFatal (''Error al escribir el archivo de servicio: '' @ err)"
  proof (intro allI impI)
    fix err assume e1: "os_WriteFile env socketFilePath socketFileContent 420 = None"
      and e2: "os_WriteFile env serviceFilePath (serviceFileContent sel) 420 = Some err"
    then have "\<not> writes_ok env sel" by (simp add: writes_ok_def)
    with f(2,3) main_install_service_fails [OF tc e1 e2]
    show "code = 1 \<and> executed t = [] \<and>
          last t = LogFatal (''Error al escribir el archivo de servicio: '' @ err)"
      by simp
  qed
  have c: "os_WriteFile env socketFilePath socketFileContent 420 = None \<longrightarrow>
        os_WriteFile env serviceFilePath (serviceFileContent sel) 420 = None \<longrightarrow>
          executed t \<noteq> [] \<and> hd (executed t) = [''systemctl'', ''daemon-reload'']"
  proof (intro impI)
    assume "os_WriteFile env socketFilePath socketFileContent 420 = None"
      and "os_WriteFile env serviceFilePath (serviceFileContent sel) 420 = None"
    then have w: "writes_ok env sel" by (simp add: writes_ok_def)
    then have "executed t =
        takeWhile (succeeds env) commands @ take 1 (dropWhile (succeeds env) commands)"
      using f(2) by simp
    then show "executed t \<noteq> [] \<and> hd (executed t) = [''systemctl'', ''daemon-reload'']"
      by (simp add: commands_def)
  qed
  show ?thesis
    by (rule exI [of _ t], rule exI [of _ code]) (intro conjI m' f(1) f(4) a b c)
qed

lemma main_selected_commands:
  assumes "os_Geteuid env = 0" and "selected_printer env = Some sel"
    and "os_WriteFile env socketFilePath socketFileContent 420 = None"
    and "os_WriteFile env serviceFilePath (serviceFileContent sel) 420 = None"
  shows "\<exists>t code. main env = Some (t, code) \<and>
       written t = [(socketFilePath, socketFileContent, 420),
                    (serviceFilePath, serviceFileContent sel, 420)] \<and>
       (list_all (succeeds env) commands \<longrightarrow> executed t = commands \<and> code = 0) \<and>
       (\<forall>pre c post out err.
          commands = pre @ c # post \<longrightarrow> list_all (succeeds env) pre \<longrightarrow>
          exec_CombinedOutput env c = (out, Some err) \<longrightarrow>
            executed t = pre @ [c] \<and> code = 1 \<and>
            last t = LogFatal (''Error al ejecutar el comando '' @ [CHR 0x27] @ Join c '' '' @
                               [CHR 0x27] @ '': '' @ err @ ''\<newline>Salida: '' @ out))"
proof -
  from main_selected [OF assms(1,2)] obtain u where
    m: "main env = Some (main_install env sel u)" and u: "written u = []" "executed u = []"
    by blast
  obtain t code where tc: "(t, code) = main_install env sel u"
    by (metis surj_pair)
  note f = main_install_facts [OF tc u]
  have m': "main env = Some (t, code)"
    using m tc by simp
  have w: "written t = [(socketFilePath, socketFileContent, 420),
                        (serviceFilePath, serviceFileContent sel, 420)]"
    using f(1) assms(3) by simp
  have l: "length (written t) = 2"
    and n: "\<forall>(path, content, perm) \<in> set (written t). os_WriteFile env path content perm = None"
    unfolding w using assms(3,4) by simp_all
  note r = main_commands_fail_fast [OF m' l n]
  show ?thesis
    by (rule exI [of _ t], rule exI [of _ code])
       (intro conjI m' w r [THEN conjunct1] r [THEN conjunct2])
qed

subsection \<open>The numbers of the list\<close>

lemma fmt_d_index:
  "decimal_value (fmt_d (int i + 1)) = i + 1"
  "set (fmt_d (int i + 1)) \<subseteq> set ''0123456789''"
  "fmt_d (int i + 1) \<noteq> []"
  "hd (fmt_d (int i + 1)) \<noteq> CHR ''0''"
proof -
  have e: "fmt_d (int i + 1) = decimal (Suc i)"
    by (simp add: fmt_d_def nat_add_distrib)
  show "decimal_value (fmt_d (int i + 1)) = i + 1"
    unfolding e by (simp add: decimal_value_decimal)
  show "set (fmt_d (int i + 1)) \<subseteq> set ''0123456789''"
    unfolding e by (rule decimal_digits)
  show "fmt_d (int i + 1) \<noteq> []"
    unfolding e by (rule decimal_nonempty)
  show "hd (fmt_d (int i + 1)) \<noteq> CHR ''0''"
    unfolding e by (rule decimal_no_leading_zero) simp
qed

lemma main_selected_service:
  assumes "os_Geteuid env = 0" and "selected_printer env = Some sel"
    and "os_WriteFile env socketFilePath socketFileContent 420 = None"
  shows "\<exists>t code. main env = Some (t, code) \<and>
           written t = [(socketFilePath, socketFileContent, 420),
                        (serviceFilePath, serviceFileContent sel, 420)]"
proof -
  from main_selected [OF assms(1,2)] obtain u where
    m: "main env = Some (main_install env sel u)" and u: "written u = []" "executed u = []"
    by blast
  obtain t code where tc: "(t, code) = main_install env sel u"
    by (metis surj_pair)
  note f = main_install_facts [OF tc u]
  have "main env = Some (t, code)"
    using m tc by simp
  moreover have "written t = [(socketFilePath, socketFileContent, 420),
                        (serviceFilePath, serviceFileContent sel, 420)]"
    using f(1) assms(3) by simp
  ultimately show ?thesis by blast
qed

subsection \<open>More about the concrete systems\<close>

lemma env_ok_selected: "selected_printer env_ok = Some ''/dev/usb/lp1''"
proof -
  have "selected_printer env_ok = Some ([''/dev/usb/lp0'', ''/dev/usb/lp1''] ! nat (2 - 1))"
    by (rule selected_printer_first_valid [OF _ env_ok_matches, of 0]) (simp_all add: env_ok_def)
  then show ?thesis by simp
qed

lemma env_readonly_selected: "selected_printer env_readonly = Some ''/dev/usb/lp1''"
proof -
  have m: "filter (is_char_device env_readonly)
             [''/dev/usb/lp0'', ''/dev/usb/lp1'', ''/dev/usb/lpdir'', ''/dev/usb/lpgone'']
           = [''/dev/usb/lp0'', ''/dev/usb/lp1'']"
    by (simp add: is_char_device_def env_readonly_def env_ok_def)
  have "selected_printer env_readonly = Some ([''/dev/usb/lp0'', ''/dev/usb/lp1''] ! nat (2 - 1))"
    by (rule selected_printer_first_valid [OF _ m, of 0]) (simp_all add: env_readonly_def env_ok_def)
  then show ?thesis by simp
qed

lemma env_noreload_selected: "selected_printer env_noreload = Some ''/dev/usb/lp1''"
proof -
  have m: "filter (is_char_device env_noreload)
             [''/dev/usb/lp0'', ''/dev/usb/lp1'', ''/dev/usb/lpdir'', ''/dev/usb/lpgone'']
           = [''/dev/usb/lp0'', ''/dev/usb/lp1'']"
    by (simp add: is_char_device_def env_noreload_def env_ok_def)
  have "selected_printer env_noreload = Some ([''/dev/usb/lp0'', ''/dev/usb/lp1''] ! nat (2 - 1))"
    by (rule selected_printer_first_valid [OF _ m, of 0]) (simp_all add: env_noreload_def env_ok_def)
  then show ?thesis by simp
qed

lemma env_eof_hangs:
  "os_Geteuid env_eof = 0 \<and>
   (\<exists>matches. filepath_Glob env_eof ''/dev/usb/lp*'' = Inr matches \<and>
      filter (is_char_device env_eof) matches \<noteq> [] \<and>
      (\<forall>k. \<not> valid_choice (length (filter (is_char_device env_eof) matches)) (fmt_Scanln env_eof k)))"
proof -
  have g: "filepath_Glob env_eof ''/dev/usb/lp*'' =
      Inr [''/dev/usb/lp0'', ''/dev/usb/lp1'', ''/dev/usb/lpdir'', ''/dev/usb/lpgone'']"
    by (simp add: env_eof_def env_ok_def)
  have m: "filter (is_char_device env_eof)
             [''/dev/usb/lp0'', ''/dev/usb/lp1'', ''/dev/usb/lpdir'', ''/dev/usb/lpgone'']
           = [''/dev/usb/lp0'', ''/dev/usb/lp1'']"
    by (simp add: is_char_device_def env_eof_def env_ok_def)
  have r: "os_Geteuid env_eof = 0"
    by (simp add: env_eof_def env_ok_def)
  have n: "\<forall>k. \<not> valid_choice (length [''/dev/usb/lp0'', ''/dev/usb/lp1'']) (fmt_Scanln env_eof k)"
    by (simp add: env_eof_def env_ok_def)
  from g m n have "filepath_Glob env_eof ''/dev/usb/lp*'' =
        Inr [''/dev/usb/lp0'', ''/dev/usb/lp1'', ''/dev/usb/lpdir'', ''/dev/usb/lpgone''] \<and>
      filter (is_char_device env_eof)
        [''/dev/usb/lp0'', ''/dev/usb/lp1'', ''/dev/usb/lpdir'', ''/dev/usb/lpgone''] \<noteq> [] \<and>
      (\<forall>k. \<not> valid_choice (length (filter (is_char_device env_eof)
               [''/dev/usb/lp0'', ''/dev/usb/lp1'', ''/dev/usb/lpdir'', ''/dev/usb/lpgone'']))
             (fmt_Scanln env_eof k))"
    by simp
  then have "\<exists>matches. filepath_Glob env_eof ''/dev/usb/lp*'' = Inr matches \<and>
      filter (is_char_device env_eof) matches \<noteq> [] \<and>
      (\<forall>k. \<not> valid_choice (length (filter (is_char_device env_eof) matches)) (fmt_Scanln env_eof k))"
    by (rule exI)
  with r show ?thesis by (rule conjI)
qed

lemma twelve_lines:
  "map (\<lambda>(i, p). Stdout (fmt_d (int i + 1) @ ''. '' @ p @ ''\<newline>'')) (enumerate 0 twelve_printers) =
     [Stdout ''1. /dev/usb/lp0\<newline>'', Stdout ''2. /dev/usb/lp1\<newline>'',
      Stdout ''3. /dev/usb/lp2\<newline>'', Stdout ''4. /dev/usb/lp3\<newline>'',
      Stdout ''5. /dev/usb/lp4\<newline>'', Stdout ''6. /dev/usb/lp5\<newline>'',
      Stdout ''7. /dev/usb/lp6\<newline>'', Stdout ''8. /dev/usb/lp7\<newline>'',
      Stdout ''9. /dev/usb/lp8\<newline>'', Stdout ''10. /dev/usb/lp9\<newline>'',
      Stdout ''11. /dev/usb/lp10\<newline>'', Stdout ''12. /dev/usb/lp11\<newline>'']"
  by code_simp

section \<open>The properties\<close>

subsection \<open>C1: the unit files are written before systemctl runs\<close>

text \<open>
  Claim C1. The program writes two unit files under \<^verbatim>\<open>/etc/systemd/system\<close>, the socket
  unit first and the template service unit second, and invokes systemctl only after both
  writes have succeeded; when a write fails it ends with \<^verbatim>\<open>log.Fatalf\<close> and no command
  is executed.

  The statement says which runs end and what each of them does.
  \<^item> A run of the second version fails to end in one case only: the process is root,
    there is a printer, and no answer of the user is ever accepted.
  \<^item> When the process is root and a printer \<open>sel\<close> is selected, the run ends. It writes
    the socket unit and then, if that write succeeded, the service unit of \<open>sel\<close>. If
    the first write fails, or the second, the run ends with the fatal message of that
    write, exit code 1 and no command. If both succeed, commands are executed, the
    first being \<^verbatim>\<open>systemctl daemon-reload\<close>, and every write precedes every command.
  \<^item> A run that ends without root or without a selected printer writes nothing and
    executes nothing.
  \<^item> For every run that ends, in both versions: the files written are an initial part
    of the list (socket unit, service unit); the events split into a part without
    commands followed by a part without writes; a command is executed only in a run
    with two writes that both succeeded; a failed write makes the run end fatally, with
    exit code 1 and no command; and a run with exit code 0 has written both files. The
    first version always ends.
  \<^item> A printer \<open>sel\<close> is selected exactly when the glob succeeds and, after \<open>j\<close> answers
    that are refused, the user gives a number \<open>k\<close> between 1 and the number of printers,
    \<open>sel\<close> being the printer at index \<open>k - 1\<close>.
\<close>

theorem unit_files_before_systemctl:
  "socketFilePath = ''/etc/systemd/system/escpos-printer.socket'' \<and>
   serviceFilePath = ''/etc/systemd/system/escpos-printer@.service'' \<and>
   epson_socketFilePath = ''/etc/systemd/system/epson-printer.socket'' \<and>
   epson_serviceFilePath = ''/etc/systemd/system/epson-printer@.service'' \<and>
   (main env = None) =
     (os_Geteuid env = 0 \<and>
      (\<exists>matches. filepath_Glob env ''/dev/usb/lp*'' = Inr matches \<and>
         filter (is_char_device env) matches \<noteq> [] \<and>
         (\<forall>k. \<not> valid_choice (length (filter (is_char_device env) matches)) (fmt_Scanln env k)))) \<and>
   (os_Geteuid env = 0 \<longrightarrow> selected_printer env = Some sel \<longrightarrow>
      (\<exists>t code. main env = Some (t, code) \<and>
         written t =
           (case os_WriteFile env socketFilePath socketFileContent 420 of
              Some err \<Rightarrow> [(socketFilePath, socketFileContent, 420)]
            | None \<Rightarrow> [(socketFilePath, socketFileContent, 420),
                       (serviceFilePath, serviceFileContent sel, 420)]) \<and>
         (\<exists>t1 t2. t = t1 @ t2 \<and> executed t1 = [] \<and> written t2 = []) \<and>
         (\<forall>err. os_WriteFile env socketFilePath socketFileContent 420 = Some err \<longrightarrow>
            code = 1 \<and> executed t = [] \<and>
            last t = LogFatal (''Error al escribir el archivo de socket: '' @ err)) \<and>
         (\<forall>err. os_WriteFile env socketFilePath socketFileContent 420 = None \<longrightarrow>
            os_WriteFile env serviceFilePath (serviceFileContent sel) 420 = Some err \<longrightarrow>
            code = 1 \<and> executed t = [] \<and>
            last t = LogFatal (''Error al escribir el archivo de servicio: '' @ err)) \<and>
         (os_WriteFile env socketFilePath socketFileContent 420 = None \<longrightarrow>
          os_WriteFile env serviceFilePath (serviceFileContent sel) 420 = None \<longrightarrow>
            executed t \<noteq> [] \<and> hd (executed t) = [''systemctl'', ''daemon-reload'']))) \<and>
   (os_Geteuid env \<noteq> 0 \<or> selected_printer env = None \<longrightarrow> main env = Some (t, code) \<longrightarrow>
      written t = [] \<and> executed t = [] \<and> code = 1 \<and> (\<exists>msg. last t = LogFatal msg)) \<and>
   (main env = Some (t, code) \<longrightarrow>
      (\<exists>sel. written t = take (length (written t))
              [(socketFilePath, socketFileContent, 420),
               (serviceFilePath, serviceFileContent sel, 420)]) \<and>
      (\<exists>t1 t2. t = t1 @ t2 \<and> executed t1 = [] \<and> written t2 = []) \<and>
      (executed t \<noteq> [] \<longrightarrow>
         length (written t) = 2 \<and>
         (\<forall>(path, content, perm) \<in> set (written t). os_WriteFile env path content perm = None)) \<and>
      ((\<exists>(path, content, perm) \<in> set (written t). os_WriteFile env path content perm \<noteq> None) \<longrightarrow>
         code = 1 \<and> executed t = [] \<and> (\<exists>msg. last t = LogFatal msg)) \<and>
      (code = 0 \<longrightarrow> length (written t) = 2)) \<and>
   (epson_main env = (t', code') \<longrightarrow>
      written t' = take (length (written t'))
              [(epson_socketFilePath, epson_socketFileContent, 420),
               (epson_serviceFilePath, epson_serviceFileContent, 420)] \<and>
      (\<exists>t1 t2. t' = t1 @ t2 \<and> executed t1 = [] \<and> written t2 = []) \<and>
      (executed t' \<noteq> [] \<longrightarrow>
         length (written t') = 2 \<and>
         (\<forall>(path, content, perm) \<in> set (written t'). os_WriteFile env path content perm = None)) \<and>
      ((\<exists>(path, content, perm) \<in> set (written t'). os_WriteFile env path content perm \<noteq> None) \<longrightarrow>
         code' = 1 \<and> executed t' = [] \<and> (\<exists>msg. last t' = LogFatal msg)) \<and>
      (code' = 0 \<longrightarrow> length (written t') = 2)) \<and>
   (selected_printer env = Some sel) =
     (\<exists>matches j k.
        filepath_Glob env ''/dev/usb/lp*'' = Inr matches \<and>
        (\<forall>i<j. \<not> valid_choice (length (filter (is_char_device env) matches)) (fmt_Scanln env i)) \<and>
        fmt_Scanln env j = Scanned k \<and> 1 \<le> k \<and>
        k \<le> int (length (filter (is_char_device env) matches)) \<and>
        sel = filter (is_char_device env) matches ! nat (k - 1))"
proof -
  have p: "socketFilePath = ''/etc/systemd/system/escpos-printer.socket''"
    "serviceFilePath = ''/etc/systemd/system/escpos-printer@.service''"
    "epson_socketFilePath = ''/etc/systemd/system/epson-printer.socket''"
    "epson_serviceFilePath = ''/etc/systemd/system/epson-printer@.service''"
    by (simp_all add: socketFilePath_def serviceFilePath_def epson_socketFilePath_def
          epson_serviceFilePath_def)
  note n = main_None_iff [of env]
  have s: "os_Geteuid env = 0 \<longrightarrow> selected_printer env = Some sel \<longrightarrow>
      (\<exists>t code. main env = Some (t, code) \<and>
         written t =
           (case os_WriteFile env socketFilePath socketFileContent 420 of
              Some err \<Rightarrow> [(socketFilePath, socketFileContent, 420)]
            | None \<Rightarrow> [(socketFilePath, socketFileContent, 420),
                       (serviceFilePath, serviceFileContent sel, 420)]) \<and>
         (\<exists>t1 t2. t = t1 @ t2 \<and> executed t1 = [] \<and> written t2 = []) \<and>
         (\<forall>err. os_WriteFile env socketFilePath socketFileContent 420 = Some err \<longrightarrow>
            code = 1 \<and> executed t = [] \<and>
            last t = LogFatal (''Error al escribir el archivo de socket: '' @ err)) \<and>
         (\<forall>err. os_WriteFile env socketFilePath socketFileContent 420 = None \<longrightarrow>
            os_WriteFile env serviceFilePath (serviceFileContent sel) 420 = Some err \<longrightarrow>
            code = 1 \<and> executed t = [] \<and>
            last t = LogFatal (''Error al escribir el archivo de servicio: '' @ err)) \<and>
         (os_WriteFile env socketFilePath socketFileContent 420 = None \<longrightarrow>
          os_WriteFile env serviceFilePath (serviceFileContent sel) 420 = None \<longrightarrow>
            executed t \<noteq> [] \<and> hd (executed t) = [''systemctl'', ''daemon-reload'']))"
    by (intro impI) (rule main_selected_writes)
  have u: "os_Geteuid env \<noteq> 0 \<or> selected_printer env = None \<longrightarrow> main env = Some (t, code) \<longrightarrow>
      written t = [] \<and> executed t = [] \<and> code = 1 \<and> (\<exists>msg. last t = LogFatal msg)"
    by (intro impI) (rule main_unselected)
  have m: "main env = Some (t, code) \<longrightarrow>
      (\<exists>sel. written t = take (length (written t))
              [(socketFilePath, socketFileContent, 420),
               (serviceFilePath, serviceFileContent sel, 420)]) \<and>
      (\<exists>t1 t2. t = t1 @ t2 \<and> executed t1 = [] \<and> written t2 = []) \<and>
      (executed t \<noteq> [] \<longrightarrow>
         length (written t) = 2 \<and>
         (\<forall>(path, content, perm) \<in> set (written t). os_WriteFile env path content perm = None)) \<and>
      ((\<exists>(path, content, perm) \<in> set (written t). os_WriteFile env path content perm \<noteq> None) \<longrightarrow>
         code = 1 \<and> executed t = [] \<and> (\<exists>msg. last t = LogFatal msg)) \<and>
      (code = 0 \<longrightarrow> length (written t) = 2)"
    by (intro impI) (rule main_writes_then_commands)
  have e: "epson_main env = (t', code') \<longrightarrow>
      written t' = take (length (written t'))
              [(epson_socketFilePath, epson_socketFileContent, 420),
               (epson_serviceFilePath, epson_serviceFileContent, 420)] \<and>
      (\<exists>t1 t2. t' = t1 @ t2 \<and> executed t1 = [] \<and> written t2 = []) \<and>
      (executed t' \<noteq> [] \<longrightarrow>
         length (written t') = 2 \<and>
         (\<forall>(path, content, perm) \<in> set (written t'). os_WriteFile env path content perm = None)) \<and>
      ((\<exists>(path, content, perm) \<in> set (written t'). os_WriteFile env path content perm \<noteq> None) \<longrightarrow>
         code' = 1 \<and> executed t' = [] \<and> (\<exists>msg. last t' = LogFatal msg)) \<and>
      (code' = 0 \<longrightarrow> length (written t') = 2)"
    by (intro impI) (rule epson_main_writes_then_commands)
  show ?thesis
    by (intro conjI p n s u m e selected_printer_iff)
qed

text \<open>
  C1 on concrete runs. On \<open>env_ok\<close> both files are written and the commands follow. On
  \<open>env_readonly\<close> the second write fails and the run ends with the fatal message of the
  service file, without a command. On \<open>env_eof\<close> the run does not end. On \<open>env_user\<close>
  nothing is written.
\<close>

theorem unit_files_before_systemctl_witness:
  "(\<exists>t t1 t2. main env_ok = Some (t, 0) \<and> executed t = commands \<and>
       written t = [(socketFilePath, socketFileContent, 420),
                    (serviceFilePath, serviceFileContent ''/dev/usb/lp1'', 420)] \<and>
       t = t1 @ t2 \<and> executed t1 = [] \<and> written t2 = []) \<and>
   (\<exists>t msg. main env_readonly = Some (t, 1) \<and>
       written t = [(socketFilePath, socketFileContent, 420),
                    (serviceFilePath, serviceFileContent ''/dev/usb/lp1'', 420)] \<and>
       os_WriteFile env_readonly serviceFilePath (serviceFileContent ''/dev/usb/lp1'') 420 \<noteq> None \<and>
       executed t = [] \<and> last t = LogFatal msg) \<and>
   (\<exists>t t1 t2. epson_main env_ok = (t, 0) \<and> executed t = epson_commands \<and>
       written t = [(epson_socketFilePath, epson_socketFileContent, 420),
                    (epson_serviceFilePath, epson_serviceFileContent, 420)] \<and>
       t = t1 @ t2 \<and> executed t1 = [] \<and> written t2 = []) \<and>
   (\<exists>t msg. epson_main env_readonly = (t, 1) \<and>
       written t = [(epson_socketFilePath, epson_socketFileContent, 420),
                    (epson_serviceFilePath, epson_serviceFileContent, 420)] \<and>
       os_WriteFile env_readonly epson_serviceFilePath epson_serviceFileContent 420 \<noteq> None \<and>
       executed t = [] \<and> last t = LogFatal msg) \<and>
   (\<exists>t code. main env_ok = Some (t, code) \<and>
       written t = [(socketFilePath, socketFileContent, 420),
                    (serviceFilePath, serviceFileContent ''/dev/usb/lp1'', 420)] \<and>
       executed t \<noteq> [] \<and> hd (executed t) = [''systemctl'', ''daemon-reload'']) \<and>
   (\<exists>t. main env_readonly = Some (t, 1) \<and> executed t = [] \<and>
       last t = LogFatal ''Error al escribir el archivo de servicio: read-only file system'') \<and>
   main env_eof = None \<and>
   (\<exists>t. main env_user = Some (t, 1) \<and> written t = [] \<and> executed t = [])"
proof (intro conjI)
  obtain t where t: "main env_ok = Some (t, 0)" "executed t = commands"
    "written t = [(socketFilePath, socketFileContent, 420),
                  (serviceFilePath, serviceFileContent ''/dev/usb/lp1'', 420)]"
    using env_ok_main by blast
  note m = unit_files_before_systemctl [where env = env_ok and t = t and code = 0,
      THEN conjunct2, THEN conjunct2, THEN conjunct2, THEN conjunct2, THEN conjunct2,
      THEN conjunct2, THEN conjunct2, THEN conjunct1,
      THEN mp, OF t(1)]
  from m [THEN conjunct2, THEN conjunct1]
  obtain t1 t2 where "t = t1 @ t2" "executed t1 = []" "written t2 = []"
    by blast
  with t show "\<exists>t t1 t2. main env_ok = Some (t, 0) \<and> executed t = commands \<and>
       written t = [(socketFilePath, socketFileContent, 420),
                    (serviceFilePath, serviceFileContent ''/dev/usb/lp1'', 420)] \<and>
       t = t1 @ t2 \<and> executed t1 = [] \<and> written t2 = []"
    by blast
next
  obtain t where t: "main env_readonly = Some (t, 1)"
    "written t = [(socketFilePath, socketFileContent, 420),
                  (serviceFilePath, serviceFileContent ''/dev/usb/lp1'', 420)]"
    "os_WriteFile env_readonly serviceFilePath (serviceFileContent ''/dev/usb/lp1'') 420 \<noteq> None"
    "executed t = []"
    using env_readonly_main by blast
  have "\<exists>(path, content, perm) \<in> set (written t). os_WriteFile env_readonly path content perm \<noteq> None"
    unfolding t(2) using t(3) by simp
  with unit_files_before_systemctl [where env = env_readonly and t = t and code = 1,
      THEN conjunct2, THEN conjunct2, THEN conjunct2, THEN conjunct2, THEN conjunct2,
      THEN conjunct2, THEN conjunct2, THEN conjunct1,
      THEN mp, OF t(1), THEN conjunct2, THEN conjunct2, THEN conjunct2, THEN conjunct1]
  obtain msg where "last t = LogFatal msg"
    by blast
  with t show "\<exists>t msg. main env_readonly = Some (t, 1) \<and>
       written t = [(socketFilePath, socketFileContent, 420),
                    (serviceFilePath, serviceFileContent ''/dev/usb/lp1'', 420)] \<and>
       os_WriteFile env_readonly serviceFilePath (serviceFileContent ''/dev/usb/lp1'') 420 \<noteq> None \<and>
       executed t = [] \<and> last t = LogFatal msg"
    by blast
next
  obtain t where t: "epson_main env_ok = (t, 0)" "executed t = epson_commands"
    "written t = [(epson_socketFilePath, epson_socketFileContent, 420),
                  (epson_serviceFilePath, epson_serviceFileContent, 420)]"
    using env_ok_epson_main by blast
  note m = unit_files_before_systemctl [where env = env_ok and t' = t and code' = 0,
      THEN conjunct2, THEN conjunct2, THEN conjunct2, THEN conjunct2, THEN conjunct2,
      THEN conjunct2, THEN conjunct2, THEN conjunct2, THEN conjunct1,
      THEN mp, OF t(1)]
  from m [THEN conjunct2, THEN conjunct1]
  obtain t1 t2 where "t = t1 @ t2" "executed t1 = []" "written t2 = []"
    by blast
  with t show "\<exists>t t1 t2. epson_main env_ok = (t, 0) \<and> executed t = epson_commands \<and>
       written t = [(epson_socketFilePath, epson_socketFileContent, 420),
                    (epson_serviceFilePath, epson_serviceFileContent, 420)] \<and>
       t = t1 @ t2 \<and> executed t1 = [] \<and> written t2 = []"
    by blast
next
  obtain t where t: "epson_main env_readonly = (t, 1)"
    "written t = [(epson_socketFilePath, epson_socketFileContent, 420),
                  (epson_serviceFilePath, epson_serviceFileContent, 420)]"
    "os_WriteFile env_readonly epson_serviceFilePath epson_serviceFileContent 420 =
       Some ''read-only file system''"
    "executed t = []"
    using env_readonly_epson_main by blast
  have "\<exists>(path, content, perm) \<in> set (written t). os_WriteFile env_readonly path content perm \<noteq> None"
    unfolding t(2) using t(3) by simp
  with unit_files_before_systemctl [where env = env_readonly and t' = t and code' = 1,
      THEN conjunct2, THEN conjunct2, THEN conjunct2, THEN conjunct2, THEN conjunct2,
      THEN conjunct2, THEN conjunct2, THEN conjunct2, THEN conjunct1,
      THEN mp, OF t(1), THEN conjunct2, THEN conjunct2, THEN conjunct2, THEN conjunct1]
  obtain msg where "last t = LogFatal msg"
    by blast
  with t show "\<exists>t msg. epson_main env_readonly = (t, 1) \<and>
       written t = [(epson_socketFilePath, epson_socketFileContent, 420),
                    (epson_serviceFilePath, epson_serviceFileContent, 420)] \<and>
       os_WriteFile env_readonly epson_serviceFilePath epson_serviceFileContent 420 \<noteq> None \<and>
       executed t = [] \<and> last t = LogFatal msg"
    by auto
next
  have root: "os_Geteuid env_ok = 0" by (simp add: env_ok_def)
  have w: "os_WriteFile env_ok socketFilePath socketFileContent 420 = None"
    "os_WriteFile env_ok serviceFilePath (serviceFileContent ''/dev/usb/lp1'') 420 = None"
    by (simp_all add: env_ok_def)
  from unit_files_before_systemctl [where env = env_ok and sel = "''/dev/usb/lp1''",
      THEN conjunct2, THEN conjunct2, THEN conjunct2, THEN conjunct2, THEN conjunct2,
      THEN conjunct1, THEN mp, OF root, THEN mp, OF env_ok_selected]
  obtain t code where a: "main env_ok = Some (t, code)"
    and b: "written t =
           (case os_WriteFile env_ok socketFilePath socketFileContent 420 of
              Some err \<Rightarrow> [(socketFilePath, socketFileContent, 420)]
            | None \<Rightarrow> [(socketFilePath, socketFileContent, 420),
                       (serviceFilePath, serviceFileContent ''/dev/usb/lp1'', 420)])"
    and c: "os_WriteFile env_ok socketFilePath socketFileContent 420 = None \<longrightarrow>
          os_WriteFile env_ok serviceFilePath (serviceFileContent ''/dev/usb/lp1'') 420 = None \<longrightarrow>
            executed t \<noteq> [] \<and> hd (executed t) = [''systemctl'', ''daemon-reload'']"
    by (elim exE conjE) (rule that, assumption+)
  have "written t = [(socketFilePath, socketFileContent, 420),
                     (serviceFilePath, serviceFileContent ''/dev/usb/lp1'', 420)]"
    using b w(1) by simp
  moreover have "executed t \<noteq> [] \<and> hd (executed t) = [''systemctl'', ''daemon-reload'']"
    using c [THEN mp, OF w(1), THEN mp, OF w(2)] .
  ultimately show "\<exists>t code. main env_ok = Some (t, code) \<and>
       written t = [(socketFilePath, socketFileContent, 420),
                    (serviceFilePath, serviceFileContent ''/dev/usb/lp1'', 420)] \<and>
       executed t \<noteq> [] \<and> hd (executed t) = [''systemctl'', ''daemon-reload'']"
    using a by blast
next
  have root: "os_Geteuid env_readonly = 0" by (simp add: env_readonly_def env_ok_def)
  have w: "os_WriteFile env_readonly socketFilePath socketFileContent 420 = None"
    "os_WriteFile env_readonly serviceFilePath (serviceFileContent ''/dev/usb/lp1'') 420 =
       Some ''read-only file system''"
    by (simp_all add: env_readonly_def env_ok_def serviceFilePath_def socketFilePath_def
          epson_socketFilePath_def)
  from unit_files_before_systemctl [where env = env_readonly and sel = "''/dev/usb/lp1''",
      THEN conjunct2, THEN conjunct2, THEN conjunct2, THEN conjunct2, THEN conjunct2,
      THEN conjunct1, THEN mp, OF root, THEN mp, OF env_readonly_selected]
  obtain t code where a: "main env_readonly = Some (t, code)"
    and d: "\<forall>err. os_WriteFile env_readonly socketFilePath socketFileContent 420 = None \<longrightarrow>
            os_WriteFile env_readonly serviceFilePath (serviceFileContent ''/dev/usb/lp1'') 420 = Some err \<longrightarrow>
            code = 1 \<and> executed t = [] \<and>
            last t = LogFatal (''Error al escribir el archivo de servicio: '' @ err)"
    by (elim exE conjE) (rule that, assumption+)
  from d [THEN spec, THEN mp, OF w(1), THEN mp, OF w(2)]
  have "code = 1" "executed t = []"
    "last t = LogFatal ''Error al escribir el archivo de servicio: read-only file system''"
    by simp_all
  with a show "\<exists>t. main env_readonly = Some (t, 1) \<and> executed t = [] \<and>
       last t = LogFatal ''Error al escribir el archivo de servicio: read-only file system''"
    by blast
next
  from unit_files_before_systemctl [where env = env_eof,
      THEN conjunct2, THEN conjunct2, THEN conjunct2, THEN conjunct2, THEN conjunct1]
    env_eof_hangs
  show "main env_eof = None"
    by (rule iffD2)
next
  have u: "os_Geteuid env_user \<noteq> 0 \<or> selected_printer env_user = None"
    by (simp add: env_user_def env_ok_def)
  have nr: "os_Geteuid env_user \<noteq> 0"
    by (simp add: env_user_def env_ok_def)
  note m = main_denied [OF nr]
  from unit_files_before_systemctl [where env = env_user and code = 1,
      THEN conjunct2, THEN conjunct2, THEN conjunct2, THEN conjunct2, THEN conjunct2,
      THEN conjunct2, THEN conjunct1, THEN mp, OF u, THEN mp, OF m]
  have "written [Stdout (''Iniciando la configuraci'' @ [CHR 0xC3, CHR 0xB3] @
                         ''n del servicio de impresora ESC/POS...\<newline>''),
                 CallGeteuid,
                 LogFatal ''Este programa debe ejecutarse como root o con sudo.''] = [] \<and>
        executed [Stdout (''Iniciando la configuraci'' @ [CHR 0xC3, CHR 0xB3] @
                         ''n del servicio de impresora ESC/POS...\<newline>''),
                 CallGeteuid,
                 LogFatal ''Este programa debe ejecutarse como root o con sudo.''] = []"
    by blast
  with m show "\<exists>t. main env_user = Some (t, 1) \<and> written t = [] \<and> executed t = []"
    by blast
qed

subsection \<open>C2: three commands, stopping at the first failure\<close>

text \<open>
  Claim C2. Once both unit files are written, the program executes the three commands
  \<^verbatim>\<open>systemctl daemon-reload\<close>, \<^verbatim>\<open>systemctl enable --now <name>.socket\<close> and
  \<^verbatim>\<open>systemctl restart <name>.socket\<close> in this order; at the first command that returns an
  error it ends with \<^verbatim>\<open>log.Fatalf\<close>, whose message holds the error and the combined
  output, and executes no later command.

  When the process is root, a printer is selected and both writes succeed, the run of
  the second version ends, and: when all three commands succeed they are exactly the
  commands executed and the exit code is 0; when \<open>c\<close> is the first command that fails,
  after the commands \<open>pre\<close>, the commands executed are \<open>pre\<close> and \<open>c\<close>, the exit code is
  1, and the last event is the fatal message with the command line, the error and the
  output. The same holds of every run that has written both files with success, in both
  versions; the first version always ends, and writes both files when the process is
  root and the writes succeed. The last part says when a printer is selected, in terms
  of the responses of the system.
\<close>

theorem systemctl_commands_fail_fast:
  "commands =
     [[''systemctl'', ''daemon-reload''],
      [''systemctl'', ''enable'', ''--now'', ''escpos-printer.socket''],
      [''systemctl'', ''restart'', ''escpos-printer.socket'']] \<and>
   epson_commands =
     [[''systemctl'', ''daemon-reload''],
      [''systemctl'', ''enable'', ''--now'', ''epson-printer.socket''],
      [''systemctl'', ''restart'', ''epson-printer.socket'']] \<and>
   (os_Geteuid env = 0 \<longrightarrow> selected_printer env = Some sel \<longrightarrow>
    os_WriteFile env socketFilePath socketFileContent 420 = None \<longrightarrow>
    os_WriteFile env serviceFilePath (serviceFileContent sel) 420 = None \<longrightarrow>
      (\<exists>t code. main env = Some (t, code) \<and>
         written t = [(socketFilePath, socketFileContent, 420),
                      (serviceFilePath, serviceFileContent sel, 420)] \<and>
         (list_all (succeeds env) commands \<longrightarrow> executed t = commands \<and> code = 0) \<and>
         (\<forall>pre c post out err.
            commands = pre @ c # post \<longrightarrow> list_all (succeeds env) pre \<longrightarrow>
            exec_CombinedOutput env c = (out, Some err) \<longrightarrow>
              executed t = pre @ [c] \<and> code = 1 \<and>
              last t = LogFatal (''Error al ejecutar el comando '' @ [CHR 0x27] @ Join c '' '' @
                                 [CHR 0x27] @ '': '' @ err @ ''\<newline>Salida: '' @ out)))) \<and>
   (main env = Some (t, code) \<longrightarrow> length (written t) = 2 \<longrightarrow>
    (\<forall>(path, content, perm) \<in> set (written t). os_WriteFile env path content perm = None) \<longrightarrow>
      (list_all (succeeds env) commands \<longrightarrow> executed t = commands \<and> code = 0) \<and>
      (\<forall>pre c post out err.
         commands = pre @ c # post \<longrightarrow> list_all (succeeds env) pre \<longrightarrow>
         exec_CombinedOutput env c = (out, Some err) \<longrightarrow>
           executed t = pre @ [c] \<and> code = 1 \<and>
           last t = LogFatal (''Error al ejecutar el comando '' @ [CHR 0x27] @ Join c '' '' @
                              [CHR 0x27] @ '': '' @ err @ ''\<newline>Salida: '' @ out))) \<and>
   (epson_main env = (t', code') \<longrightarrow> length (written t') = 2 \<longrightarrow>
    (\<forall>(path, content, perm) \<in> set (written t'). os_WriteFile env path content perm = None) \<longrightarrow>
      (list_all (succeeds env) epson_commands \<longrightarrow> executed t' = epson_commands \<and> code' = 0) \<and>
      (\<forall>pre c post out err.
         epson_commands = pre @ c # post \<longrightarrow> list_all (succeeds env) pre \<longrightarrow>
         exec_CombinedOutput env c = (out, Some err) \<longrightarrow>
           executed t' = pre @ [c] \<and> code' = 1 \<and>
           last t' = LogFatal (''Failed to execute command '' @ [CHR 0x27] @ Join c '' '' @
                               [CHR 0x27] @ '': '' @ err @ ''\<newline>Output: '' @ out))) \<and>
   (os_Geteuid env = 0 \<longrightarrow>
    os_WriteFile env epson_socketFilePath epson_socketFileContent 420 = None \<longrightarrow>
    os_WriteFile env epson_serviceFilePath epson_serviceFileContent 420 = None \<longrightarrow>
      written (fst (epson_main env)) =
        [(epson_socketFilePath, epson_socketFileContent, 420),
         (epson_serviceFilePath, epson_serviceFileContent, 420)]) \<and>
   (selected_printer env = Some sel) =
     (\<exists>matches j k.
        filepath_Glob env ''/dev/usb/lp*'' = Inr matches \<and>
        (\<forall>i<j. \<not> valid_choice (length (filter (is_char_device env) matches)) (fmt_Scanln env i)) \<and>
        fmt_Scanln env j = Scanned k \<and> 1 \<le> k \<and>
        k \<le> int (length (filter (is_char_device env) matches)) \<and>
        sel = filter (is_char_device env) matches ! nat (k - 1))"
proof -
  have c1: "commands =
     [[''systemctl'', ''daemon-reload''],
      [''systemctl'', ''enable'', ''--now'', ''escpos-printer.socket''],
      [''systemctl'', ''restart'', ''escpos-printer.socket'']]"
    by (simp add: commands_def)
  have c2: "epson_commands =
     [[''systemctl'', ''daemon-reload''],
      [''systemctl'', ''enable'', ''--now'', ''epson-printer.socket''],
      [''systemctl'', ''restart'', ''epson-printer.socket'']]"
    by (simp add: epson_commands_def)
  have s: "os_Geteuid env = 0 \<longrightarrow> selected_printer env = Some sel \<longrightarrow>
    os_WriteFile env socketFilePath socketFileContent 420 = None \<longrightarrow>
    os_WriteFile env serviceFilePath (serviceFileContent sel) 420 = None \<longrightarrow>
      (\<exists>t code. main env = Some (t, code) \<and>
         written t = [(socketFilePath, socketFileContent, 420),
                      (serviceFilePath, serviceFileContent sel, 420)] \<and>
         (list_all (succeeds env) commands \<longrightarrow> executed t = commands \<and> code = 0) \<and>
         (\<forall>pre c post out err.
            commands = pre @ c # post \<longrightarrow> list_all (succeeds env) pre \<longrightarrow>
            exec_CombinedOutput env c = (out, Some err) \<longrightarrow>
              executed t = pre @ [c] \<and> code = 1 \<and>
              last t = LogFatal (''Error al ejecutar el comando '' @ [CHR 0x27] @ Join c '' '' @
                                 [CHR 0x27] @ '': '' @ err @ ''\<newline>Salida: '' @ out)))"
    by (intro impI) (rule main_selected_commands)
  have m: "main env = Some (t, code) \<longrightarrow> length (written t) = 2 \<longrightarrow>
    (\<forall>(path, content, perm) \<in> set (written t). os_WriteFile env path content perm = None) \<longrightarrow>
      (list_all (succeeds env) commands \<longrightarrow> executed t = commands \<and> code = 0) \<and>
      (\<forall>pre c post out err.
         commands = pre @ c # post \<longrightarrow> list_all (succeeds env) pre \<longrightarrow>
         exec_CombinedOutput env c = (out, Some err) \<longrightarrow>
           executed t = pre @ [c] \<and> code = 1 \<and>
           last t = LogFatal (''Error al ejecutar el comando '' @ [CHR 0x27] @ Join c '' '' @
                              [CHR 0x27] @ '': '' @ err @ ''\<newline>Salida: '' @ out))"
    by (intro impI) (rule main_commands_fail_fast)
  have e: "epson_main env = (t', code') \<longrightarrow> length (written t') = 2 \<longrightarrow>
    (\<forall>(path, content, perm) \<in> set (written t'). os_WriteFile env path content perm = None) \<longrightarrow>
      (list_all (succeeds env) epson_commands \<longrightarrow> executed t' = epson_commands \<and> code' = 0) \<and>
      (\<forall>pre c post out err.
         epson_commands = pre @ c # post \<longrightarrow> list_all (succeeds env) pre \<longrightarrow>
         exec_CombinedOutput env c = (out, Some err) \<longrightarrow>
           executed t' = pre @ [c] \<and> code' = 1 \<and>
           last t' = LogFatal (''Failed to execute command '' @ [CHR 0x27] @ Join c '' '' @
                               [CHR 0x27] @ '': '' @ err @ ''\<newline>Output: '' @ out))"
    by (intro impI) (rule epson_main_commands_fail_fast)
  have w: "os_Geteuid env = 0 \<longrightarrow>
    os_WriteFile env epson_socketFilePath epson_socketFileContent 420 = None \<longrightarrow>
    os_WriteFile env epson_serviceFilePath epson_serviceFileContent 420 = None \<longrightarrow>
      written (fst (epson_main env)) =
        [(epson_socketFilePath, epson_socketFileContent, 420),
         (epson_serviceFilePath, epson_serviceFileContent, 420)]"
    unfolding epson_main_written by simp
  show ?thesis
    by (intro conjI c1 c2 s m e w selected_printer_iff)
qed

text \<open>
  C2 on concrete runs: on \<open>env_ok\<close> the three commands run; on \<open>env_failing\<close> the run
  stops at \<^verbatim>\<open>systemctl enable\<close>, and \<^verbatim>\<open>systemctl restart\<close> is not executed; on
  \<open>env_noreload\<close> it stops at the first command.
\<close>

theorem systemctl_commands_fail_fast_witness:
  "(\<exists>t. main env_ok = Some (t, 0) \<and> executed t = commands) \<and>
   (\<exists>t. main env_failing = Some (t, 1) \<and>
        executed t = [[''systemctl'', ''daemon-reload''],
                      [''systemctl'', ''enable'', ''--now'', ''escpos-printer.socket'']] \<and>
        last t = LogFatal (''Error al ejecutar el comando '' @ [CHR 0x27] @
                           ''systemctl enable --now escpos-printer.socket'' @ [CHR 0x27] @
                           '': exit status 1\<newline>Salida: Failed to enable unit.\<newline>'')) \<and>
   (\<exists>t. epson_main env_ok = (t, 0) \<and> executed t = epson_commands) \<and>
   (\<exists>t. epson_main env_failing = (t, 1) \<and>
        executed t = [[''systemctl'', ''daemon-reload''],
                      [''systemctl'', ''enable'', ''--now'', ''epson-printer.socket'']] \<and>
        last t = LogFatal (''Failed to execute command '' @ [CHR 0x27] @
                           ''systemctl enable --now epson-printer.socket'' @ [CHR 0x27] @
                           '': exit status 1\<newline>Output: Failed to enable unit.\<newline>'')) \<and>
   (\<exists>t. main env_noreload = Some (t, 1) \<and>
        executed t = [[''systemctl'', ''daemon-reload'']] \<and>
        last t = LogFatal (''Error al ejecutar el comando '' @ [CHR 0x27] @
                           ''systemctl daemon-reload'' @ [CHR 0x27] @
                           '': exit status 1\<newline>Salida: Failed to connect to bus\<newline>'')) \<and>
   written (fst (epson_main env_ok)) =
     [(epson_socketFilePath, epson_socketFileContent, 420),
      (epson_serviceFilePath, epson_serviceFileContent, 420)]"
proof (intro conjI)
  obtain t where t: "main env_ok = Some (t, 0)"
    "written t = [(socketFilePath, socketFileContent, 420),
                  (serviceFilePath, serviceFileContent ''/dev/usb/lp1'', 420)]"
    using env_ok_main by blast
  have w: "length (written t) = 2"
    "\<forall>(path, content, perm) \<in> set (written t). os_WriteFile env_ok path content perm = None"
    unfolding t(2) by (simp_all add: env_ok_def)
  have s: "list_all (succeeds env_ok) commands"
    by (simp add: succeeds_def env_ok_def list_all_iff)
  from systemctl_commands_fail_fast [where env = env_ok and t = t and code = 0,
      THEN conjunct2, THEN conjunct2, THEN conjunct2, THEN conjunct1, THEN mp, OF t(1), THEN mp, OF w(1), THEN mp, OF w(2),
      THEN conjunct1, THEN mp, OF s]
  have "executed t = commands" by (rule conjunct1)
  with t(1) show "\<exists>t. main env_ok = Some (t, 0) \<and> executed t = commands" by blast
next
  obtain t where t: "main env_failing = Some (t, 1)" "length (written t) = 2"
    "\<forall>(path, content, perm) \<in> set (written t). os_WriteFile env_failing path content perm = None"
    using env_failing_main by blast
  have c: "commands = [[''systemctl'', ''daemon-reload'']] @
             [''systemctl'', ''enable'', ''--now'', ''escpos-printer.socket''] #
             [[''systemctl'', ''restart'', ''escpos-printer.socket'']]"
    by (simp add: commands_def)
  have p: "list_all (succeeds env_failing) [[''systemctl'', ''daemon-reload'']]"
    by (simp add: env_failing_commands)
  from systemctl_commands_fail_fast [where env = env_failing and t = t and code = 1,
      THEN conjunct2, THEN conjunct2, THEN conjunct2, THEN conjunct1, THEN mp, OF t(1), THEN mp, OF t(2), THEN mp, OF t(3),
      THEN conjunct2, THEN spec, THEN spec, THEN spec, THEN spec, THEN spec,
      THEN mp, OF c, THEN mp, OF p, THEN mp, OF env_failing_commands(4)] t(1)
  show "\<exists>t. main env_failing = Some (t, 1) \<and>
        executed t = [[''systemctl'', ''daemon-reload''],
                      [''systemctl'', ''enable'', ''--now'', ''escpos-printer.socket'']] \<and>
        last t = LogFatal (''Error al ejecutar el comando '' @ [CHR 0x27] @
                           ''systemctl enable --now escpos-printer.socket'' @ [CHR 0x27] @
                           '': exit status 1\<newline>Salida: Failed to enable unit.\<newline>'')"
    by simp
next
  obtain t where t: "epson_main env_ok = (t, 0)"
    "written t = [(epson_socketFilePath, epson_socketFileContent, 420),
                  (epson_serviceFilePath, epson_serviceFileContent, 420)]"
    using env_ok_epson_main by blast
  have w: "length (written t) = 2"
    "\<forall>(path, content, perm) \<in> set (written t). os_WriteFile env_ok path content perm = None"
    unfolding t(2) by (simp_all add: env_ok_def)
  from systemctl_commands_fail_fast [where env = env_ok and t' = t and code' = 0,
      THEN conjunct2, THEN conjunct2, THEN conjunct2, THEN conjunct2, THEN conjunct1, THEN mp, OF t(1), THEN mp, OF w(1), THEN mp, OF w(2),
      THEN conjunct1, THEN mp, OF env_ok_epson(3)]
  have "executed t = epson_commands" by (rule conjunct1)
  with t(1) show "\<exists>t. epson_main env_ok = (t, 0) \<and> executed t = epson_commands" by blast
next
  obtain t where t: "epson_main env_failing = (t, 1)" "length (written t) = 2"
    "\<forall>(path, content, perm) \<in> set (written t). os_WriteFile env_failing path content perm = None"
    using env_failing_epson_main by blast
  have c: "epson_commands = [[''systemctl'', ''daemon-reload'']] @
             [''systemctl'', ''enable'', ''--now'', ''epson-printer.socket''] #
             [[''systemctl'', ''restart'', ''epson-printer.socket'']]"
    by (simp add: epson_commands_def)
  have p: "list_all (succeeds env_failing) [[''systemctl'', ''daemon-reload'']]"
    by (simp add: env_failing_commands)
  from systemctl_commands_fail_fast [where env = env_failing and t' = t and code' = 1,
      THEN conjunct2, THEN conjunct2, THEN conjunct2, THEN conjunct2, THEN conjunct1, THEN mp, OF t(1), THEN mp, OF t(2), THEN mp, OF t(3),
      THEN conjunct2, THEN spec, THEN spec, THEN spec, THEN spec, THEN spec,
      THEN mp, OF c, THEN mp, OF p, THEN mp, OF env_failing_commands(5)] t(1)
  show "\<exists>t. epson_main env_failing = (t, 1) \<and>
        executed t = [[''systemctl'', ''daemon-reload''],
                      [''systemctl'', ''enable'', ''--now'', ''epson-printer.socket'']] \<and>
        last t = LogFatal (''Failed to execute command '' @ [CHR 0x27] @
                           ''systemctl enable --now epson-printer.socket'' @ [CHR 0x27] @
                           '': exit status 1\<newline>Output: Failed to enable unit.\<newline>'')"
    by simp
next
  have root: "os_Geteuid env_noreload = 0" by (simp add: env_noreload_def env_ok_def)
  have w: "os_WriteFile env_noreload socketFilePath socketFileContent 420 = None"
    "os_WriteFile env_noreload serviceFilePath (serviceFileContent ''/dev/usb/lp1'') 420 = None"
    by (simp_all add: env_noreload_def env_ok_def)
  have c: "commands = [] @ [''systemctl'', ''daemon-reload''] #
             [[''systemctl'', ''enable'', ''--now'', ''escpos-printer.socket''],
              [''systemctl'', ''restart'', ''escpos-printer.socket'']]"
    by (simp add: commands_def)
  have p: "list_all (succeeds env_noreload) []" by simp
  have x: "exec_CombinedOutput env_noreload [''systemctl'', ''daemon-reload''] =
             (''Failed to connect to bus\<newline>'', Some ''exit status 1'')"
    by (simp add: env_noreload_def env_ok_def)
  from systemctl_commands_fail_fast [where env = env_noreload and sel = "''/dev/usb/lp1''",
      THEN conjunct2, THEN conjunct2, THEN conjunct1, THEN mp, OF root,
      THEN mp, OF env_noreload_selected, THEN mp, OF w(1), THEN mp, OF w(2)]
  obtain t code where a: "main env_noreload = Some (t, code)"
    and f: "\<forall>pre c post out err.
            commands = pre @ c # post \<longrightarrow> list_all (succeeds env_noreload) pre \<longrightarrow>
            exec_CombinedOutput env_noreload c = (out, Some err) \<longrightarrow>
              executed t = pre @ [c] \<and> code = 1 \<and>
              last t = LogFatal (''Error al ejecutar el comando '' @ [CHR 0x27] @ Join c '' '' @
                                 [CHR 0x27] @ '': '' @ err @ ''\<newline>Salida: '' @ out)"
    by (elim exE conjE) (rule that, assumption+)
  from f [THEN spec, THEN spec, THEN spec, THEN spec, THEN spec,
      THEN mp, OF c, THEN mp, OF p, THEN mp, OF x]
  have "executed t = [[''systemctl'', ''daemon-reload'']]" "code = 1"
    "last t = LogFatal (''Error al ejecutar el comando '' @ [CHR 0x27] @
                           ''systemctl daemon-reload'' @ [CHR 0x27] @
                           '': exit status 1\<newline>Salida: Failed to connect to bus\<newline>'')"
    by simp_all
  with a show "\<exists>t. main env_noreload = Some (t, 1) \<and>
        executed t = [[''systemctl'', ''daemon-reload'']] \<and>
        last t = LogFatal (''Error al ejecutar el comando '' @ [CHR 0x27] @
                           ''systemctl daemon-reload'' @ [CHR 0x27] @
                           '': exit status 1\<newline>Salida: Failed to connect to bus\<newline>'')"
    by blast
next
  have root: "os_Geteuid env_ok = 0" by (simp add: env_ok_def)
  have w: "os_WriteFile env_ok epson_socketFilePath epson_socketFileContent 420 = None"
    "os_WriteFile env_ok epson_serviceFilePath epson_serviceFileContent 420 = None"
    by (simp_all add: env_ok_def)
  from systemctl_commands_fail_fast [where env = env_ok,
      THEN conjunct2, THEN conjunct2, THEN conjunct2, THEN conjunct2, THEN conjunct2,
      THEN conjunct1, THEN mp, OF root, THEN mp, OF w(1), THEN mp, OF w(2)]
  show "written (fst (epson_main env_ok)) =
     [(epson_socketFilePath, epson_socketFileContent, 420),
      (epson_serviceFilePath, epson_serviceFileContent, 420)]" .
qed

subsection \<open>C3: the privilege check\<close>

text \<open>
  Claim C3. When the effective user id is not 0 the program ends with \<^verbatim>\<open>log.Fatal\<close> at
  the privilege check, before any device discovery, file write or command; the
  privilege check is the first step.

  In both versions a run of a process that is not root consists of the banner, the
  call of \<^verbatim>\<open>os.Geteuid\<close> and the fatal message, with exit code 1. And every run starts
  with the banner followed by the call of \<^verbatim>\<open>os.Geteuid\<close>: one line of output is all
  that precedes the check.
\<close>

theorem privilege_check_first:
  "(os_Geteuid env \<noteq> 0 \<longrightarrow>
      main env =
        Some ([Stdout (''Iniciando la configuraci'' @ [CHR 0xC3, CHR 0xB3] @
                       ''n del servicio de impresora ESC/POS...\<newline>''),
               CallGeteuid,
               LogFatal ''Este programa debe ejecutarse como root o con sudo.''], 1) \<and>
      epson_main env =
        ([Stdout ''Starting Epson Printer Service Setup...\<newline>'',
          CallGeteuid,
          LogFatal ''This program must be run as root or with sudo.''], 1)) \<and>
   (\<forall>t code. main env = Some (t, code) \<longrightarrow> (\<exists>s rest. t = Stdout s # CallGeteuid # rest)) \<and>
   (\<exists>s rest. fst (epson_main env) = Stdout s # CallGeteuid # rest)"
proof (intro conjI impI allI)
  assume "os_Geteuid env \<noteq> 0"
  then show "main env =
        Some ([Stdout (''Iniciando la configuraci'' @ [CHR 0xC3, CHR 0xB3] @
                       ''n del servicio de impresora ESC/POS...\<newline>''),
               CallGeteuid,
               LogFatal ''Este programa debe ejecutarse como root o con sudo.''], 1)"
    by (rule main_denied)
next
  assume "os_Geteuid env \<noteq> 0"
  then show "epson_main env =
        ([Stdout ''Starting Epson Printer Service Setup...\<newline>'',
          CallGeteuid,
          LogFatal ''This program must be run as root or with sudo.''], 1)"
    by (simp add: epson_main_def)
next
  fix t code
  assume "main env = Some (t, code)"
  then show "\<exists>s rest. t = Stdout s # CallGeteuid # rest"
    by (rule main_starts)
next
  show "\<exists>s rest. fst (epson_main env) = Stdout s # CallGeteuid # rest"
    using epson_main_starts by blast
qed

text \<open>
  C3 on concrete runs: \<open>env_user\<close> is not root and is refused; the run on \<open>env_ok\<close> ends
  and starts with the banner and the check.
\<close>

theorem privilege_check_first_witness:
  "os_Geteuid env_user \<noteq> 0 \<and>
   main env_user =
     Some ([Stdout (''Iniciando la configuraci'' @ [CHR 0xC3, CHR 0xB3] @
                    ''n del servicio de impresora ESC/POS...\<newline>''),
            CallGeteuid,
            LogFatal ''Este programa debe ejecutarse como root o con sudo.''], 1) \<and>
   epson_main env_user =
     ([Stdout ''Starting Epson Printer Service Setup...\<newline>'',
       CallGeteuid,
       LogFatal ''This program must be run as root or with sudo.''], 1) \<and>
   (\<exists>s rest code. main env_ok = Some (Stdout s # CallGeteuid # rest, code))"
proof -
  have u: "os_Geteuid env_user \<noteq> 0"
    by (simp add: env_user_def env_ok_def)
  obtain t code where r: "main env_ok = Some (t, code)"
    using env_ok_run by (metis surj_pair)
  from privilege_check_first [of env_ok] r
  have "\<exists>s rest code. main env_ok = Some (Stdout s # CallGeteuid # rest, code)"
    by blast
  with u privilege_check_first [of env_user] show ?thesis
    by blast
qed

subsection \<open>C4: printer discovery\<close>

text \<open>
  Claim C4. \<^verbatim>\<open>findPrinters\<close> globs the single pattern \<^verbatim>\<open>/dev/usb/lp*\<close> and returns, in the
  order of the glob, exactly the matches that \<^verbatim>\<open>os.Stat\<close> can examine and whose mode has
  \<^verbatim>\<open>os.ModeCharDevice\<close>; the other matches are left out without a message.

  The events added are the one call of \<^verbatim>\<open>Glob\<close> and one call of \<^verbatim>\<open>Stat\<close> per match,
  nothing else; the result is the list of matches filtered by \<open>is_char_device\<close>, which
  is the test of the source.
\<close>

theorem findPrinters_char_devices:
  "findPrinters env t =
     (case filepath_Glob env ''/dev/usb/lp*'' of
        Inl err \<Rightarrow> (t @ [CallGlob ''/dev/usb/lp*''], Inl (''error al buscar impresoras: '' @ err))
      | Inr matches \<Rightarrow>
          (t @ CallGlob ''/dev/usb/lp*'' # map CallStat matches,
           Inr (filter (is_char_device env) matches))) \<and>
   is_char_device env path =
     (\<exists>mode. os_Stat env path = Inr mode \<and> mode AND ModeCharDevice \<noteq> 0)"
proof
  show "findPrinters env t =
     (case filepath_Glob env ''/dev/usb/lp*'' of
        Inl err \<Rightarrow> (t @ [CallGlob ''/dev/usb/lp*''], Inl (''error al buscar impresoras: '' @ err))
      | Inr matches \<Rightarrow>
          (t @ CallGlob ''/dev/usb/lp*'' # map CallStat matches,
           Inr (filter (is_char_device env) matches)))"
    by (rule findPrinters_eq)
next
  show "is_char_device env path =
     (\<exists>mode. os_Stat env path = Inr mode \<and> mode AND ModeCharDevice \<noteq> 0)"
    by (cases "os_Stat env path") (simp_all add: is_char_device_def char_device_bit)
qed

text \<open>
  C4 on \<open>env_ok\<close>: of the four matches, the two character devices are returned; the
  directory and the name that cannot be examined are left out.
\<close>

theorem findPrinters_char_devices_witness:
  "findPrinters env_ok [] =
     ([CallGlob ''/dev/usb/lp*'', CallStat ''/dev/usb/lp0'', CallStat ''/dev/usb/lp1'',
       CallStat ''/dev/usb/lpdir'', CallStat ''/dev/usb/lpgone''],
      Inr [''/dev/usb/lp0'', ''/dev/usb/lp1''])"
proof -
  have g: "filepath_Glob env_ok ''/dev/usb/lp*'' =
      Inr [''/dev/usb/lp0'', ''/dev/usb/lp1'', ''/dev/usb/lpdir'', ''/dev/usb/lpgone'']"
    by (simp add: env_ok_def)
  from findPrinters_char_devices [of env_ok "[]"]
  have "findPrinters env_ok [] =
     ([] @ CallGlob ''/dev/usb/lp*'' #
        map CallStat [''/dev/usb/lp0'', ''/dev/usb/lp1'', ''/dev/usb/lpdir'', ''/dev/usb/lpgone''],
      Inr (filter (is_char_device env_ok)
             [''/dev/usb/lp0'', ''/dev/usb/lp1'', ''/dev/usb/lpdir'', ''/dev/usb/lpgone'']))"
    by (simp only: g sum.case)
  then show ?thesis
    by (simp only: env_ok_matches) simp
qed

subsection \<open>C5: the numbered list and the choice\<close>

text \<open>
  Claim C5. For a non-empty list, \<^verbatim>\<open>selectPrinter\<close> prints the list with indices from 1,
  one line \<^verbatim>\<open>i. path\<close> per printer, and when the user gives a number \<open>k\<close> with
  \<open>1 \<le> k \<le> len(printers)\<close> it returns the printer at index \<open>k - 1\<close> and no error.

  The answer \<open>k\<close> may come after \<open>j\<close> answers that were refused (\<open>j = 0\<close>: at once).
  The number printed before the printer at index \<open>i\<close> is the decimal numeral of
  \<open>i + 1\<close>: a non-empty string of digits, without a leading zero, that denotes \<open>i + 1\<close>.
\<close>

theorem selectPrinter_numbered_choice:
  assumes "printers \<noteq> []"
    and "\<forall>i<j. \<not> valid_choice (length printers) (fmt_Scanln env i)"
    and "fmt_Scanln env j = Scanned k" and "1 \<le> k" and "k \<le> int (length printers)"
  shows "selectPrinter env printers t =
     Some (t @ Stdout ''\<newline>Se encontraron las siguientes impresoras USB:\<newline>'' #
               map (\<lambda>(i, p). Stdout (fmt_d (int i + 1) @ ''. '' @ p @ ''\<newline>'')) (enumerate 0 printers) @
               concat (replicate j selectPrinter_retry) @
               [Stdout selectPrinter_prompt, CallScanln],
           Inr (printers ! nat (k - 1))) \<and>
     (\<forall>i. decimal_value (fmt_d (int i + 1)) = i + 1 \<and>
          set (fmt_d (int i + 1)) \<subseteq> set ''0123456789'' \<and>
          fmt_d (int i + 1) \<noteq> [] \<and>
          hd (fmt_d (int i + 1)) \<noteq> CHR ''0'')"
proof
  show "selectPrinter env printers t =
     Some (t @ Stdout ''\<newline>Se encontraron las siguientes impresoras USB:\<newline>'' #
               map (\<lambda>(i, p). Stdout (fmt_d (int i + 1) @ ''. '' @ p @ ''\<newline>'')) (enumerate 0 printers) @
               concat (replicate j selectPrinter_retry) @
               [Stdout selectPrinter_prompt, CallScanln],
           Inr (printers ! nat (k - 1)))"
    using selectPrinter_first_valid [OF assms, of t] by (simp only: selectPrinter_list_eq)
  show "\<forall>i. decimal_value (fmt_d (int i + 1)) = i + 1 \<and>
          set (fmt_d (int i + 1)) \<subseteq> set ''0123456789'' \<and>
          fmt_d (int i + 1) \<noteq> [] \<and>
          hd (fmt_d (int i + 1)) \<noteq> CHR ''0''"
    by (intro allI conjI fmt_d_index)
qed

text \<open>
  C5 on concrete runs. With twelve printers and the answer 10, the lines are numbered
  1 to 12 and the tenth printer is returned. On \<open>env_retry\<close>, two printers are listed as
  1 and 2; the answer 7 is refused, the answer 1 returns the first printer.
\<close>

theorem selectPrinter_numbered_choice_witness:
  "selectPrinter env_ten twelve_printers [] =
     Some ([Stdout ''\<newline>Se encontraron las siguientes impresoras USB:\<newline>'',
            Stdout ''1. /dev/usb/lp0\<newline>'', Stdout ''2. /dev/usb/lp1\<newline>'',
            Stdout ''3. /dev/usb/lp2\<newline>'', Stdout ''4. /dev/usb/lp3\<newline>'',
            Stdout ''5. /dev/usb/lp4\<newline>'', Stdout ''6. /dev/usb/lp5\<newline>'',
            Stdout ''7. /dev/usb/lp6\<newline>'', Stdout ''8. /dev/usb/lp7\<newline>'',
            Stdout ''9. /dev/usb/lp8\<newline>'', Stdout ''10. /dev/usb/lp9\<newline>'',
            Stdout ''11. /dev/usb/lp10\<newline>'', Stdout ''12. /dev/usb/lp11\<newline>'',
            Stdout selectPrinter_prompt, CallScanln],
           Inr ''/dev/usb/lp9'') \<and>
   selectPrinter env_retry [''/dev/usb/lp0'', ''/dev/usb/lp1''] [] =
     Some ([Stdout ''\<newline>Se encontraron las siguientes impresoras USB:\<newline>'',
            Stdout ''1. /dev/usb/lp0\<newline>'',
            Stdout ''2. /dev/usb/lp1\<newline>'',
            Stdout selectPrinter_prompt, CallScanln, Stdout selectPrinter_invalid,
            Stdout selectPrinter_prompt, CallScanln],
           Inr ''/dev/usb/lp0'') \<and>
   decimal_value (fmt_d 12) = 12 \<and> hd (fmt_d 12) \<noteq> CHR ''0''"
proof (intro conjI)
  have ne: "twelve_printers \<noteq> []" by (simp add: twelve_printers_def)
  have pre: "\<forall>i<0. \<not> valid_choice (length twelve_printers) (fmt_Scanln env_ten i)" by simp
  have s: "fmt_Scanln env_ten 0 = Scanned 10" by (simp add: env_ten_def)
  have lo: "(1::int) \<le> 10" by simp
  have hi: "10 \<le> int (length twelve_printers)" by (simp add: twelve_printers_def)
  have sel: "twelve_printers ! nat (10 - 1) = ''/dev/usb/lp9''"
    by (simp add: twelve_printers_def)
  from selectPrinter_numbered_choice [OF ne pre s lo hi, of "[]", THEN conjunct1]
  show "selectPrinter env_ten twelve_printers [] =
     Some ([Stdout ''\<newline>Se encontraron las siguientes impresoras USB:\<newline>'',
            Stdout ''1. /dev/usb/lp0\<newline>'', Stdout ''2. /dev/usb/lp1\<newline>'',
            Stdout ''3. /dev/usb/lp2\<newline>'', Stdout ''4. /dev/usb/lp3\<newline>'',
            Stdout ''5. /dev/usb/lp4\<newline>'', Stdout ''6. /dev/usb/lp5\<newline>'',
            Stdout ''7. /dev/usb/lp6\<newline>'', Stdout ''8. /dev/usb/lp7\<newline>'',
            Stdout ''9. /dev/usb/lp8\<newline>'', Stdout ''10. /dev/usb/lp9\<newline>'',
            Stdout ''11. /dev/usb/lp10\<newline>'', Stdout ''12. /dev/usb/lp11\<newline>'',
            Stdout selectPrinter_prompt, CallScanln],
           Inr ''/dev/usb/lp9'')"
    by (simp only: twelve_lines sel) simp
next
  have "selectPrinter env_retry [''/dev/usb/lp0'', ''/dev/usb/lp1''] [] =
     Some ([] @ Stdout ''\<newline>Se encontraron las siguientes impresoras USB:\<newline>'' #
               map (\<lambda>(i, p). Stdout (fmt_d (int i + 1) @ ''. '' @ p @ ''\<newline>''))
                 (enumerate 0 [''/dev/usb/lp0'', ''/dev/usb/lp1'']) @
               concat (replicate 1 selectPrinter_retry) @
               [Stdout selectPrinter_prompt, CallScanln],
           Inr ([''/dev/usb/lp0'', ''/dev/usb/lp1''] ! nat (1 - 1)))"
    by (rule selectPrinter_numbered_choice [THEN conjunct1]) (simp_all add: env_retry_def env_ok_def)
  then show "selectPrinter env_retry [''/dev/usb/lp0'', ''/dev/usb/lp1''] [] =
     Some ([Stdout ''\<newline>Se encontraron las siguientes impresoras USB:\<newline>'',
            Stdout ''1. /dev/usb/lp0\<newline>'',
            Stdout ''2. /dev/usb/lp1\<newline>'',
            Stdout selectPrinter_prompt, CallScanln, Stdout selectPrinter_invalid,
            Stdout selectPrinter_prompt, CallScanln],
           Inr ''/dev/usb/lp0'')"
    by (simp add: selectPrinter_retry_def fmt_d_def decimal_digit digit_char_def)
next
  have ne: "twelve_printers \<noteq> []" by (simp add: twelve_printers_def)
  have pre: "\<forall>i<0. \<not> valid_choice (length twelve_printers) (fmt_Scanln env_ten i)" by simp
  have s: "fmt_Scanln env_ten 0 = Scanned 10" by (simp add: env_ten_def)
  have lo: "(1::int) \<le> 10" by simp
  have hi: "10 \<le> int (length twelve_printers)" by (simp add: twelve_printers_def)
  note n = selectPrinter_numbered_choice [OF ne pre s lo hi, of "[]", THEN conjunct2, THEN spec, of 11]
  from n [THEN conjunct1] show "decimal_value (fmt_d 12) = 12" by simp
  from n [THEN conjunct2, THEN conjunct2, THEN conjunct2] show "hd (fmt_d 12) \<noteq> CHR ''0''" by simp
qed

subsection \<open>C6: how many integers the selection reads\<close>

text \<open>
  Claim C6 says that, for every input, the selection consumes a single integer and then
  completes. On \<open>env_retry\<close> it calls \<^verbatim>\<open>Scanln\<close> twice and consumes two integers, 7 and
  1; on \<open>env_eof\<close> it never completes.
\<close>

theorem selectPrinter_single_read_counterexample:
  "selectPrinter env_retry [''/dev/usb/lp0'', ''/dev/usb/lp1''] [] =
     Some ([Stdout ''\<newline>Se encontraron las siguientes impresoras USB:\<newline>'',
            Stdout ''1. /dev/usb/lp0\<newline>'',
            Stdout ''2. /dev/usb/lp1\<newline>'',
            Stdout selectPrinter_prompt, CallScanln, Stdout selectPrinter_invalid,
            Stdout selectPrinter_prompt, CallScanln],
           Inr ''/dev/usb/lp0'') \<and>
   selectPrinter env_eof [''/dev/usb/lp0'', ''/dev/usb/lp1''] [] = None"
proof
  have "selectPrinter env_retry [''/dev/usb/lp0'', ''/dev/usb/lp1''] [] =
     Some ([] @ Stdout ''\<newline>Se encontraron las siguientes impresoras USB:\<newline>'' #
               selectPrinter_list 0 [''/dev/usb/lp0'', ''/dev/usb/lp1''] @
               concat (replicate 1 selectPrinter_retry) @
               [Stdout selectPrinter_prompt, CallScanln],
           Inr ([''/dev/usb/lp0'', ''/dev/usb/lp1''] ! nat (1 - 1)))"
    by (rule selectPrinter_first_valid) (simp_all add: env_retry_def env_ok_def)
  then show "selectPrinter env_retry [''/dev/usb/lp0'', ''/dev/usb/lp1''] [] =
     Some ([Stdout ''\<newline>Se encontraron las siguientes impresoras USB:\<newline>'',
            Stdout ''1. /dev/usb/lp0\<newline>'',
            Stdout ''2. /dev/usb/lp1\<newline>'',
            Stdout selectPrinter_prompt, CallScanln, Stdout selectPrinter_invalid,
            Stdout selectPrinter_prompt, CallScanln],
           Inr ''/dev/usb/lp0'')"
    by (simp add: selectPrinter_retry_def fmt_d_def decimal_digit digit_char_def)
next
  show "selectPrinter env_eof [''/dev/usb/lp0'', ''/dev/usb/lp1''] [] = None"
    by (rule selectPrinter_never) (simp_all add: env_eof_def env_ok_def)
qed

text \<open>
  Claim C6, amended. For a non-empty list, the selection calls \<^verbatim>\<open>Scanln\<close> once per
  prompt, again and again, until a call returns, without error, an integer between 1 and
  the number of printers. When the call number \<open>j\<close> (from 0) is the first such call,
  the selection completes right after it: its events are the header, the list, \<open>j\<close>
  rounds of prompt, call and complaint, and a last prompt and call; that is \<open>j + 1\<close>
  calls, a single read only when the first answer is accepted. When no call ever
  returns such an integer, it does not complete.
\<close>

theorem selectPrinter_reads_until_valid:
  assumes "printers \<noteq> []"
  shows "((\<forall>i<j. \<not> valid_choice (length printers) (fmt_Scanln env i)) \<and>
          valid_choice (length printers) (fmt_Scanln env j) \<longrightarrow>
            (\<exists>k. fmt_Scanln env j = Scanned k \<and> 1 \<le> k \<and> k \<le> int (length printers) \<and>
               selectPrinter env printers t =
                 Some (t @ Stdout ''\<newline>Se encontraron las siguientes impresoras USB:\<newline>'' #
                           selectPrinter_list 0 printers @
                           concat (replicate j [Stdout selectPrinter_prompt, CallScanln,
                                                Stdout selectPrinter_invalid]) @
                           [Stdout selectPrinter_prompt, CallScanln],
                       Inr (printers ! nat (k - 1)))) \<and>
            (\<exists>t' sel. selectPrinter env printers t = Some (t', Inr sel) \<and>
                       scans t' = scans t + Suc j)) \<and>
         ((\<forall>i. \<not> valid_choice (length printers) (fmt_Scanln env i)) \<longrightarrow>
            selectPrinter env printers t = None)"
proof (intro conjI impI)
  assume a: "(\<forall>i<j. \<not> valid_choice (length printers) (fmt_Scanln env i)) \<and>
             valid_choice (length printers) (fmt_Scanln env j)"
  then obtain k where k: "fmt_Scanln env j = Scanned k" "1 \<le> k" "k \<le> int (length printers)"
    by (cases "fmt_Scanln env j") auto
  from a have inv: "\<forall>i<j. \<not> valid_choice (length printers) (fmt_Scanln env i)" ..
  note r = selectPrinter_first_valid [OF assms inv k, of t]
  have r': "selectPrinter env printers t =
                 Some (t @ Stdout ''\<newline>Se encontraron las siguientes impresoras USB:\<newline>'' #
                           selectPrinter_list 0 printers @
                           concat (replicate j [Stdout selectPrinter_prompt, CallScanln,
                                                Stdout selectPrinter_invalid]) @
                           [Stdout selectPrinter_prompt, CallScanln],
                       Inr (printers ! nat (k - 1)))"
    using r by (simp only: selectPrinter_retry_def)
  with k show "\<exists>k. fmt_Scanln env j = Scanned k \<and> 1 \<le> k \<and> k \<le> int (length printers) \<and>
               selectPrinter env printers t =
                 Some (t @ Stdout ''\<newline>Se encontraron las siguientes impresoras USB:\<newline>'' #
                           selectPrinter_list 0 printers @
                           concat (replicate j [Stdout selectPrinter_prompt, CallScanln,
                                                Stdout selectPrinter_invalid]) @
                           [Stdout selectPrinter_prompt, CallScanln],
                       Inr (printers ! nat (k - 1)))"
    by (intro exI [of _ k] conjI)
  have "scans (t @ Stdout ''\<newline>Se encontraron las siguientes impresoras USB:\<newline>'' #
               selectPrinter_list 0 printers @ concat (replicate j selectPrinter_retry) @
               [Stdout selectPrinter_prompt, CallScanln]) = scans t + Suc j"
    by (simp add: scans_append)
  with r
  show "\<exists>t' sel. selectPrinter env printers t = Some (t', Inr sel) \<and> scans t' = scans t + Suc j"
    by blast
next
  assume "\<forall>i. \<not> valid_choice (length printers) (fmt_Scanln env i)"
  with assms show "selectPrinter env printers t = None"
    by (rule selectPrinter_never)
qed

text \<open>
  C6 amended, on \<open>env_retry\<close> (two prompts, two calls) and on \<open>env_eof\<close> (no end).
\<close>

theorem selectPrinter_reads_until_valid_witness:
  "[''/dev/usb/lp0'', ''/dev/usb/lp1''] \<noteq> [] \<and>
   \<not> valid_choice 2 (fmt_Scanln env_retry 0) \<and> valid_choice 2 (fmt_Scanln env_retry 1) \<and>
   selectPrinter env_retry [''/dev/usb/lp0'', ''/dev/usb/lp1''] [] =
     Some ([Stdout ''\<newline>Se encontraron las siguientes impresoras USB:\<newline>'',
            Stdout ''1. /dev/usb/lp0\<newline>'',
            Stdout ''2. /dev/usb/lp1\<newline>'',
            Stdout selectPrinter_prompt, CallScanln, Stdout selectPrinter_invalid,
            Stdout selectPrinter_prompt, CallScanln],
           Inr ''/dev/usb/lp0'') \<and>
   (\<exists>t' sel. selectPrinter env_retry [''/dev/usb/lp0'', ''/dev/usb/lp1''] [] = Some (t', Inr sel) \<and>
              scans t' = 2) \<and>
   (\<forall>i. \<not> valid_choice 2 (fmt_Scanln env_eof i)) \<and>
   selectPrinter env_eof [''/dev/usb/lp0'', ''/dev/usb/lp1''] [] = None"
proof -
  have ne: "[''/dev/usb/lp0'', ''/dev/usb/lp1''] \<noteq> []" by simp
  have r: "(\<forall>i<1. \<not> valid_choice (length [''/dev/usb/lp0'', ''/dev/usb/lp1'']) (fmt_Scanln env_retry i)) \<and>
           valid_choice (length [''/dev/usb/lp0'', ''/dev/usb/lp1'']) (fmt_Scanln env_retry 1)"
    by (simp add: env_retry_def env_ok_def)
  have e: "\<forall>i. \<not> valid_choice (length [''/dev/usb/lp0'', ''/dev/usb/lp1'']) (fmt_Scanln env_eof i)"
    by (simp add: env_eof_def env_ok_def)
  have s: "fmt_Scanln env_retry 1 = Scanned 1"
    by (simp add: env_retry_def env_ok_def)
  note th = selectPrinter_reads_until_valid [OF ne, of 1 env_retry "[]", THEN conjunct1, THEN mp, OF r]
  from th [THEN conjunct1] obtain k where k: "fmt_Scanln env_retry 1 = Scanned k"
    and x: "selectPrinter env_retry [''/dev/usb/lp0'', ''/dev/usb/lp1''] [] =
                 Some ([] @ Stdout ''\<newline>Se encontraron las siguientes impresoras USB:\<newline>'' #
                           selectPrinter_list 0 [''/dev/usb/lp0'', ''/dev/usb/lp1''] @
                           concat (replicate 1 [Stdout selectPrinter_prompt, CallScanln,
                                                Stdout selectPrinter_invalid]) @
                           [Stdout selectPrinter_prompt, CallScanln],
                       Inr ([''/dev/usb/lp0'', ''/dev/usb/lp1''] ! nat (k - 1)))"
    by (elim exE conjE) (rule that, assumption+)
  from k s have k1: "k = 1" by simp
  have a: "selectPrinter env_retry [''/dev/usb/lp0'', ''/dev/usb/lp1''] [] =
     Some ([Stdout ''\<newline>Se encontraron las siguientes impresoras USB:\<newline>'',
            Stdout ''1. /dev/usb/lp0\<newline>'',
            Stdout ''2. /dev/usb/lp1\<newline>'',
            Stdout selectPrinter_prompt, CallScanln, Stdout selectPrinter_invalid,
            Stdout selectPrinter_prompt, CallScanln],
           Inr ''/dev/usb/lp0'')"
    using x unfolding k1 by (simp add: fmt_d_def decimal_digit digit_char_def)
  from th [THEN conjunct2]
  have b: "\<exists>t' sel. selectPrinter env_retry [''/dev/usb/lp0'', ''/dev/usb/lp1''] [] = Some (t', Inr sel) \<and>
              scans t' = 2"
    by (simp add: numeral_2_eq_2)
  from selectPrinter_reads_until_valid [OF ne, of _ env_eof "[]", THEN conjunct2, THEN mp, OF e]
  have c: "selectPrinter env_eof [''/dev/usb/lp0'', ''/dev/usb/lp1''] [] = None" .
  from r have r': "\<not> valid_choice 2 (fmt_Scanln env_retry 0)" "valid_choice 2 (fmt_Scanln env_retry 1)"
    by (simp_all add: numeral_2_eq_2)
  from e have e': "\<forall>i. \<not> valid_choice 2 (fmt_Scanln env_eof i)"
    by (simp add: numeral_2_eq_2)
  show ?thesis
    by (intro conjI ne r' a b e' c)
qed

subsection \<open>C7: which unit file content is a template\<close>

text \<open>
  Claim C7 says that both unit file contents are parametrized templates instantiated at
  run time. On \<open>env_ok\<close> and \<open>env_retry\<close>, where different printers are selected, the
  second version writes two different service units but the same socket unit, the
  constant \<open>socketFileContent\<close>; the first version writes the same two constants on
  both.
\<close>

theorem both_contents_templates_counterexample:
  "map_option (written \<circ> fst) (main env_ok) =
     Some [(socketFilePath, socketFileContent, 420),
           (serviceFilePath, serviceFileContent ''/dev/usb/lp1'', 420)] \<and>
   map_option (written \<circ> fst) (main env_retry) =
     Some [(socketFilePath, socketFileContent, 420),
           (serviceFilePath, serviceFileContent ''/dev/usb/lp0'', 420)] \<and>
   written (fst (epson_main env_ok)) =
     [(epson_socketFilePath, epson_socketFileContent, 420),
      (epson_serviceFilePath, epson_serviceFileContent, 420)] \<and>
   written (fst (epson_main env_retry)) =
     [(epson_socketFilePath, epson_socketFileContent, 420),
      (epson_serviceFilePath, epson_serviceFileContent, 420)]"
proof (intro conjI)
  obtain t where "main env_ok = Some (t, 0)"
    "written t = [(socketFilePath, socketFileContent, 420),
                  (serviceFilePath, serviceFileContent ''/dev/usb/lp1'', 420)]"
    using env_ok_main by blast
  then show "map_option (written \<circ> fst) (main env_ok) =
     Some [(socketFilePath, socketFileContent, 420),
           (serviceFilePath, serviceFileContent ''/dev/usb/lp1'', 420)]"
    by simp
next
  obtain t where "main env_retry = Some (t, 0)"
    "written t = [(socketFilePath, socketFileContent, 420),
                  (serviceFilePath, serviceFileContent ''/dev/usb/lp0'', 420)]"
    using env_retry_main by blast
  then show "map_option (written \<circ> fst) (main env_retry) =
     Some [(socketFilePath, socketFileContent, 420),
           (serviceFilePath, serviceFileContent ''/dev/usb/lp0'', 420)]"
    by simp
next
  obtain t where "epson_main env_ok = (t, 0)"
    "written t = [(epson_socketFilePath, epson_socketFileContent, 420),
                  (epson_serviceFilePath, epson_serviceFileContent, 420)]"
    using env_ok_epson_main by blast
  then show "written (fst (epson_main env_ok)) =
     [(epson_socketFilePath, epson_socketFileContent, 420),
      (epson_serviceFilePath, epson_serviceFileContent, 420)]"
    by simp
next
  obtain t where "epson_main env_retry = (t, 0)"
    "written t = [(epson_socketFilePath, epson_socketFileContent, 420),
                  (epson_serviceFilePath, epson_serviceFileContent, 420)]"
    using env_retry_epson_main by blast
  then show "written (fst (epson_main env_retry)) =
     [(epson_socketFilePath, epson_socketFileContent, 420),
      (epson_serviceFilePath, epson_serviceFileContent, 420)]"
    by simp
qed

text \<open>
  Claim C7, amended. One unit file content is a template: the service unit content of
  the second version, \<open>serviceFileContent\<close>, which is formatted with the selected printer
  path as its parameter (different paths give different contents). The socket unit
  content is a constant in both versions, and so is the service unit content of the
  first version, with \<^verbatim>\<open>/dev/usb/lp0\<close> in it.

  Every service unit the second version writes is \<open>serviceFileContent\<close> of the printer
  selected in that run, and it is written whenever the process is root, a printer is
  selected and the socket unit could be written. The last part says when a printer is
  selected, in terms of the responses of the system.
\<close>

theorem only_service_content_is_formatted:
  "serviceFileContent printerPath =
     ''[Unit]\<newline>Description=ESC/POS Printer Service\<newline>\<newline>[Service]\<newline>ExecStart=-/usr/bin/tee /dev/null > '' @
     printerPath @ ''\<newline>StandardInput=socket\<newline>'' \<and>
   epson_serviceFileContent =
     ''[Unit]\<newline>Description=Epson Printer Service\<newline>\<newline>[Service]\<newline>ExecStart=-/usr/bin/tee /dev/null > /dev/usb/lp0\<newline>StandardInput=socket\<newline>'' \<and>
   (serviceFileContent p = serviceFileContent q) = (p = q) \<and>
   (main env = Some (t, code) \<longrightarrow>
      (\<forall>(path, content, perm) \<in> set (written t).
         (path = socketFilePath \<and> content = socketFileContent) \<or>
         (path = serviceFilePath \<and>
          (\<exists>sel. selected_printer env = Some sel \<and> content = serviceFileContent sel)))) \<and>
   (os_Geteuid env = 0 \<longrightarrow> selected_printer env = Some sel \<longrightarrow>
    os_WriteFile env socketFilePath socketFileContent 420 = None \<longrightarrow>
      (\<exists>t code. main env = Some (t, code) \<and>
         written t = [(socketFilePath, socketFileContent, 420),
                      (serviceFilePath, serviceFileContent sel, 420)])) \<and>
   (\<forall>(path, content, perm) \<in> set (written (fst (epson_main env))).
      (path = epson_socketFilePath \<and> content = epson_socketFileContent) \<or>
      (path = epson_serviceFilePath \<and> content = epson_serviceFileContent)) \<and>
   (os_Geteuid env = 0 \<longrightarrow>
    os_WriteFile env epson_socketFilePath epson_socketFileContent 420 = None \<longrightarrow>
      written (fst (epson_main env)) =
        [(epson_socketFilePath, epson_socketFileContent, 420),
         (epson_serviceFilePath, epson_serviceFileContent, 420)]) \<and>
   (selected_printer env = Some sel) =
     (\<exists>matches j k.
        filepath_Glob env ''/dev/usb/lp*'' = Inr matches \<and>
        (\<forall>i<j. \<not> valid_choice (length (filter (is_char_device env) matches)) (fmt_Scanln env i)) \<and>
        fmt_Scanln env j = Scanned k \<and> 1 \<le> k \<and>
        k \<le> int (length (filter (is_char_device env) matches)) \<and>
        sel = filter (is_char_device env) matches ! nat (k - 1))"
proof -
  have a: "serviceFileContent printerPath =
     ''[Unit]\<newline>Description=ESC/POS Printer Service\<newline>\<newline>[Service]\<newline>ExecStart=-/usr/bin/tee /dev/null > '' @
     printerPath @ ''\<newline>StandardInput=socket\<newline>''"
    by (simp add: serviceFileContent_def)
  have b: "epson_serviceFileContent =
     ''[Unit]\<newline>Description=Epson Printer Service\<newline>\<newline>[Service]\<newline>ExecStart=-/usr/bin/tee /dev/null > /dev/usb/lp0\<newline>StandardInput=socket\<newline>''"
    by (simp add: epson_serviceFileContent_def)
  note c = serviceFileContent_inject [of p q]
  have d: "main env = Some (t, code) \<longrightarrow>
      (\<forall>(path, content, perm) \<in> set (written t).
         (path = socketFilePath \<and> content = socketFileContent) \<or>
         (path = serviceFilePath \<and>
          (\<exists>sel. selected_printer env = Some sel \<and> content = serviceFileContent sel)))"
    by (intro impI) (rule main_written_contents)
  have e: "os_Geteuid env = 0 \<longrightarrow> selected_printer env = Some sel \<longrightarrow>
    os_WriteFile env socketFilePath socketFileContent 420 = None \<longrightarrow>
      (\<exists>t code. main env = Some (t, code) \<and>
         written t = [(socketFilePath, socketFileContent, 420),
                      (serviceFilePath, serviceFileContent sel, 420)])"
    by (intro impI) (rule main_selected_service)
  note f = epson_main_written_contents [of env]
  have g: "os_Geteuid env = 0 \<longrightarrow>
    os_WriteFile env epson_socketFilePath epson_socketFileContent 420 = None \<longrightarrow>
      written (fst (epson_main env)) =
        [(epson_socketFilePath, epson_socketFileContent, 420),
         (epson_serviceFilePath, epson_serviceFileContent, 420)]"
    unfolding epson_main_written by simp
  show ?thesis
    by (intro conjI a b c d e f g selected_printer_iff)
qed

text \<open>
  C7 amended, on \<open>env_ok\<close>: the run writes the constant socket unit and the service unit
  of the selected printer \<^verbatim>\<open>/dev/usb/lp1\<close>, which differs from that of \<^verbatim>\<open>/dev/usb/lp0\<close>;
  the first version writes its two constants.
\<close>

theorem only_service_content_is_formatted_witness:
  "(\<exists>t code. main env_ok = Some (t, code) \<and>
       written t = [(socketFilePath, socketFileContent, 420),
                    (serviceFilePath, serviceFileContent ''/dev/usb/lp1'', 420)]) \<and>
   selected_printer env_ok = Some ''/dev/usb/lp1'' \<and>
   written (fst (epson_main env_ok)) =
     [(epson_socketFilePath, epson_socketFileContent, 420),
      (epson_serviceFilePath, epson_serviceFileContent, 420)] \<and>
   serviceFileContent ''/dev/usb/lp1'' \<noteq> serviceFileContent ''/dev/usb/lp0''"
proof -
  have root: "os_Geteuid env_ok = 0" by (simp add: env_ok_def)
  have w: "os_WriteFile env_ok socketFilePath socketFileContent 420 = None"
    "os_WriteFile env_ok epson_socketFilePath epson_socketFileContent 420 = None"
    by (simp_all add: env_ok_def)
  note th = only_service_content_is_formatted [where env = env_ok and sel = "''/dev/usb/lp1''"
      and p = "''/dev/usb/lp1''" and q = "''/dev/usb/lp0''"]
  note a = th [THEN conjunct2, THEN conjunct2, THEN conjunct2, THEN conjunct2, THEN conjunct1,
      THEN mp, OF root, THEN mp, OF env_ok_selected, THEN mp, OF w(1)]
  note b = th [THEN conjunct2, THEN conjunct2, THEN conjunct2, THEN conjunct2, THEN conjunct2,
      THEN conjunct2, THEN conjunct1, THEN mp, OF root, THEN mp, OF w(2)]
  from th [THEN conjunct2, THEN conjunct2, THEN conjunct1]
  have c: "serviceFileContent ''/dev/usb/lp1'' \<noteq> serviceFileContent ''/dev/usb/lp0''"
    by simp
  show ?thesis
    by (intro conjI a env_ok_selected b c)
qed

subsection \<open>C8: the template service\<close>

text \<open>
  Claim C8. The service unit is a systemd template service: its file name has the
  template form with \<^verbatim>\<open>@\<close> (\<^verbatim>\<open>escpos-printer@.service\<close>), its content declares
  \<^verbatim>\<open>StandardInput=socket\<close>, and the socket unit it pairs with declares \<^verbatim>\<open>Accept=yes\<close>.

  The declarations are lines of the contents, for every printer path, and every file a
  run writes is the socket unit with the line \<^verbatim>\<open>Accept=yes\<close> or is the file
  \<^verbatim>\<open>escpos-printer@.service\<close> with the line \<^verbatim>\<open>StandardInput=socket\<close>. That systemd then
  starts one instance per connection is systemd's behaviour and is outside the program.
\<close>

theorem service_unit_is_template_service:
  "serviceFilePath = ''/etc/systemd/system/escpos-printer@.service'' \<and>
   CHR ''@'' \<in> set serviceFilePath \<and>
   ''StandardInput=socket'' \<in> set (text_lines (serviceFileContent printerPath)) \<and>
   ''Accept=yes'' \<in> set (text_lines socketFileContent) \<and>
   (main env = Some (t, code) \<longrightarrow>
      (\<forall>(path, content, perm) \<in> set (written t).
         if path = socketFilePath then ''Accept=yes'' \<in> set (text_lines content)
         else path = serviceFilePath \<and> ''StandardInput=socket'' \<in> set (text_lines content)))"
proof (intro conjI impI)
  show "serviceFilePath = ''/etc/systemd/system/escpos-printer@.service''"
    by (simp add: serviceFilePath_def)
  show "CHR ''@'' \<in> set serviceFilePath"
    by (simp add: serviceFilePath_def)
  show svc: "''StandardInput=socket'' \<in> set (text_lines (serviceFileContent p))" for p
    using serviceFileContent_lines [of p] by auto
  show sock: "''Accept=yes'' \<in> set (text_lines socketFileContent)"
    by (simp add: socketFileContent_lines)
  assume m: "main env = Some (t, code)"
  have ne: "serviceFilePath \<noteq> socketFilePath"
    by (simp add: serviceFilePath_def socketFilePath_def)
  from main_Some [OF m] obtain s t0 where
    w0: "written (Stdout s # CallGeteuid # t0) = []" and
    alt: "(\<exists>msg. t = Stdout s # CallGeteuid # t0 @ [LogFatal msg] \<and> code = 1) \<or>
          (\<exists>sel. (t, code) = main_install env sel (Stdout s # CallGeteuid # t0))"
    by blast
  from alt show "\<forall>(path, content, perm) \<in> set (written t).
         if path = socketFilePath then ''Accept=yes'' \<in> set (text_lines content)
         else path = serviceFilePath \<and> ''StandardInput=socket'' \<in> set (text_lines content)"
  proof
    assume "\<exists>msg. t = Stdout s # CallGeteuid # t0 @ [LogFatal msg] \<and> code = 1"
    then obtain msg where "t = (Stdout s # CallGeteuid # t0) @ [LogFatal msg]" by auto
    then have "written t = []"
      using w0 by (simp only: written_append) simp
    then show ?thesis by simp
  next
    assume "\<exists>sel. (t, code) = main_install env sel (Stdout s # CallGeteuid # t0)"
    then obtain sel where "(t, code) = main_install env sel (Stdout s # CallGeteuid # t0)" ..
    then have "t = fst (main_install env sel (Stdout s # CallGeteuid # t0))"
      by (metis fst_conv)
    then have "written t =
       (case os_WriteFile env socketFilePath socketFileContent 420 of
          Some err \<Rightarrow> [(socketFilePath, socketFileContent, 420)]
        | None \<Rightarrow> [(socketFilePath, socketFileContent, 420),
                   (serviceFilePath, serviceFileContent sel, 420)])"
      using w0 by (simp only: main_install_written) simp
    then show ?thesis
      using svc [of sel] sock ne by (auto split: option.splits)
  qed
qed

text \<open>
  C8 on \<open>env_ok\<close>: the two files written and their declarations.
\<close>

theorem service_unit_is_template_service_witness:
  "\<exists>t. main env_ok = Some (t, 0) \<and>
       written t = [(socketFilePath, socketFileContent, 420),
                    (serviceFilePath, serviceFileContent ''/dev/usb/lp1'', 420)] \<and>
       ''Accept=yes'' \<in> set (text_lines socketFileContent) \<and>
       ''StandardInput=socket'' \<in> set (text_lines (serviceFileContent ''/dev/usb/lp1''))"
proof -
  obtain t where t: "main env_ok = Some (t, 0)"
    "written t = [(socketFilePath, socketFileContent, 420),
                  (serviceFilePath, serviceFileContent ''/dev/usb/lp1'', 420)]"
    using env_ok_main by blast
  have ne: "serviceFilePath \<noteq> socketFilePath"
    by (simp add: serviceFilePath_def socketFilePath_def)
  note m = service_unit_is_template_service [where env = env_ok and t = t and code = 0,
      THEN conjunct2, THEN conjunct2, THEN conjunct2, THEN conjunct2, THEN mp, OF t(1)]
  have a: "(socketFilePath, socketFileContent, 420) \<in> set (written t)"
    and b: "(serviceFilePath, serviceFileContent ''/dev/usb/lp1'', 420) \<in> set (written t)"
    unfolding t(2) by simp_all
  have "''Accept=yes'' \<in> set (text_lines socketFileContent)"
    using m [THEN bspec, OF a] by simp
  moreover have "''StandardInput=socket'' \<in> set (text_lines (serviceFileContent ''/dev/usb/lp1''))"
    using m [THEN bspec, OF b] ne by simp
  ultimately show ?thesis
    using t by blast
qed

subsection \<open>C9: no printer\<close>

text \<open>
  Claim C9. On the empty list \<^verbatim>\<open>selectPrinter\<close> returns an error without prompting or
  reading, and \<^verbatim>\<open>main\<close> then ends with \<^verbatim>\<open>log.Fatalf\<close>: when no printer is discovered
  the program exits before any unit file is written and before any command is run.

  \<^verbatim>\<open>selectPrinter\<close> adds no event on the empty list. When the process is root and no
  match of the glob is a character device, the run is: banner, check, confirmation,
  the glob, one \<^verbatim>\<open>Stat\<close> per match, the count 0, the fatal message.
\<close>

theorem no_printer_no_install:
  "selectPrinter env [] t = Some (t, Inl ''no se encontraron impresoras USB en /dev/usb/lpX'') \<and>
   (os_Geteuid env = 0 \<longrightarrow> filepath_Glob env ''/dev/usb/lp*'' = Inr matches \<longrightarrow>
    filter (is_char_device env) matches = [] \<longrightarrow>
      main env =
        Some ([Stdout (''Iniciando la configuraci'' @ [CHR 0xC3, CHR 0xB3] @
                       ''n del servicio de impresora ESC/POS...\<newline>''),
               CallGeteuid,
               Stdout (check_mark @ '' Permisos de root confirmados.\<newline>''),
               CallGlob ''/dev/usb/lp*''] @ map CallStat matches @
              [Stdout ''0\<newline>'',
               LogFatal ''Error: no se encontraron impresoras USB en /dev/usb/lpX''], 1) \<and>
      (\<exists>u. main env = Some (u, 1) \<and> written u = [] \<and> executed u = [] \<and> scans u = 0))"
proof (intro conjI impI)
  show "selectPrinter env [] t = Some (t, Inl ''no se encontraron impresoras USB en /dev/usb/lpX'')"
    by (rule selectPrinter_empty)
next
  assume a: "os_Geteuid env = 0" "filepath_Glob env ''/dev/usb/lp*'' = Inr matches"
    "filter (is_char_device env) matches = []"
  then show m: "main env =
        Some ([Stdout (''Iniciando la configuraci'' @ [CHR 0xC3, CHR 0xB3] @
                       ''n del servicio de impresora ESC/POS...\<newline>''),
               CallGeteuid,
               Stdout (check_mark @ '' Permisos de root confirmados.\<newline>''),
               CallGlob ''/dev/usb/lp*''] @ map CallStat matches @
              [Stdout ''0\<newline>'',
               LogFatal ''Error: no se encontraron impresoras USB en /dev/usb/lpX''], 1)"
    by (rule main_no_printer)
  show "\<exists>u. main env = Some (u, 1) \<and> written u = [] \<and> executed u = [] \<and> scans u = 0"
    unfolding m by (simp add: written_append executed_append scans_append)
qed

text \<open>
  C9 on \<open>env_none\<close>, where the glob matches nothing.
\<close>

theorem no_printer_no_install_witness:
  "os_Geteuid env_none = 0 \<and> filepath_Glob env_none ''/dev/usb/lp*'' = Inr [] \<and>
   filter (is_char_device env_none) [] = [] \<and>
   selectPrinter env_none [] [] = Some ([], Inl ''no se encontraron impresoras USB en /dev/usb/lpX'') \<and>
   main env_none =
     Some ([Stdout (''Iniciando la configuraci'' @ [CHR 0xC3, CHR 0xB3] @
                    ''n del servicio de impresora ESC/POS...\<newline>''),
            CallGeteuid,
            Stdout (check_mark @ '' Permisos de root confirmados.\<newline>''),
            CallGlob ''/dev/usb/lp*'',
            Stdout ''0\<newline>'',
            LogFatal ''Error: no se encontraron impresoras USB en /dev/usb/lpX''], 1)"
proof -
  have h: "os_Geteuid env_none = 0" "filepath_Glob env_none ''/dev/usb/lp*'' = Inr []"
    "filter (is_char_device env_none) [] = []"
    by (simp_all add: env_none_def env_ok_def)
  with no_printer_no_install [of env_none "[]" "[]"] show ?thesis
    by simp
qed

subsection \<open>C10: what the unit file contents depend on\<close>

text \<open>
  Claim C10. The socket unit content is a fixed constant: the bytes written to the
  socket file are the same in any two runs. The service unit content depends on the
  run only through the selected printer path, which is inserted as it is in the
  \<^verbatim>\<open>ExecStart\<close> line.
\<close>

theorem socket_constant_service_by_printer:
  "serviceFileContent printerPath =
     ''[Unit]\<newline>Description=ESC/POS Printer Service\<newline>\<newline>[Service]\<newline>ExecStart=-/usr/bin/tee /dev/null > '' @
     printerPath @ ''\<newline>StandardInput=socket\<newline>'' \<and>
   (main env = Some (t, code) \<longrightarrow>
      (\<forall>(path, content, perm) \<in> set (written t).
         (path = socketFilePath \<and> content = socketFileContent) \<or>
         (path = serviceFilePath \<and>
          (\<exists>sel. selected_printer env = Some sel \<and> content = serviceFileContent sel)))) \<and>
   (main env = Some (t, code) \<longrightarrow> main env' = Some (t', code') \<longrightarrow>
      (\<forall>content perm content' perm'.
         (socketFilePath, content, perm) \<in> set (written t) \<longrightarrow>
         (socketFilePath, content', perm') \<in> set (written t') \<longrightarrow> content = content') \<and>
      (selected_printer env = selected_printer env' \<longrightarrow>
         (\<forall>content perm content' perm'.
            (serviceFilePath, content, perm) \<in> set (written t) \<longrightarrow>
            (serviceFilePath, content', perm') \<in> set (written t') \<longrightarrow> content = content')))"
proof (intro conjI impI allI)
  show "serviceFileContent printerPath =
     ''[Unit]\<newline>Description=ESC/POS Printer Service\<newline>\<newline>[Service]\<newline>ExecStart=-/usr/bin/tee /dev/null > '' @
     printerPath @ ''\<newline>StandardInput=socket\<newline>''"
    by (simp add: serviceFileContent_def)
next
  assume "main env = Some (t, code)"
  then show "\<forall>(path, content, perm) \<in> set (written t).
         (path = socketFilePath \<and> content = socketFileContent) \<or>
         (path = serviceFilePath \<and>
          (\<exists>sel. selected_printer env = Some sel \<and> content = serviceFileContent sel))"
    by (rule main_written_contents)
next
  fix content perm content' perm'
  assume m: "main env = Some (t, code)" and m': "main env' = Some (t', code')"
    and a: "(socketFilePath, content, perm) \<in> set (written t)"
    and a': "(socketFilePath, content', perm') \<in> set (written t')"
  from main_written_contents [OF m, THEN bspec, OF a] paths_distinct
  have "content = socketFileContent" by auto
  moreover from main_written_contents [OF m', THEN bspec, OF a'] paths_distinct
  have "content' = socketFileContent" by auto
  ultimately show "content = content'" by simp
next
  fix content perm content' perm'
  assume m: "main env = Some (t, code)" and m': "main env' = Some (t', code')"
    and s: "selected_printer env = selected_printer env'"
    and a: "(serviceFilePath, content, perm) \<in> set (written t)"
    and a': "(serviceFilePath, content', perm') \<in> set (written t')"
  from main_written_contents [OF m, THEN bspec, OF a] paths_distinct
  obtain sel where "selected_printer env = Some sel" "content = serviceFileContent sel" by auto
  moreover from main_written_contents [OF m', THEN bspec, OF a'] paths_distinct
  obtain sel' where "selected_printer env' = Some sel'" "content' = serviceFileContent sel'" by auto
  ultimately show "content = content'" using s by simp
qed

text \<open>
  C10 on \<open>env_ok\<close> and \<open>env_retry\<close>: the same socket unit, and the service units of the
  printers selected, \<^verbatim>\<open>/dev/usb/lp1\<close> and \<^verbatim>\<open>/dev/usb/lp0\<close>.
\<close>

theorem socket_constant_service_by_printer_witness:
  "\<exists>t t'. main env_ok = Some (t, 0) \<and> main env_retry = Some (t', 0) \<and>
     written t = [(socketFilePath, socketFileContent, 420),
                  (serviceFilePath, serviceFileContent ''/dev/usb/lp1'', 420)] \<and>
     written t' = [(socketFilePath, socketFileContent, 420),
                   (serviceFilePath, serviceFileContent ''/dev/usb/lp0'', 420)] \<and>
     selected_printer env_ok = Some ''/dev/usb/lp1'' \<and>
     selected_printer env_retry = Some ''/dev/usb/lp0''"
proof -
  obtain t where t: "main env_ok = Some (t, 0)"
    "written t = [(socketFilePath, socketFileContent, 420),
                  (serviceFilePath, serviceFileContent ''/dev/usb/lp1'', 420)]"
    using env_ok_main by blast
  obtain t' where t': "main env_retry = Some (t', 0)"
    "written t' = [(socketFilePath, socketFileContent, 420),
                   (serviceFilePath, serviceFileContent ''/dev/usb/lp0'', 420)]"
    using env_retry_main by blast
  have b: "(serviceFilePath, serviceFileContent ''/dev/usb/lp1'', 420) \<in> set (written t)"
    and b': "(serviceFilePath, serviceFileContent ''/dev/usb/lp0'', 420) \<in> set (written t')"
    unfolding t(2) t'(2) by simp_all
  from socket_constant_service_by_printer [where env = env_ok and t = t and code = 0,
      THEN conjunct2, THEN conjunct1, THEN mp, OF t(1), THEN bspec, OF b]
  have "selected_printer env_ok = Some ''/dev/usb/lp1''"
    using paths_distinct by (auto simp: serviceFileContent_inject)
  moreover
  from socket_constant_service_by_printer [where env = env_retry and t = t' and code = 0,
      THEN conjunct2, THEN conjunct1, THEN mp, OF t'(1), THEN bspec, OF b']
  have "selected_printer env_retry = Some ''/dev/usb/lp0''"
    using paths_distinct by (auto simp: serviceFileContent_inject)
  ultimately show ?thesis
    using t t' by blast
qed

end
